(* ===== verification/KPI_Prelude.thy ===== *)
theory KPI_Prelude
  imports Complex_Main "HOL-Library.Multiset"
begin

text \<open>
  Shared vocabulary of the KPI dashboard development: the named theorem collections
  the component theories fill, the type names of the model, and generic lemmas on
  left folds, sums and association lists that the aggregation proofs use.
\<close>

named_theorems jsnum_simps "evaluation rules of the JavaScript number model"
named_theorems jsobj_simps "characteristic equations of the JavaScript object model"
named_theorems date_simps "evaluation rules of the ECMAScript date model"

type_synonym tz_offset = int \<comment> \<open>local time minus UTC, in milliseconds\<close>
type_synonym time_value = "int option" \<comment> \<open>milliseconds since the epoch; None is NaN\<close>

section \<open>Left folds that add\<close>

text \<open>
  Every accumulator of the source is an \<^verbatim>\<open>Array.prototype.reduce\<close>, a left fold.
  Over a commutative monoid a left fold that adds a contribution per element is the
  sum of the contributions.
\<close>

lemma foldl_add_sum_list:
  fixes f :: "'a \<Rightarrow> 'b::comm_monoid_add"
  shows "foldl (\<lambda>s x. s + f x) a xs = a + sum_list (map f xs)"
  by (induction xs arbitrary: a) (simp_all add: add.assoc)

lemma sum_list_map_perm:
  fixes f :: "'a \<Rightarrow> 'b::comm_monoid_add"
  shows "mset xs = mset ys \<Longrightarrow> sum_list (map f xs) = sum_list (map f ys)"
  by (metis mset_map sum_mset_sum_list)

lemma sum_list_map_filter_if:
  fixes f :: "'a \<Rightarrow> 'b::comm_monoid_add"
  shows "sum_list (map (\<lambda>x. if P x then f x else 0) xs) = sum_list (map f (filter P xs))"
  by (induction xs) simp_all

section \<open>Floor division on integers\<close>

text \<open>
  ECMAScript's calendar arithmetic uses \<open>floor\<close>, which is \<open>div\<close> on \<open>int\<close>.
  Two facts about it, used with the decompositions instead of \<open>presburger\<close>, which is
  slow on the calendar's large constants.
\<close>

lemma int_div_bounds:
  fixes x n :: int
  assumes "0 < n"
  shows "n * (x div n) \<le> x \<and> x < n * (x div n) + n"
proof -
  have "n * (x div n) + x mod n = x" by (rule mult_div_mod_eq)
  moreover have "0 \<le> x mod n" "x mod n < n" using assms by simp_all
  ultimately show ?thesis by linarith
qed

lemma int_div_succ:
  fixes x n :: int
  assumes n: "1 < n"
  shows "(x + 1) div n = x div n + (if (x + 1) mod n = 0 then 1 else 0)"
proof -
  have split: "(x + 1) div n = x div n + 1 div n + (x mod n + 1 mod n) div n"
    by (rule div_add1_eq)
  have one: "1 div n = 0" "1 mod n = 1" using n by simp_all
  have m: "0 \<le> x mod n" "x mod n < n" using n by simp_all
  have md: "(x + 1) mod n = (x mod n + 1) mod n" by (simp add: mod_add_left_eq)
  show ?thesis
  proof (cases "x mod n + 1 = n")
    case True
    then show ?thesis using split one md n by simp
  next
    case False
    with m have "x mod n + 1 < n" by linarith
    then have "(x mod n + 1) div n = 0" "(x mod n + 1) mod n = x mod n + 1"
      using m by simp_all
    then show ?thesis using split one md m by simp
  qed
qed

section \<open>First-seen order\<close>

text \<open>
  The distinct elements of a list in the order of their first occurrence: the order in
  which a fold that appends unseen keys creates them.
\<close>

definition first_seen :: "'a list \<Rightarrow> 'a list" where
  "first_seen xs = rev (remdups (rev xs))"

lemma first_seen_Nil [simp]: "first_seen [] = []"
  by (simp add: first_seen_def)

lemma first_seen_snoc [simp]:
  "first_seen (xs @ [x]) = (if x \<in> set xs then first_seen xs else first_seen xs @ [x])"
  by (simp add: first_seen_def)

lemma set_first_seen [simp]: "set (first_seen xs) = set xs"
  by (simp add: first_seen_def)

lemma distinct_first_seen [simp]: "distinct (first_seen xs)"
  by (simp add: first_seen_def)

lemma map_filter_snoc [simp]:
  "List.map_filter f (xs @ [x]) =
     List.map_filter f xs @ (case f x of None \<Rightarrow> [] | Some y \<Rightarrow> [y])"
  by (induction xs) (simp_all split: option.split)

section \<open>Decimal digits\<close>

text \<open>Digits of a string, shared by the property-key order and the date parser.\<close>

definition is_digit :: "char \<Rightarrow> bool" where
  "is_digit c \<longleftrightarrow> (48::nat) \<le> of_char c \<and> of_char c \<le> (57::nat)"

definition digit_val :: "char \<Rightarrow> nat" where
  "digit_val c = of_char c - 48"

definition decimal_value :: "string \<Rightarrow> nat" where
  "decimal_value s = foldl (\<lambda>n c. 10 * n + digit_val c) 0 s"

section \<open>Counting in lists\<close>

lemma filter_count_take:
  assumes "\<forall>x \<in> set (take k xs). P x" "k \<le> length xs"
  shows "k \<le> length (filter P xs)"
proof -
  have "length (filter P (take k xs)) = k"
    using assms by (simp add: min_absorb2)
  moreover have "length (filter P xs) = length (filter P (take k xs)) + length (filter P (drop k xs))"
    by (metis append_take_drop_id filter_append length_append)
  ultimately show ?thesis by linarith
qed

lemma filter_count_drop:
  assumes "\<forall>x \<in> set (drop k xs). P x"
  shows "length xs - k \<le> length (filter P xs)"
proof -
  have "length (filter P (drop k xs)) = length xs - k"
    using assms by simp
  moreover have "length (filter P xs) = length (filter P (take k xs)) + length (filter P (drop k xs))"
    by (metis append_take_drop_id filter_append length_append)
  ultimately show ?thesis by linarith
qed

lemma length_filter_sort: "length (filter P (sort xs)) = length (filter P xs)"
  by (metis mset_filter mset_sort size_mset)

section \<open>Association lists\<close>

lemma map_of_append_None [simp]:
  "k \<notin> fst ` set ps \<Longrightarrow> map_of (ps @ qs) k = map_of qs k"
  by (induction ps) auto

lemma distinct_map_fst_snoc [simp]:
  "distinct (map fst (ps @ [(k, v)])) \<longleftrightarrow> distinct (map fst ps) \<and> k \<notin> fst ` set ps"
  by auto

end
