(* ===== verification/JS_Values.thy ===== *)
theory JS_Values
  imports KPI_Prelude
begin

text \<open>
  The JavaScript values the dashboard computes with. A record field delivered by the
  data source holds a value of its declared TypeScript type, or \<^verbatim>\<open>null\<close>, or is
  absent (\<^verbatim>\<open>undefined\<close>): the type \<open>'a jsopt\<close>. A JavaScript number is an IEEE
  double; it is modelled here by \<open>jsnum\<close>: an exact real, NaN, or one of the two
  infinities. Rounding is not modelled (sums are exact), and neither is the negative
  zero: every total of the source starts at \<^verbatim>\<open>+0\<close> and IEEE addition never
  produces \<^verbatim>\<open>-0\<close> from a \<^verbatim>\<open>+0\<close> accumulator, so no divisor of the source is
  \<^verbatim>\<open>-0\<close>. The operations follow ECMAScript's Number::add, Number::multiply and
  Number::divide (ECMA-262 6.1.6.1) without rounding.
\<close>

datatype 'a jsopt = Val 'a | Null | Undefined

datatype jsnum = Fin real | NaN | PosInf | NegInf

section \<open>Addition: a commutative monoid\<close>

text \<open>Number::add: NaN absorbs, opposite infinities give NaN, an infinity absorbs a finite number.\<close>

fun js_add :: "jsnum \<Rightarrow> jsnum \<Rightarrow> jsnum" where
  "js_add (Fin a) (Fin b) = Fin (a + b)"
| "js_add NaN y = NaN"
| "js_add x NaN = NaN"
| "js_add PosInf NegInf = NaN"
| "js_add NegInf PosInf = NaN"
| "js_add PosInf y = PosInf"
| "js_add x PosInf = PosInf"
| "js_add NegInf y = NegInf"
| "js_add x NegInf = NegInf"

instantiation jsnum :: comm_monoid_add
begin

definition zero_jsnum :: jsnum where
  "zero_jsnum = Fin 0"

definition plus_jsnum :: "jsnum \<Rightarrow> jsnum \<Rightarrow> jsnum" where
  "plus_jsnum x y = js_add x y"

lemma js_add_plus:
  fixes x y :: jsnum
  shows "js_add x y = x + y"
  by (simp add: plus_jsnum_def)

lemmas jsnum_plus_simps [simp] = js_add.simps [unfolded js_add_plus]

lemma jsnum_add_left_assoc:
  fixes x y z :: jsnum
  shows "(x + y) + z = x + (y + z)"
  by (cases x; cases y; cases z) simp_all

lemma jsnum_add_swap:
  fixes x y :: jsnum
  shows "x + y = y + x"
  by (cases x; cases y) simp_all

lemma jsnum_zero_add:
  fixes x :: jsnum
  shows "0 + x = x"
  by (cases x) (simp_all add: zero_jsnum_def)

instance
  by standard (fact jsnum_add_left_assoc, fact jsnum_add_swap, fact jsnum_zero_add)

end

lemma Fin_zero [jsnum_simps]: "Fin 0 = 0"
  by (simp add: zero_jsnum_def)

lemma sum_list_Fin [jsnum_simps]: "sum_list (map (\<lambda>x. Fin (f x)) xs) = Fin (sum_list (map f xs))"
  by (induction xs) (simp_all add: zero_jsnum_def)

lemma NaN_add_absorb [simp]: "NaN + x = NaN" "x + NaN = NaN"
  by (cases x; simp)+

section \<open>Multiplication and division\<close>

fun js_mul :: "jsnum \<Rightarrow> jsnum \<Rightarrow> jsnum" where
  "js_mul (Fin a) (Fin b) = Fin (a * b)"
| "js_mul NaN y = NaN"
| "js_mul x NaN = NaN"
| "js_mul (Fin a) y = (if a = 0 then NaN else if (0 < a) = (y = PosInf) then PosInf else NegInf)"
| "js_mul x (Fin b) = (if b = 0 then NaN else if (0 < b) = (x = PosInf) then PosInf else NegInf)"
| "js_mul x y = (if x = y then PosInf else NegInf)"

fun js_div :: "jsnum \<Rightarrow> jsnum \<Rightarrow> jsnum" where
  "js_div (Fin a) (Fin b) =
     (if b \<noteq> 0 then Fin (a / b)
      else if a = 0 then NaN else if 0 < a then PosInf else NegInf)"
| "js_div NaN y = NaN"
| "js_div x NaN = NaN"
| "js_div (Fin a) y = Fin 0"
| "js_div x (Fin b) = (if (0 \<le> b) = (x = PosInf) then PosInf else NegInf)"
| "js_div x y = NaN"

lemma js_div_Fin_nonzero [jsnum_simps]: "b \<noteq> 0 \<Longrightarrow> js_div (Fin a) (Fin b) = Fin (a / b)"
  by simp

lemma js_div_by_zero [jsnum_simps]:
  "js_div (Fin a) (Fin 0) = (if a = 0 then NaN else if 0 < a then PosInf else NegInf)"
  by simp

text \<open>A finite number is one that is neither NaN nor an infinity (\<^verbatim>\<open>Number.isFinite\<close>).\<close>

fun is_finite :: "jsnum \<Rightarrow> bool" where
  "is_finite (Fin _) = True"
| "is_finite _ = False"

section \<open>Field values: truthiness, \<^verbatim>\<open>|| 0\<close> and ToNumber\<close>

text \<open>
  \<^verbatim>\<open>(record.Sales || 0)\<close>: a number field that is \<^verbatim>\<open>null\<close>, absent or zero
  contributes zero; a field from JSON is never NaN, so no other case is falsy.
\<close>

fun or_zero :: "real jsopt \<Rightarrow> real" where
  "or_zero (Val r) = r"
| "or_zero Null = 0"
| "or_zero Undefined = 0"

text \<open>ToNumber, for the \<^verbatim>\<open>+\<close> of the source: \<^verbatim>\<open>null\<close> is 0, \<^verbatim>\<open>undefined\<close> is NaN.\<close>

fun to_number :: "jsnum jsopt \<Rightarrow> jsnum" where
  "to_number (Val n) = n"
| "to_number Null = Fin 0"
| "to_number Undefined = NaN"

definition num_field :: "real jsopt \<Rightarrow> jsnum jsopt" where
  "num_field v = map_jsopt Fin v"

text \<open>\<^verbatim>\<open>a + b\<close> on two values that are numbers, \<^verbatim>\<open>null\<close> or \<^verbatim>\<open>undefined\<close>.\<close>

definition js_plus :: "jsnum jsopt \<Rightarrow> jsnum jsopt \<Rightarrow> jsnum jsopt" where
  "js_plus a b = Val (to_number a + to_number b)"

lemma to_number_num_field [jsnum_simps]:
  "to_number (num_field v) = (case v of Val r \<Rightarrow> Fin r | Null \<Rightarrow> Fin 0 | Undefined \<Rightarrow> NaN)"
  by (cases v) (simp_all add: num_field_def)

lemma or_zero_to_number [jsnum_simps]:
  "v \<noteq> Undefined \<Longrightarrow> to_number (num_field v) = Fin (or_zero v)"
  by (cases v) (simp_all add: num_field_def)

lemma js_plus_Fin [jsnum_simps]: "js_plus (Val (Fin a)) (num_field (Val b)) = Val (Fin (a + b))"
  by (simp add: js_plus_def num_field_def)

end
