(* ===== verification/Sales_Data.thy ===== *)
theory Sales_Data
  imports JS_Values
begin

text \<open>
  The \<^verbatim>\<open>Sale\<close> interface of \<^verbatim>\<open>src/src/app/models/sales-data.ts\<close>: one document of
  the CouchDB database. Every field has its declared type, or is \<^verbatim>\<open>null\<close>, or is
  absent, as a JSON document may have it (\<open>'a jsopt\<close>). The fields \<^verbatim>\<open>_id\<close>,
  \<^verbatim>\<open>_rev\<close> and \<^verbatim>\<open>type\<close> are renamed \<open>sale_id\<close>, \<open>sale_rev\<close> and
  \<open>doc_type\<close>, which Isabelle accepts as identifiers.
\<close>

record sale =
  sale_id :: "string jsopt"
  sale_rev :: "string jsopt"
  Order_ID :: "string jsopt"
  Fulfillment_Date :: "string jsopt"
  Order_Date :: "string jsopt"
  Ship_Date :: "string jsopt"
  Ship_Mode :: "string jsopt"
  Customer_ID :: "string jsopt"
  Customer_Name :: "string jsopt"
  Segment :: "string jsopt"
  City :: "string jsopt"
  State :: "string jsopt"
  Country :: "string jsopt"
  Region :: "string jsopt"
  Product_ID :: "string jsopt"
  Category :: "string jsopt"
  Sub_Category :: "string jsopt"
  Product_Name :: "string jsopt"
  Sales :: "real jsopt"
  Quantity :: "real jsopt"
  Discount :: "real jsopt"
  Profit :: "real jsopt"
  doc_type :: "string jsopt"

text \<open>A document with every field absent, the base of the concrete inputs below.\<close>

definition empty_sale :: sale where
  "empty_sale =
     \<lparr>sale_id = Undefined, sale_rev = Undefined, Order_ID = Undefined,
      Fulfillment_Date = Undefined, Order_Date = Undefined, Ship_Date = Undefined,
      Ship_Mode = Undefined, Customer_ID = Undefined, Customer_Name = Undefined,
      Segment = Undefined, City = Undefined, State = Undefined, Country = Undefined,
      Region = Undefined, Product_ID = Undefined, Category = Undefined,
      Sub_Category = Undefined, Product_Name = Undefined, Sales = Undefined,
      Quantity = Undefined, Discount = Undefined, Profit = Undefined,
      doc_type = Undefined\<rparr>"

end
