(* ===== verification/JS_Object.thy ===== *)
theory JS_Object
  imports KPI_Prelude
begin

text \<open>
  A plain JavaScript object used as a dictionary (\<^verbatim>\<open>{} as {[key: string]: number}\<close>).
  Its own properties are an association list in creation order: \<^verbatim>\<open>acc[k] = v\<close>
  overwrites the value of an existing property in place and appends a new one at the
  end. The order in which \<^verbatim>\<open>Object.keys\<close>, \<^verbatim>\<open>Object.values\<close> and
  \<^verbatim>\<open>Object.entries\<close> list the properties is ECMAScript's OrdinaryOwnPropertyKeys
  (ECMA-262 10.1.11.1): first the keys that are array indices, in ascending numeric
  order, then the other string keys in creation order. \<^verbatim>\<open>Object.fromEntries\<close>
  creates the properties in the order of its argument.
  Properties inherited from \<^verbatim>\<open>Object.prototype\<close> (\<^verbatim>\<open>__proto__\<close>,
  \<^verbatim>\<open>constructor\<close>, \<^verbatim>\<open>toString\<close>, ...) are not modelled: the keys are assumed not
  to name them (see the findings of the root theory).
\<close>

type_synonym 'v jsobj = "(string \<times> 'v) list"

definition obj_get :: "'v jsobj \<Rightarrow> string \<Rightarrow> 'v option" where
  "obj_get obj k = map_of obj k"

fun obj_set :: "'v jsobj \<Rightarrow> string \<Rightarrow> 'v \<Rightarrow> 'v jsobj" where
  "obj_set [] k v = [(k, v)]"
| "obj_set ((k', v') # ps) k v = (if k' = k then (k, v) # ps else (k', v') # obj_set ps k v)"

definition obj_wf :: "'v jsobj \<Rightarrow> bool" where
  "obj_wf obj \<longleftrightarrow> distinct (map fst obj)"

section \<open>Array indices\<close>

text \<open>
  An array index is a canonical decimal numeral (no sign, no leading zero unless it is
  \<^verbatim>\<open>"0"\<close>) whose value is below \<open>2^32 - 1\<close>.
\<close>

definition is_array_index :: "string \<Rightarrow> bool" where
  "is_array_index s \<longleftrightarrow>
     s \<noteq> [] \<and> list_all is_digit s \<and> (s = ''0'' \<or> hd s \<noteq> CHR ''0'') \<and>
     decimal_value s < 4294967295"

section \<open>Enumeration order\<close>

definition obj_entries :: "'v jsobj \<Rightarrow> (string \<times> 'v) list" where
  "obj_entries obj =
     sort_key (\<lambda>p. decimal_value (fst p)) (filter (\<lambda>p. is_array_index (fst p)) obj) @
     filter (\<lambda>p. \<not> is_array_index (fst p)) obj"

definition own_keys :: "'v jsobj \<Rightarrow> string list" where
  "own_keys obj = map fst (obj_entries obj)"

definition obj_values :: "'v jsobj \<Rightarrow> 'v list" where
  "obj_values obj = map snd (obj_entries obj)"

definition obj_from_entries :: "(string \<times> 'v) list \<Rightarrow> 'v jsobj" where
  "obj_from_entries es = foldl (\<lambda>obj (k, v). obj_set obj k v) [] es"

section \<open>Lookup after update\<close>

lemma map_of_obj_set [jsobj_simps]: "map_of (obj_set obj k v) = (map_of obj)(k \<mapsto> v)"
  by (induction obj) (auto simp: fun_eq_iff)

lemma obj_get_set [simp, jsobj_simps]:
  "obj_get (obj_set obj k v) k' = (if k' = k then Some v else obj_get obj k')"
  by (simp add: obj_get_def map_of_obj_set)

lemma keys_obj_set [jsobj_simps]:
  "map fst (obj_set obj k v) = (if k \<in> fst ` set obj then map fst obj else map fst obj @ [k])"
  by (induction obj) force+

lemma set_keys_obj_set [simp]: "fst ` set (obj_set obj k v) = insert k (fst ` set obj)"
  by (simp add: map_of_obj_set flip: dom_map_of_conv_image_fst)

lemma obj_wf_set [simp]: "obj_wf obj \<Longrightarrow> obj_wf (obj_set obj k v)"
  unfolding obj_wf_def by (induction obj) auto

lemma obj_set_fresh [jsobj_simps]:
  "k \<notin> fst ` set obj \<Longrightarrow> obj_set obj k v = obj @ [(k, v)]"
  by (induction obj) auto

lemma obj_set_tabulated:
  "distinct ks \<Longrightarrow>
   obj_set (map (\<lambda>k'. (k', f k')) ks) k v =
     (if k \<in> set ks then map (\<lambda>k'. (k', (f(k := v)) k')) ks
      else map (\<lambda>k'. (k', f k')) ks @ [(k, v)])"
  by (induction ks) auto

lemma obj_set_same: "obj_get acc k = Some v \<Longrightarrow> obj_set acc k v = acc"
  by (induction acc) (auto simp: obj_get_def split: if_splits)

lemma obj_set_twice: "obj_set (obj_set acc k v) k w = obj_set acc k w"
  by (induction acc) auto

lemma obj_wf_Nil [simp]: "obj_wf []"
  by (simp add: obj_wf_def)

section \<open>Enumeration\<close>

lemma mset_obj_entries [simp]: "mset (obj_entries obj) = mset obj"
  by (simp add: obj_entries_def)

lemma obj_entries_no_index [jsobj_simps]:
  "\<forall>k \<in> fst ` set obj. \<not> is_array_index k \<Longrightarrow> obj_entries obj = obj"
  by (simp add: obj_entries_def filter_empty_conv)

lemma foldl_obj_set_distinct:
  fixes acc es :: "'v jsobj"
  shows "distinct (map fst (acc @ es)) \<Longrightarrow> foldl (\<lambda>obj (k, v). obj_set obj k v) acc es = acc @ es"
  by (induction es arbitrary: acc) (auto simp: obj_set_fresh)

lemma obj_from_entries_distinct [jsobj_simps]:
  "distinct (map fst es) \<Longrightarrow> obj_from_entries es = es"
  using foldl_obj_set_distinct [of "[]" es] by (simp add: obj_from_entries_def)

lemma obj_wf_foldl_set: "obj_wf acc \<Longrightarrow> obj_wf (foldl (\<lambda>obj (k, v). obj_set obj k v) acc es)"
  by (induction es arbitrary: acc) auto

lemma obj_wf_from_entries: "obj_wf (obj_from_entries es)"
  by (simp add: obj_from_entries_def obj_wf_foldl_set)

lemma set_obj_set: "set (obj_set obj k v) \<subseteq> set obj \<union> {(k, v)}"
  by (induction obj) (auto split: if_splits)

end
