(* ===== verification/Aggregates.thy ===== *)
theory Aggregates
  imports Sales_Data JS_Object
begin

text \<open>
  The scalar sums and the grouped sums of \<^verbatim>\<open>DashboardComponent.calculateKPIs\<close>
  (src/src/app/dashboard/dashboard.component.ts, lines 69--95): \<^verbatim>\<open>totalSales\<close>,
  \<^verbatim>\<open>totalProfit\<close>, \<^verbatim>\<open>salesByRegion\<close>, \<^verbatim>\<open>topCategories\<close> (grouped, then ranked by
  \<^verbatim>\<open>Array.prototype.sort\<close>) and \<^verbatim>\<open>profitDistribution\<close>. Each is a left fold
  (\<^verbatim>\<open>reduce\<close>) over the records; each grouped sum is one instance of \<open>group_sum\<close>.
\<close>

section \<open>Scalar sums\<close>

definition total_sales :: "sale list \<Rightarrow> real" where
  "total_sales recs = foldl (\<lambda>sum r. sum + or_zero (Sales r)) 0 recs"

definition total_profit :: "sale list \<Rightarrow> real" where
  "total_profit recs = foldl (\<lambda>sum r. sum + or_zero (Profit r)) 0 recs"

section \<open>Group and sum\<close>

text \<open>\<^verbatim>\<open>if (record.Region)\<close>: the key of a record, when it is a non-empty string.\<close>

fun truthy_key :: "string jsopt \<Rightarrow> string option" where
  "truthy_key (Val s) = (if s = [] then None else Some s)"
| "truthy_key Null = None"
| "truthy_key Undefined = None"

text \<open>\<^verbatim>\<open>(acc[k] || 0)\<close>: an absent property reads as \<^verbatim>\<open>undefined\<close>, which is falsy.\<close>

definition get_or_zero :: "real jsobj \<Rightarrow> string \<Rightarrow> real" where
  "get_or_zero acc k = (case obj_get acc k of Some x \<Rightarrow> x | None \<Rightarrow> 0)"

text \<open>The body of the \<^verbatim>\<open>reduce\<close> callback, for a key field and a metric field.\<close>

definition add_to_group ::
  "(sale \<Rightarrow> string jsopt) \<Rightarrow> (sale \<Rightarrow> real jsopt) \<Rightarrow> real jsobj \<Rightarrow> sale \<Rightarrow> real jsobj" where
  "add_to_group key metric acc r =
     (case truthy_key (key r) of
        None \<Rightarrow> acc
      | Some k \<Rightarrow> obj_set acc k (get_or_zero acc k + or_zero (metric r)))"

definition group_sum ::
  "(sale \<Rightarrow> string jsopt) \<Rightarrow> (sale \<Rightarrow> real jsopt) \<Rightarrow> sale list \<Rightarrow> real jsobj" where
  "group_sum key metric recs = foldl (add_to_group key metric) [] recs"

definition sales_by_region :: "sale list \<Rightarrow> real jsobj" where
  "sales_by_region recs = group_sum Region Sales recs"

definition category_totals :: "sale list \<Rightarrow> real jsobj" where
  "category_totals recs = group_sum Category Sales recs"

definition profit_distribution :: "sale list \<Rightarrow> real jsobj" where
  "profit_distribution recs = group_sum Country Profit recs"

section \<open>Ranking\<close>

text \<open>
  \<^verbatim>\<open>Array.prototype.sort(comparefn)\<close>: ECMAScript requires the sort to be stable
  (since ES2019) and leaves the algorithm to the engine; for a consistent comparator
  every stable sort returns the same list, the one this insertion sort returns. An
  element is placed before the first element it compares \<open>\<le> 0\<close> with.
\<close>

fun insert_by :: "('a \<Rightarrow> 'a \<Rightarrow> real) \<Rightarrow> 'a \<Rightarrow> 'a list \<Rightarrow> 'a list" where
  "insert_by cmp x [] = [x]"
| "insert_by cmp x (y # ys) = (if cmp x y \<le> 0 then x # y # ys else y # insert_by cmp x ys)"

definition js_sort :: "('a \<Rightarrow> 'a \<Rightarrow> real) \<Rightarrow> 'a list \<Rightarrow> 'a list" where
  "js_sort cmp xs = foldr (insert_by cmp) xs []"

text \<open>
  \<^verbatim>\<open>Object.fromEntries(Object.entries(acc).sort(([, a], [, b]) => b - a))\<close>.
\<close>

definition by_value_desc :: "string \<times> real \<Rightarrow> string \<times> real \<Rightarrow> real" where
  "by_value_desc p q = snd q - snd p"

definition top_categories :: "sale list \<Rightarrow> real jsobj" where
  "top_categories recs =
     obj_from_entries (js_sort by_value_desc (obj_entries (category_totals recs)))"

section \<open>Abstract specification of a grouped sum\<close>

text \<open>
  What a grouped sum promises: one entry per distinct non-empty key, in the order the
  keys are first seen, holding the sum of the metric over the records with that key.
\<close>

definition group_keys :: "(sale \<Rightarrow> string jsopt) \<Rightarrow> sale list \<Rightarrow> string list" where
  "group_keys key recs = first_seen (List.map_filter (\<lambda>r. truthy_key (key r)) recs)"

definition group_total ::
  "(sale \<Rightarrow> string jsopt) \<Rightarrow> (sale \<Rightarrow> real jsopt) \<Rightarrow> sale list \<Rightarrow> string \<Rightarrow> real" where
  "group_total key metric recs k =
     sum_list (map (\<lambda>r. or_zero (metric r)) (filter (\<lambda>r. truthy_key (key r) = Some k) recs))"

definition group_spec ::
  "(sale \<Rightarrow> string jsopt) \<Rightarrow> (sale \<Rightarrow> real jsopt) \<Rightarrow> sale list \<Rightarrow> real jsobj" where
  "group_spec key metric recs = map (\<lambda>k. (k, group_total key metric recs k)) (group_keys key recs)"

section \<open>Lemmas\<close>

lemma total_sales_sum: "total_sales recs = sum_list (map (\<lambda>r. or_zero (Sales r)) recs)"
  by (simp add: total_sales_def foldl_add_sum_list)

lemma total_profit_sum: "total_profit recs = sum_list (map (\<lambda>r. or_zero (Profit r)) recs)"
  by (simp add: total_profit_def foldl_add_sum_list)

lemma group_sum_Nil [simp]: "group_sum key metric [] = []"
  by (simp add: group_sum_def)

lemma group_sum_snoc:
  "group_sum key metric (recs @ [r]) = add_to_group key metric (group_sum key metric recs) r"
  by (simp add: group_sum_def)

lemma group_total_snoc:
  "group_total key metric (recs @ [r]) k =
     group_total key metric recs k + (if truthy_key (key r) = Some k then or_zero (metric r) else 0)"
  by (simp add: group_total_def)

lemma group_keys_snoc:
  "group_keys key (recs @ [r]) =
     (case truthy_key (key r) of
        None \<Rightarrow> group_keys key recs
      | Some k \<Rightarrow> if k \<in> set (group_keys key recs) then group_keys key recs
                  else group_keys key recs @ [k])"
  by (simp add: group_keys_def split: option.split)

lemma group_total_notin:
  assumes "k \<notin> set (group_keys key recs)"
  shows "group_total key metric recs k = 0"
proof -
  have "filter (\<lambda>r. truthy_key (key r) = Some k) recs = []"
    using assms by (force simp: group_keys_def map_filter_def filter_empty_conv image_iff)
  then show ?thesis by (simp add: group_total_def)
qed

lemma map_of_group_spec:
  "map_of (group_spec key metric recs) k =
     (if k \<in> set (group_keys key recs) then Some (group_total key metric recs k) else None)"
  by (simp add: group_spec_def map_of_map_restrict restrict_map_def)

lemma get_or_zero_tabulated:
  "get_or_zero (map (\<lambda>k'. (k', f k')) ks) k = (if k \<in> set ks then f k else 0)"
  by (simp add: get_or_zero_def obj_get_def map_of_map_restrict restrict_map_def)

text \<open>
  The fold of the source implements the specification exactly: same keys, same order,
  same sums. This is the refinement lemma every grouped KPI is derived from.
\<close>

lemma group_sum_refines_spec: "group_sum key metric recs = group_spec key metric recs"
proof (induction recs rule: rev_induct)
  case Nil
  show ?case by (simp add: group_sum_def group_spec_def group_keys_def)
next
  case (snoc r recs)
  have dist: "distinct (group_keys key recs)"
    by (simp add: group_keys_def)
  show ?case
  proof (cases "truthy_key (key r)")
    case None
    then show ?thesis
      by (simp add: group_sum_snoc snoc.IH add_to_group_def group_spec_def group_keys_snoc
          group_total_snoc)
  next
    case (Some k)
    then show ?thesis
      using dist
      by (auto simp: group_sum_snoc snoc.IH add_to_group_def get_or_zero_tabulated
          group_spec_def group_keys_snoc group_total_snoc obj_set_tabulated group_total_notin
          intro!: map_cong)
  qed
qed

subsection \<open>The comparator sort is the library's stable key sort\<close>

lemma insert_by_desc:
  "insert_by (\<lambda>x y. g y - g x) x ys = insort_key (\<lambda>x. - g x) x ys"
  by (induction ys) auto

lemma js_sort_desc: "js_sort (\<lambda>x y. g y - g x) xs = sort_key (\<lambda>x. - g x) xs"
proof -
  have "insert_by (\<lambda>x y. g y - g x) = insort_key (\<lambda>x. - g x)"
    by (simp add: fun_eq_iff insert_by_desc)
  then show ?thesis by (simp add: js_sort_def sort_key_def)
qed

lemma js_sort_by_value_desc: "js_sort by_value_desc xs = sort_key (\<lambda>p. - snd p) xs"
  using js_sort_desc [of snd xs] by (simp add: by_value_desc_def [abs_def])

lemma distinct_keys_group_spec: "distinct (map fst (group_spec key metric recs))"
  by (simp add: group_spec_def group_keys_def o_def)

lemma keys_group_spec: "fst ` set (group_spec key metric recs) = set (group_keys key recs)"
  by (force simp: group_spec_def)

text \<open>
  When no category is an array index, \<^verbatim>\<open>topCategories\<close> is the per-category
  total list, in first-seen order, stably sorted by decreasing value.
\<close>

lemma top_categories_sorted_spec:
  assumes "\<forall>k \<in> set (group_keys Category recs). \<not> is_array_index k"
  shows "top_categories recs = sort_key (\<lambda>p. - snd p) (group_spec Category Sales recs)"
proof -
  let ?g = "group_spec Category Sales recs"
  have entries: "obj_entries ?g = ?g"
    using assms by (simp add: obj_entries_no_index keys_group_spec)
  have "distinct (map fst (sort_key (\<lambda>p. - snd p) ?g))"
    by (metis distinct_keys_group_spec mset_map mset_sort mset_eq_imp_distinct_iff)
  then show ?thesis
    by (simp add: top_categories_def category_totals_def group_sum_refines_spec entries
        js_sort_by_value_desc obj_from_entries_distinct)
qed

text \<open>A lookup in a grouped sum does not depend on the order of the records.\<close>

lemma set_group_keys: "set (group_keys key recs) = {k. \<exists>r \<in> set recs. truthy_key (key r) = Some k}"
  by (force simp: group_keys_def map_filter_def)

lemma group_total_perm:
  "mset recs' = mset recs \<Longrightarrow> group_total key metric recs' k = group_total key metric recs k"
  unfolding group_total_def by (rule sum_list_map_perm) simp

lemma group_sum_lookup_perm:
  assumes "mset recs' = mset recs"
  shows "obj_get (group_sum key metric recs') = obj_get (group_sum key metric recs)"
proof -
  have "set recs' = set recs" using assms by (metis set_mset_mset)
  then show ?thesis
    by (simp add: fun_eq_iff obj_get_def group_sum_refines_spec map_of_group_spec set_group_keys
        group_total_perm [OF assms])
qed

lemma obj_wf_group_sum: "obj_wf (group_sum key metric recs)"
  by (simp add: obj_wf_def group_sum_refines_spec distinct_keys_group_spec)


lemma obj_wf_add_to_group: "obj_wf acc \<Longrightarrow> obj_wf (add_to_group key metric acc r)"
  by (simp add: add_to_group_def split: option.split)

end
