(* ===== verification/JS_Date.thy ===== *)
theory JS_Date
  imports JS_Values
begin

text \<open>
  The parts of ECMAScript's \<^verbatim>\<open>Date\<close> (ECMA-262 21.4) that the dashboard uses:
  time values, the proleptic Gregorian calendar arithmetic of 21.4.1 (Day, DayFromYear,
  YearFromTime, MonthFromTime, DateFromTime, MakeDay, MakeDate, TimeClip), local time,
  the \<^verbatim>\<open>Date(year, month, day)\<close> constructor, the getters \<^verbatim>\<open>getFullYear\<close> and
  \<^verbatim>\<open>getMonth\<close>, and \<^verbatim>\<open>Date.parse\<close> on the date-time string format of 21.4.1.32.
  None of this is code of the repository: it is the platform the component runs on,
  modelled from the specification. Local time is a fixed offset \<open>tz\<close> from UTC, in
  milliseconds (LocalTime(t) = t + tz, UTC(t) = t - tz); daylight saving time is not
  modelled. A time value is \<open>int option\<close>, None standing for NaN.
\<close>

section \<open>Calendar arithmetic\<close>

definition ms_per_day :: int where
  "ms_per_day = 86400000"

definition is_leap :: "int \<Rightarrow> bool" where
  "is_leap y \<longleftrightarrow> y mod 4 = 0 \<and> (y mod 100 \<noteq> 0 \<or> y mod 400 = 0)"

definition days_in_year :: "int \<Rightarrow> int" where
  "days_in_year y = (if is_leap y then 366 else 365)"

definition day_from_year :: "int \<Rightarrow> int" where
  "day_from_year y = 365 * (y - 1970) + (y - 1969) div 4 - (y - 1901) div 100 + (y - 1601) div 400"

text \<open>
  YearFromTime is specified as the largest \<open>y\<close> with \<open>DayFromYear(y) \<le> Day(t)\<close>.
  The executable version estimates the year from the mean Gregorian year
  (146097 days per 400 years) and corrects the estimate by one in either direction;
  \<open>year_from_day_spec\<close> and \<open>year_from_day_greatest\<close> prove it meets the specification.
\<close>

definition year_from_day :: "int \<Rightarrow> int" where
  "year_from_day d =
     (let y = 1970 + (400 * d) div 146097 in
      if day_from_year (y + 1) \<le> d then y + 1 else if d < day_from_year y then y - 1 else y)"

definition month_table :: "int list" where
  "month_table = [0, 31, 59, 90, 120, 151, 181, 212, 243, 273, 304, 334, 365]"

definition month_start :: "bool \<Rightarrow> nat \<Rightarrow> int" where
  "month_start leap m = month_table ! m + (if leap \<and> 2 \<le> m then 1 else 0)"

definition days_in_month :: "bool \<Rightarrow> nat \<Rightarrow> int" where
  "days_in_month leap m = month_start leap (Suc m) - month_start leap m"

text \<open>MonthFromTime: the number of month boundaries at or before the day within the year.\<close>

definition month_from_dwy :: "bool \<Rightarrow> int \<Rightarrow> nat" where
  "month_from_dwy leap dwy = length (filter (\<lambda>m. month_start leap m \<le> dwy) [1, 2, 3, 4, 5, 6, 7, 8, 9, 10, 11])"

definition day_of :: "int \<Rightarrow> int" where
  "day_of t = t div ms_per_day"

definition year_from_time :: "int \<Rightarrow> int" where
  "year_from_time t = year_from_day (day_of t)"

definition day_within_year :: "int \<Rightarrow> int" where
  "day_within_year t = day_of t - day_from_year (year_from_time t)"

definition month_from_time :: "int \<Rightarrow> nat" where
  "month_from_time t = month_from_dwy (is_leap (year_from_time t)) (day_within_year t)"

definition date_from_time :: "int \<Rightarrow> int" where
  "date_from_time t =
     day_within_year t - month_start (is_leap (year_from_time t)) (month_from_time t) + 1"

definition make_day :: "int \<Rightarrow> int \<Rightarrow> int \<Rightarrow> int" where
  "make_day year month date =
     (let ym = year + month div 12; mn = nat (month mod 12)
      in day_from_year ym + month_start (is_leap ym) mn + date - 1)"

definition make_time :: "int \<Rightarrow> int \<Rightarrow> int \<Rightarrow> int \<Rightarrow> int" where
  "make_time h m s ms = h * 3600000 + m * 60000 + s * 1000 + ms"

definition make_date :: "int \<Rightarrow> int \<Rightarrow> int" where
  "make_date day time = day * ms_per_day + time"

definition time_clip :: "int \<Rightarrow> time_value" where
  "time_clip t = (if \<bar>t\<bar> \<le> 8640000000000000 then Some t else None)"

section \<open>Local time, the constructor and the getters\<close>

definition local_time :: "tz_offset \<Rightarrow> int \<Rightarrow> int" where
  "local_time tz t = t + tz"

definition utc :: "tz_offset \<Rightarrow> int \<Rightarrow> int" where
  "utc tz t = t - tz"

text \<open>
  \<^verbatim>\<open>new Date(year, month, day)\<close> (21.4.2.1): a year from 0 to 99 means 1900 to 1999;
  the components are local time.
\<close>

definition new_date_ymd :: "tz_offset \<Rightarrow> int \<Rightarrow> int \<Rightarrow> int \<Rightarrow> time_value" where
  "new_date_ymd tz year month day =
     (let yr = (if 0 \<le> year \<and> year \<le> 99 then 1900 + year else year)
      in time_clip (utc tz (make_date (make_day yr month day) 0)))"

definition get_full_year :: "tz_offset \<Rightarrow> int \<Rightarrow> int" where
  "get_full_year tz t = year_from_time (local_time tz t)"

definition get_month :: "tz_offset \<Rightarrow> int \<Rightarrow> nat" where
  "get_month tz t = month_from_time (local_time tz t)"

section \<open>Date.parse on the date-time string format\<close>

text \<open>
  \<^verbatim>\<open>new Date(string)\<close> parses with \<^verbatim>\<open>Date.parse\<close>. The format of ECMA-262
  21.4.1.32 is \<^verbatim>\<open>YYYY-MM-DDTHH:mm:ss.sssZ\<close>: a year (four digits, or a sign and six),
  optionally \<^verbatim>\<open>-MM\<close> and then \<^verbatim>\<open>-DD\<close>; optionally \<^verbatim>\<open>T\<close>, \<^verbatim>\<open>HH:mm\<close>,
  optionally \<^verbatim>\<open>:ss\<close> and then \<^verbatim>\<open>.sss\<close>, and an offset \<^verbatim>\<open>Z\<close> or
  \<^verbatim>\<open>+HH:mm\<close> / \<^verbatim>\<open>-HH:mm\<close>. Without an offset a date-only form is UTC and a
  date-time form is local time. Out-of-range fields make the string invalid (NaN).
  Strings outside the format fall back to implementation-specific heuristics in the
  engines; the model treats them as invalid.
\<close>

definition digit_run :: "nat \<Rightarrow> string \<Rightarrow> (int \<times> string) option" where
  "digit_run n s =
     (if n \<le> length s \<and> list_all is_digit (take n s)
      then Some (int (decimal_value (take n s)), drop n s) else None)"

text \<open>An optional field introduced by the character \<open>c\<close>: absent, or \<open>c\<close> and \<open>n\<close> digits.\<close>

definition opt_field :: "char \<Rightarrow> nat \<Rightarrow> string \<Rightarrow> (int option \<times> string) option" where
  "opt_field c n s =
     (case s of
        d # r \<Rightarrow> if d = c then map_option (\<lambda>(v, r'). (Some v, r')) (digit_run n r) else Some (None, s)
      | [] \<Rightarrow> Some (None, []))"

definition parse_year :: "string \<Rightarrow> (int \<times> string) option" where
  "parse_year s =
     (case s of
        [] \<Rightarrow> None
      | c # r \<Rightarrow>
          if c = CHR ''+'' then digit_run 6 r
          else if c = CHR ''-'' then
            (case digit_run 6 r of
               None \<Rightarrow> None
             | Some (y, r') \<Rightarrow> if y = 0 then None else Some (- y, r'))
          else digit_run 4 s)"

text \<open>The offset that ends a date-time form: None for none given (local time).\<close>

definition parse_offset :: "string \<Rightarrow> int option option" where
  "parse_offset s =
     (case s of
        [] \<Rightarrow> Some None
      | c # r \<Rightarrow>
          if c = CHR ''Z'' then (if r = [] then Some (Some 0) else None)
          else if c = CHR ''+'' \<or> c = CHR ''-'' then
            (case digit_run 2 r of
               None \<Rightarrow> None
             | Some (hh, r1) \<Rightarrow>
                 (case r1 of
                    d # r2 \<Rightarrow>
                      if d = CHR '':'' then
                        (case digit_run 2 r2 of
                           Some (mm, []) \<Rightarrow>
                             if hh \<le> 23 \<and> mm \<le> 59
                             then Some (Some ((if c = CHR ''+'' then 1 else -1) * (hh * 60 + mm) * 60000))
                             else None
                         | _ \<Rightarrow> None)
                      else None
                  | [] \<Rightarrow> None))
          else None)"

text \<open>The time of day of a date-time form, after the \<^verbatim>\<open>T\<close>, and the rest of the string.\<close>

definition parse_time :: "string \<Rightarrow> (int \<times> string) option" where
  "parse_time s =
     (case digit_run 2 s of
        None \<Rightarrow> None
      | Some (hh, r1) \<Rightarrow>
          (case r1 of
             d # r2 \<Rightarrow>
               if d \<noteq> CHR '':'' then None else
               (case digit_run 2 r2 of
                  None \<Rightarrow> None
                | Some (mi, r3) \<Rightarrow>
                    (case opt_field CHR '':'' 2 r3 of
                       None \<Rightarrow> None
                     | Some (sec, r4) \<Rightarrow>
                         (case (if sec = None then Some (None, r4) else opt_field CHR ''.'' 3 r4) of
                            None \<Rightarrow> None
                          | Some (msec, r5) \<Rightarrow>
                              let ss = (case sec of Some v \<Rightarrow> v | None \<Rightarrow> 0);
                                  ms = (case msec of Some v \<Rightarrow> v | None \<Rightarrow> 0)
                              in if mi \<le> 59 \<and> ss \<le> 59 \<and>
                                    (hh < 24 \<or> (hh = 24 \<and> mi = 0 \<and> ss = 0 \<and> ms = 0))
                                 then Some (make_time hh mi ss ms, r5) else None)))
           | [] \<Rightarrow> None))"

definition date_parse :: "tz_offset \<Rightarrow> string \<Rightarrow> time_value" where
  "date_parse tz s =
     (case parse_year s of
        None \<Rightarrow> None
      | Some (y, s1) \<Rightarrow>
          (case opt_field CHR ''-'' 2 s1 of
             None \<Rightarrow> None
           | Some (mo, s2) \<Rightarrow>
               (case (if mo = None then Some (None, s2) else opt_field CHR ''-'' 2 s2) of
                  None \<Rightarrow> None
                | Some (dd, s3) \<Rightarrow>
                    let m = (case mo of Some v \<Rightarrow> v | None \<Rightarrow> 1);
                        d = (case dd of Some v \<Rightarrow> v | None \<Rightarrow> 1);
                        day = make_day y (m - 1) d
                    in if \<not> (1 \<le> m \<and> m \<le> 12 \<and> 1 \<le> d \<and> d \<le> 31) then None
                       else (case s3 of
                               [] \<Rightarrow> time_clip (make_date day 0)
                             | c # r \<Rightarrow>
                                 if c \<noteq> CHR ''T'' then None else
                                 (case parse_time r of
                                    None \<Rightarrow> None
                                  | Some (tod, r') \<Rightarrow>
                                      (case parse_offset r' of
                                         None \<Rightarrow> None
                                       | Some None \<Rightarrow> time_clip (utc tz (make_date day tod))
                                       | Some (Some off) \<Rightarrow> time_clip (make_date day tod - off)))))))"

text \<open>
  \<^verbatim>\<open>new Date(value)\<close> on a record field: a string is parsed; \<^verbatim>\<open>null\<close> converts
  to the number 0, the epoch; \<^verbatim>\<open>undefined\<close> converts to NaN.
\<close>

definition new_date :: "tz_offset \<Rightarrow> string jsopt \<Rightarrow> time_value" where
  "new_date tz v = (case v of Val s \<Rightarrow> date_parse tz s | Null \<Rightarrow> Some 0 | Undefined \<Rightarrow> None)"

section \<open>Calendar lemmas\<close>

lemma year_div100_succ: "(y + 1 - 1901) div 100 = (y - 1901) div 100 + (if (y::int) mod 100 = 0 then 1 else 0)"
  using int_div_succ [of 100 "y - 1901"] by (simp add: mod_diff_right_eq [symmetric] algebra_simps)
lemma year_div400_succ: "(y + 1 - 1601) div 400 = (y - 1601) div 400 + (if (y::int) mod 400 = 0 then 1 else 0)"
  using int_div_succ [of 400 "y - 1601"] by (simp add: mod_diff_right_eq [symmetric] algebra_simps)
lemma year_div4_succ: "(y + 1 - 1969) div 4 = (y - 1969) div 4 + (if (y::int) mod 4 = 0 then 1 else 0)"
  using int_div_succ [of 4 "y - 1969"] by (simp add: mod_diff_right_eq [symmetric] algebra_simps)
lemma div100_imp_div4: "(y::int) mod 4 = 0" if "y mod 100 = 0"
  using mod_mod_cancel [of 4 100 y] that by simp
lemma div400_imp_div100: "(y::int) mod 100 = 0" if "y mod 400 = 0"
  using mod_mod_cancel [of 100 400 y] that by simp
lemma day_from_year_Suc_terms: "(y + 1 - 1969) div 4 = (y - 1969) div 4 + A \<Longrightarrow>
      (y + 1 - 1901) div 100 = (y - 1901) div 100 + B \<Longrightarrow>
      (y + 1 - 1601) div 400 = (y - 1601) div 400 + C \<Longrightarrow> day_from_year (y + 1) = day_from_year y + 365 + A - B + C"
  unfolding day_from_year_def by (simp only:) (simp add: algebra_simps)
lemma days_in_year_ind:
  "days_in_year y = 365 + (if y mod 4 = 0 then 1 else 0) - (if y mod 100 = 0 then 1 else 0) + (if y mod 400 = 0 then 1 else 0)"
proof -
  consider "y mod 400 = 0" | "y mod 400 \<noteq> 0" "y mod 100 = 0" | "y mod 100 \<noteq> 0" "y mod 4 = 0" | "y mod 4 \<noteq> 0" "y mod 100 \<noteq> 0" "y mod 400 \<noteq> 0"
  using div400_imp_div100 by blast
  then show ?thesis
  proof cases
    case 1 then show ?thesis using div100_imp_div4 [of y] div400_imp_div100 [of y] by (simp add: days_in_year_def is_leap_def)
  next
    case 2 then show ?thesis using div100_imp_div4 [of y] by (simp add: days_in_year_def is_leap_def)
  next
    case 3 then show ?thesis using div400_imp_div100 [of y] by (auto simp: days_in_year_def is_leap_def)
  next
    case 4 then show ?thesis by (simp add: days_in_year_def is_leap_def)
  qed
qed

lemma day_from_year_Suc: "day_from_year (y + 1) = day_from_year y + days_in_year y"
  using day_from_year_Suc_terms [OF year_div4_succ year_div100_succ year_div400_succ] days_in_year_ind [of y] by simp
lemma day_from_year_bounds:
  "146097 * (y - 1970) - 1000 \<le> 400 * day_from_year y \<and> 400 * day_from_year y \<le> 146097 * (y - 1970) + 1000"
proof -
  define a where "a = (y - 1969) div 4"
  define b where "b = (y - 1901) div 100"
  define c where "c = (y - 1601) div 400"
  have "4 * a \<le> y - 1969 \<and> y - 1969 < 4 * a + 4"
    unfolding a_def by (rule int_div_bounds) simp
  moreover have "100 * b \<le> y - 1901 \<and> y - 1901 < 100 * b + 100"
    unfolding b_def by (rule int_div_bounds) simp
  moreover have "400 * c \<le> y - 1601 \<and> y - 1601 < 400 * c + 400"
    unfolding c_def by (rule int_div_bounds) simp
  moreover have "day_from_year y = 365 * (y - 1970) + a - b + c"
    by (simp add: day_from_year_def a_def b_def c_def)
  ultimately show ?thesis by (simp add: algebra_simps)
qed

lemma year_from_day_spec:
  "day_from_year (year_from_day d) \<le> d \<and> d < day_from_year (year_from_day d + 1)"
proof -
  define Q where "Q = (400 * d) div 146097"
  define y where "y = 1970 + Q"
  have q: "146097 * Q \<le> 400 * d \<and> 400 * d < 146097 * Q + 146097"
    unfolding Q_def by (rule int_div_bounds) simp
  have "y - 1 - 1970 = Q - 1" "y + 2 - 1970 = Q + 2" by (simp_all add: y_def)
  then have lo: "day_from_year (y - 1) \<le> d" and hi: "d < day_from_year (y + 2)"
  using day_from_year_bounds [of "y - 1"] day_from_year_bounds [of "y + 2"] q by (simp_all add: algebra_simps)
  from hi have hi2: "d < day_from_year (2 + y)" by (simp add: add.commute)
  show ?thesis
  using lo hi2 unfolding year_from_day_def Q_def [symmetric] y_def [symmetric] Let_def
    by auto
qed

lemma day_from_year_less_Suc: "day_from_year y < day_from_year (y + 1)"
  by (simp add: day_from_year_Suc days_in_year_def)

lemma day_from_year_strict_mono: "y < y' \<Longrightarrow> day_from_year y < day_from_year y'"
proof (induction y' rule: int_gr_induct)
  case base
  then show ?case by (rule day_from_year_less_Suc)
next
  case (step i)
  then show ?case using day_from_year_less_Suc [of i] by linarith
qed

lemma day_from_year_le_iff: "day_from_year y \<le> day_from_year y' \<longleftrightarrow> y \<le> y'"
proof
  assume "day_from_year y \<le> day_from_year y'"
  then show "y \<le> y'"
    using day_from_year_strict_mono [of y' y] by linarith
next
  assume "y \<le> y'"
  then show "day_from_year y \<le> day_from_year y'"
    using day_from_year_strict_mono [of y y'] by (cases "y = y'") auto
qed

lemma year_from_day_greatest: "day_from_year y \<le> d \<longleftrightarrow> y \<le> year_from_day d"
proof
  assume "day_from_year y \<le> d"
  show "y \<le> year_from_day d"
  proof (rule ccontr)
    assume "\<not> y \<le> year_from_day d"
    then have "day_from_year (year_from_day d + 1) \<le> day_from_year y"
      by (simp add: day_from_year_le_iff)
    with \<open>day_from_year y \<le> d\<close> year_from_day_spec [of d] show False by linarith
  qed
next
  assume "y \<le> year_from_day d"
  then have "day_from_year y \<le> day_from_year (year_from_day d)"
    by (simp add: day_from_year_le_iff)
  with year_from_day_spec [of d] show "day_from_year y \<le> d" by linarith
qed

lemma year_from_day_eqI:
  assumes "day_from_year y \<le> d" "d < day_from_year (y + 1)"
  shows "year_from_day d = y"
proof -
  have "y \<le> year_from_day d" using assms(1) by (simp add: year_from_day_greatest)
  moreover have "\<not> y + 1 \<le> year_from_day d" using assms(2) by (simp add: year_from_day_greatest [symmetric])
  ultimately show ?thesis by simp
qed

section \<open>Months\<close>

lemma twelve_cases: "m < (12::nat) \<Longrightarrow> m = 0 \<or> m = 1 \<or> m = 2 \<or> m = 3 \<or> m = 4 \<or> m = 5 \<or> m = 6 \<or> m = 7 \<or> m = 8 \<or> m = 9 \<or> m = 10 \<or> m = 11"
  by arith

lemma month_start_mono:
  assumes "i \<le> j" "j \<le> 12"
  shows "month_start leap i \<le> month_start leap j"
proof -
  have "sorted month_table" "length month_table = 13" by (simp_all add: month_table_def)
  then have "month_table ! i \<le> month_table ! j"
    using assms by (simp add: sorted_nth_mono)
  then show ?thesis using assms by (auto simp: month_start_def)
qed

lemma count_months_le: "m < 12 \<Longrightarrow> length (filter (\<lambda>m'. m' \<le> m) [1, 2, 3, 4, 5, 6, 7, 8, 9, 10, 11::nat]) = m"
  by (drule twelve_cases) auto

lemma month_from_dwy_start:
  assumes m: "m < 12" and k: "0 \<le> k" "k < days_in_month leap m"
  shows "month_from_dwy leap (month_start leap m + k) = m"
proof -
  have "(month_start leap m' \<le> month_start leap m + k) = (m' \<le> m)" if "m' \<le> 11" for m'
  proof (cases "m' \<le> m")
    case True
    then show ?thesis using month_start_mono [of m' m leap] m k by simp
  next
    case False
    then have "month_start leap (Suc m) \<le> month_start leap m'"
      using that by (intro month_start_mono) simp_all
    then show ?thesis using False k by (simp add: days_in_month_def)
  qed
  then have "filter (\<lambda>m'. month_start leap m' \<le> month_start leap m + k) [1, 2, 3, 4, 5, 6, 7, 8, 9, 10, 11] =
             filter (\<lambda>m'. m' \<le> m) [1, 2, 3, 4, 5, 6, 7, 8, 9, 10, 11]"
    by (intro filter_cong) auto
  then show ?thesis using count_months_le [OF m] by (simp add: month_from_dwy_def)
qed

section \<open>Round trip through MakeDay\<close>

lemma month_start_12: "month_start (is_leap y) 12 = days_in_year y"
  by (simp add: month_start_def month_table_def days_in_year_def)

lemma make_day_month_in_range:
  "m < 12 \<Longrightarrow> make_day y (int m) dt = day_from_year y + month_start (is_leap y) m + dt - 1"
  by (simp add: make_day_def)

lemma day_of_make_date:
  "0 \<le> tod \<Longrightarrow> tod < ms_per_day \<Longrightarrow> day_of (make_date day tod) = day"
  by (simp add: day_of_def make_date_def)

text \<open>
  The calendar round-trips: for a month index below 12, a day of the month within
  the length of that month and a time of day within a day, the year, month and date read
  back (YearFromTime, MonthFromTime, DateFromTime) from MakeDate (MakeDay y m dt) are
  y, m and dt.
\<close>

theorem calendar_roundtrip:
  assumes m: "m < 12" and dt: "1 \<le> dt" "dt \<le> days_in_month (is_leap y) m"
    and tod: "0 \<le> tod" "tod < ms_per_day"
  shows "year_from_time (make_date (make_day y (int m) dt) tod) = y \<and>
         month_from_time (make_date (make_day y (int m) dt) tod) = m \<and>
         date_from_time (make_date (make_day y (int m) dt) tod) = dt"
proof -
  let ?t = "make_date (make_day y (int m) dt) tod"
  let ?k = "dt - 1"
  have day: "day_of ?t = day_from_year y + month_start (is_leap y) m + ?k"
    using tod m by (simp add: day_of_make_date make_day_month_in_range)
  have b: "0 \<le> month_start (is_leap y) m" "month_start (is_leap y) (Suc m) \<le> days_in_year y"
    using month_start_mono [of 0 m "is_leap y"] month_start_mono [of "Suc m" 12 "is_leap y"] m
    by (simp_all add: month_start_12) (simp add: month_start_def month_table_def)
  have "day_of ?t < day_from_year (y + 1)"
    using day b dt by (simp add: day_from_year_Suc days_in_month_def)
  moreover have "day_from_year y \<le> day_of ?t"
    using day b dt by simp
  ultimately have year: "year_from_time ?t = y"
    by (simp add: year_from_time_def year_from_day_eqI)
  have dwy: "day_within_year ?t = month_start (is_leap y) m + ?k"
    using day year by (simp add: day_within_year_def)
  have month: "month_from_time ?t = m"
    using dt by (simp add: month_from_time_def year dwy month_from_dwy_start m)
  show ?thesis
    using year month dwy by (simp add: date_from_time_def)
qed


text \<open>The definitions that evaluate a date string and its calendar fields by \<open>simp\<close>.\<close>

lemmas date_eval = new_date_def date_parse_def parse_year_def digit_run_def opt_field_def
  decimal_value_def is_digit_def digit_val_def make_day_def make_date_def time_clip_def ms_per_day_def
  day_from_year_def year_from_day_def month_start_def month_table_def is_leap_def days_in_year_def

lemmas cal_eval = get_full_year_def get_month_def year_from_time_def day_of_def local_time_def
  month_from_time_def month_from_dwy_def day_within_year_def new_date_ymd_def utc_def make_time_def

end
