(* ===== verification/Fulfillment.thy ===== *)
theory Fulfillment
  imports Aggregates JS_Date
begin

text \<open>
  \<^verbatim>\<open>calculateAverageFulfillmentTime\<close> (dashboard.component.ts, lines 144--184): the
  records whose order and ship dates are both valid \<^verbatim>\<open>Date\<close>s, their ship-minus-order
  times in fractional days, the median (by \<^verbatim>\<open>sort((a, b) => a - b)\<close> and the
  midpoint) and the mean, and the three-tier policy: the median if it is positive,
  else the mean if it is positive, else \<^verbatim>\<open>null\<close> (None). The time zone \<open>tz\<close> is a
  parameter of every date reading.
\<close>

definition valid_dates :: "tz_offset \<Rightarrow> sale \<Rightarrow> bool" where
  "valid_dates tz r \<longleftrightarrow> new_date tz (Order_Date r) \<noteq> None \<and> new_date tz (Ship_Date r) \<noteq> None"

text \<open>
  \<^verbatim>\<open>(shipDate.getTime() - orderDate.getTime()) / (1000 * 60 * 60 * 24)\<close>; it is applied
  to valid records only, where both time values exist (the last branch is not reached).
\<close>

definition fulfillment_days :: "tz_offset \<Rightarrow> sale \<Rightarrow> real" where
  "fulfillment_days tz r =
     (case (new_date tz (Ship_Date r), new_date tz (Order_Date r)) of
        (Some sd, Some od) \<Rightarrow> real_of_int (sd - od) / (1000 * 60 * 60 * 24)
      | _ \<Rightarrow> 0)"

definition fulfillment_times :: "tz_offset \<Rightarrow> sale list \<Rightarrow> real list" where
  "fulfillment_times tz recs = map (fulfillment_days tz) (filter (valid_dates tz) recs)"

definition calculate_median :: "real list \<Rightarrow> real" where
  "calculate_median vals =
     (if vals = [] then 0
      else let sorted = js_sort (\<lambda>a b. a - b) vals; middle = length sorted div 2
           in if length sorted mod 2 = 0 then (sorted ! (middle - 1) + sorted ! middle) / 2
              else sorted ! middle)"

definition calculate_mean :: "real list \<Rightarrow> real" where
  "calculate_mean vals = foldl (\<lambda>a b. a + b) 0 vals / real (length vals)"

definition calculate_average_fulfillment_time :: "tz_offset \<Rightarrow> sale list \<Rightarrow> real option" where
  "calculate_average_fulfillment_time tz recs =
     (if filter (valid_dates tz) recs = [] then None
      else let times = fulfillment_times tz recs;
               med = calculate_median times;
               mean = calculate_mean times
           in if med > 0 then Some med else if mean > 0 then Some mean else None)"

section \<open>The numeric sort is the library's sort\<close>

lemma insert_by_asc: "insert_by (\<lambda>a b. a - b) x ys = insort x (ys :: real list)"
  by (induction ys) auto

lemma js_sort_asc: "js_sort (\<lambda>a b. a - b) xs = sort (xs :: real list)"
proof -
  have "insert_by (\<lambda>a b. a - b) = (insort :: real \<Rightarrow> real list \<Rightarrow> real list)"
    by (simp add: fun_eq_iff insert_by_asc)
  then show ?thesis by (simp add: js_sort_def sort_key_def)
qed

lemma calculate_median_sorted:
  "calculate_median vals =
     (if vals = [] then 0
      else let s = sort vals; m = length vals div 2
           in if even (length vals) then (s ! (m - 1) + s ! m) / 2 else s ! m)"
  by (simp add: calculate_median_def js_sort_asc Let_def even_iff_mod_2_eq_zero)

lemma calculate_mean_sum: "calculate_mean vals = sum_list vals / real (length vals)"
  using foldl_add_sum_list [of "\<lambda>x. x" 0 vals] by (simp add: calculate_mean_def)

section \<open>The median\<close>

text \<open>
  C11. The value \<^verbatim>\<open>calculateMedian\<close> returns on a non-empty list is a median: at
  least half of the values are at most it, and at least half are at least it.
\<close>

lemma median_splits_values:
  fixes vals :: "real list"
  assumes ne: "vals \<noteq> []"
  shows "length vals \<le> 2 * length (filter (\<lambda>x. x \<le> calculate_median vals) vals) \<and>
         length vals \<le> 2 * length (filter (\<lambda>x. calculate_median vals \<le> x) vals)"
proof -
  let ?s = "sort vals" and ?n = "length vals" and ?m = "length vals div 2"
  let ?med = "calculate_median vals"
  have srt: "sorted ?s" and len: "length ?s = ?n" by simp_all
  have mono: "?s ! i \<le> ?s ! j" if "i \<le> j" "j < ?n" for i j
    using sorted_nth_mono [OF srt] that by simp
  show ?thesis
  proof (cases "even ?n")
    case True
    obtain k where k: "?n = 2 * k" using True by (auto elim: evenE)
    have "?n \<noteq> 0" using ne by simp
    then have "k \<noteq> 0" using k by (intro notI) simp
    then have m: "0 < ?m" "?m < ?n" using k by simp_all
    have med: "?med = (?s ! (?m - 1) + ?s ! ?m) / 2"
      using True ne by (simp add: calculate_median_sorted Let_def)
    have le: "?s ! (?m - 1) \<le> ?s ! ?m" using mono m by simp
    have lo: "\<forall>x \<in> set (take ?m ?s). x \<le> ?med"
    proof
      fix x assume "x \<in> set (take ?m ?s)"
      then obtain i where i: "i < ?m" "x = ?s ! i" by (auto simp: in_set_conv_nth)
      then have "?s ! i \<le> ?s ! (?m - 1)" using mono [of i "?m - 1"] m by simp
      then show "x \<le> ?med" using i le med by simp
    qed
    have hi: "\<forall>x \<in> set (drop ?m ?s). ?med \<le> x"
    proof
      fix x assume "x \<in> set (drop ?m ?s)"
      then obtain j where j: "j < ?n - ?m" "x = ?s ! (?m + j)" by (auto simp: in_set_conv_nth)
      then have "?s ! ?m \<le> ?s ! (?m + j)" using mono [of ?m "?m + j"] by simp
      then show "?med \<le> x" using j le med by simp
    qed
    show ?thesis
      using filter_count_take [OF lo] filter_count_drop [OF hi] m True
      by (simp add: length_filter_sort) (auto elim: evenE)
  next
    case False
    then have m: "?m < ?n" using ne by simp
    have med: "?med = ?s ! ?m"
      using False ne by (simp add: calculate_median_sorted Let_def)
    have lo: "\<forall>x \<in> set (take (Suc ?m) ?s). x \<le> ?med"
    proof
      fix x assume "x \<in> set (take (Suc ?m) ?s)"
      then obtain i where i: "i < Suc ?m" "x = ?s ! i" by (auto simp: in_set_conv_nth)
      then have "?s ! i \<le> ?s ! ?m" using mono [of i ?m] m by simp
      then show "x \<le> ?med" using i med by simp
    qed
    have hi: "\<forall>x \<in> set (drop ?m ?s). ?med \<le> x"
    proof
      fix x assume "x \<in> set (drop ?m ?s)"
      then obtain j where j: "j < ?n - ?m" "x = ?s ! (?m + j)" by (auto simp: in_set_conv_nth)
      then have "?s ! ?m \<le> ?s ! (?m + j)" using mono [of ?m "?m + j"] by simp
      then show "?med \<le> x" using j med by simp
    qed
    show ?thesis
      using filter_count_take [OF lo] filter_count_drop [OF hi] m False
      by (simp add: length_filter_sort) (auto elim: oddE)
  qed
qed

text \<open>The median is the midpoint of two of the values (the same one twice for an odd count).\<close>

lemma median_midpoint:
  fixes vals :: "real list"
  assumes "vals \<noteq> []"
  shows "\<exists>a \<in> set vals. \<exists>b \<in> set vals. calculate_median vals = (a + b) / 2"
proof -
  let ?s = "sort vals" and ?m = "length vals div 2"
  have len: "length ?s = length vals" and set: "set ?s = set vals" by simp_all
  have m: "?m < length vals" using assms by simp
  then have a: "?s ! ?m \<in> set vals" using len set nth_mem by metis
  show ?thesis
  proof (cases "even (length vals)")
    case True
    then have "?m - 1 < length vals" using m by simp
    then have "?s ! (?m - 1) \<in> set vals" using len set nth_mem by metis
    then show ?thesis using a True assms by (auto simp: calculate_median_sorted Let_def)
  next
    case False
    then have "calculate_median vals = (?s ! ?m + ?s ! ?m) / 2"
      using assms by (simp add: calculate_median_sorted Let_def)
    then show ?thesis using a by blast
  qed
qed

lemma median_positive:
  fixes vals :: "real list"
  assumes "vals \<noteq> []" "\<forall>x \<in> set vals. 0 < x"
  shows "0 < calculate_median vals"
proof -
  obtain a b where "a \<in> set vals" "b \<in> set vals" "calculate_median vals = (a + b) / 2"
    using median_midpoint [OF assms(1)] by blast
  moreover have "0 < a" "0 < b" using assms(2) calculation(1,2) by simp_all
  ultimately show ?thesis by (simp add: add_pos_pos)
qed

section \<open>The three-tier policy\<close>

lemma sort_mset_eq: "mset xs = mset ys \<Longrightarrow> sort xs = sort (ys :: real list)"
  by (metis properties_for_sort mset_sort sorted_sort)

lemma fulfillment_times_perm:
  "mset recs = mset recs' \<Longrightarrow> mset (fulfillment_times tz recs) = mset (fulfillment_times tz recs')"
  by (simp add: fulfillment_times_def)

lemma calculate_median_perm:
  assumes "mset xs = mset ys"
  shows "calculate_median xs = calculate_median ys"
proof -
  have "sort xs = sort ys" "length xs = length ys" "(xs = []) = (ys = [])"
    using sort_mset_eq [OF assms] mset_eq_length [OF assms] by auto
  then show ?thesis unfolding calculate_median_sorted by (simp only:)
qed

lemma calculate_mean_perm:
  assumes "mset xs = mset ys"
  shows "calculate_mean xs = calculate_mean ys"
proof -
  have "sum_list xs = sum_list ys"
    using assms by (metis sum_mset_sum_list)
  moreover have "length xs = length ys"
    using assms by (rule mset_eq_length)
  ultimately show ?thesis by (simp add: calculate_mean_sum)
qed

lemma valid_filter_perm:
  assumes "mset recs = mset recs'"
  shows "(filter (valid_dates tz) recs = []) = (filter (valid_dates tz) recs' = [])"
proof -
  have "mset (filter (valid_dates tz) recs) = mset (filter (valid_dates tz) recs')"
    using assms by simp
  then have "length (filter (valid_dates tz) recs) = length (filter (valid_dates tz) recs')"
    by (rule mset_eq_length)
  then show ?thesis by (metis length_0_conv)
qed

lemma average_fulfillment_perm:
  assumes "mset recs = mset recs'"
  shows "calculate_average_fulfillment_time tz recs = calculate_average_fulfillment_time tz recs'"
proof -
  have t: "mset (fulfillment_times tz recs) = mset (fulfillment_times tz recs')"
    using assms by (rule fulfillment_times_perm)
  show ?thesis
    unfolding calculate_average_fulfillment_time_def Let_def
      valid_filter_perm [OF assms, of tz] calculate_median_perm [OF t] calculate_mean_perm [OF t]
    by (rule refl)
qed

lemma average_fulfillment_positive:
  "calculate_average_fulfillment_time tz recs = Some v \<Longrightarrow> 0 < v"
  unfolding calculate_average_fulfillment_time_def Let_def
  by (auto split: if_splits)

text \<open>
  C12. When every record with two valid dates was shipped after it was ordered and there
  is at least one such record, the average fulfillment time is the median of the
  fulfillment times (the first tier of the policy applies).
\<close>

theorem average_fulfillment_median:
  assumes pos: "\<forall>r \<in> set recs. valid_dates tz r \<longrightarrow> 0 < fulfillment_days tz r"
    and ex: "\<exists>r \<in> set recs. valid_dates tz r"
  shows "calculate_average_fulfillment_time tz recs = Some (calculate_median (fulfillment_times tz recs))"
proof -
  have ne: "filter (valid_dates tz) recs \<noteq> []" using ex by (simp add: filter_empty_conv)
  then have "fulfillment_times tz recs \<noteq> []" by (simp add: fulfillment_times_def)
  moreover have "\<forall>x \<in> set (fulfillment_times tz recs). 0 < x" using pos by (auto simp: fulfillment_times_def)
  ultimately have "0 < calculate_median (fulfillment_times tz recs)" by (rule median_positive)
  then show ?thesis using ne by (simp add: calculate_average_fulfillment_time_def Let_def)
qed

end
