(* ===== verification/Trend.thy ===== *)
theory Trend
  imports Aggregates JS_Date
begin

text \<open>
  \<^verbatim>\<open>salesTrend\<close> (dashboard.component.ts, lines 97--115): a \<^verbatim>\<open>reduce\<close> over the
  records that reads the order date (the epoch when it is not a valid date), computes
  the start of its half-year as a local-time \<^verbatim>\<open>Date\<close> (1 January or 1 July of the
  order date's local year), looks for a point whose \<^verbatim>\<open>x.getTime()\<close> is equal
  (\<^verbatim>\<open>===\<close>, false on NaN) and adds \<^verbatim>\<open>record.Sales\<close> to its \<^verbatim>\<open>y\<close> with
  JavaScript's \<^verbatim>\<open>+=\<close>, or pushes a new point whose \<^verbatim>\<open>y\<close> is \<^verbatim>\<open>record.Sales\<close>
  itself. Unlike the other sums, this one does not write \<^verbatim>\<open>|| 0\<close>.
\<close>

record trend_point =
  tp_x :: time_value
  tp_y :: "jsnum jsopt"

definition time_eq :: "time_value \<Rightarrow> time_value \<Rightarrow> bool" where
  "time_eq a b = (case (a, b) of (Some s, Some t) \<Rightarrow> s = t | _ \<Rightarrow> False)"

definition order_date_or_epoch :: "tz_offset \<Rightarrow> sale \<Rightarrow> int" where
  "order_date_or_epoch tz r = (case new_date tz (Order_Date r) of Some t \<Rightarrow> t | None \<Rightarrow> 0)"

definition half_year_start :: "tz_offset \<Rightarrow> int \<Rightarrow> time_value" where
  "half_year_start tz t =
     (if get_month tz t < 6 then new_date_ymd tz (get_full_year tz t) 0 1
      else new_date_ymd tz (get_full_year tz t) 6 1)"

text \<open>\<^verbatim>\<open>acc.find(p)\<close> followed by a mutation of the element found: the first match.\<close>

fun update_first :: "('a \<Rightarrow> bool) \<Rightarrow> ('a \<Rightarrow> 'a) \<Rightarrow> 'a list \<Rightarrow> 'a list" where
  "update_first p f [] = []"
| "update_first p f (a # as) = (if p a then f a # as else a # update_first p f as)"

definition trend_step :: "tz_offset \<Rightarrow> trend_point list \<Rightarrow> sale \<Rightarrow> trend_point list" where
  "trend_step tz acc r =
     (let hs = half_year_start tz (order_date_or_epoch tz r)
      in if list_ex (\<lambda>d. time_eq (tp_x d) hs) acc
         then update_first (\<lambda>d. time_eq (tp_x d) hs)
                (\<lambda>d. d\<lparr>tp_y := js_plus (tp_y d) (num_field (Sales r))\<rparr>) acc
         else acc @ [\<lparr>tp_x = hs, tp_y = num_field (Sales r)\<rparr>])"

definition sales_trend :: "tz_offset \<Rightarrow> sale list \<Rightarrow> trend_point list" where
  "sales_trend tz recs = foldl (trend_step tz) [] recs"

section \<open>Abstract specification\<close>

text \<open>
  When every bucket start is a valid date and every record has a number in
  \<^verbatim>\<open>Sales\<close>, the trend is one point per distinct bucket, in first-seen order, holding
  the sum of the sales of its records.
\<close>

definition bucket_of :: "tz_offset \<Rightarrow> sale \<Rightarrow> time_value" where
  "bucket_of tz r = half_year_start tz (order_date_or_epoch tz r)"

definition bucket_total :: "tz_offset \<Rightarrow> sale list \<Rightarrow> time_value \<Rightarrow> real" where
  "bucket_total tz recs h = sum_list (map (\<lambda>r. or_zero (Sales r)) (filter (\<lambda>r. bucket_of tz r = h) recs))"

definition trend_spec :: "tz_offset \<Rightarrow> sale list \<Rightarrow> trend_point list" where
  "trend_spec tz recs =
     map (\<lambda>h. \<lparr>tp_x = h, tp_y = Val (Fin (bucket_total tz recs h))\<rparr>) (first_seen (map (bucket_of tz) recs))"

definition has_sales :: "sale \<Rightarrow> bool" where
  "has_sales r \<longleftrightarrow> (\<exists>v. Sales r = Val v)"

text \<open>
  Without the conditions: the value of a bucket is the JavaScript \<^verbatim>\<open>+=\<close> of the
  \<^verbatim>\<open>Sales\<close> of its records, in their order, starting from the first record's value
  itself, which may be \<^verbatim>\<open>null\<close> or \<^verbatim>\<open>undefined\<close>.
\<close>

definition bucket_js_sum :: "tz_offset \<Rightarrow> sale list \<Rightarrow> time_value \<Rightarrow> jsnum jsopt" where
  "bucket_js_sum tz recs h =
     (case filter (\<lambda>r. bucket_of tz r = h) recs of
        [] \<Rightarrow> Undefined
      | r # rs \<Rightarrow> foldl (\<lambda>y r'. js_plus y (num_field (Sales r'))) (num_field (Sales r)) rs)"

definition trend_js_spec :: "tz_offset \<Rightarrow> sale list \<Rightarrow> trend_point list" where
  "trend_js_spec tz recs =
     map (\<lambda>h. \<lparr>tp_x = h, tp_y = bucket_js_sum tz recs h\<rparr>) (first_seen (map (bucket_of tz) recs))"

section \<open>Lemmas\<close>

lemma days_in_month_half_starts: "days_in_month leap 0 = 31" "days_in_month leap 6 = 31"
  by (simp_all add: days_in_month_def month_start_def month_table_def)

lemma new_date_ymd_local:
  assumes "new_date_ymd tz y m d = Some h" "y < 0 \<or> 99 < y"
  shows "local_time tz h = make_date (make_day y m d) 0"
  using assms by (auto simp: new_date_ymd_def time_clip_def local_time_def utc_def Let_def split: if_splits)

text \<open>
  C16. The bucket of a time value round-trips through the calendar: outside the years 0
  to 99, the start of the half-year \<^verbatim>\<open>salesTrend\<close> computes lies in the same local
  year as the time value, in January (month 0) when the time value's month is before
  July and in July (month 6) otherwise, on the first day of the month.
\<close>

theorem half_year_start_roundtrip:
  assumes y: "get_full_year tz t < 0 \<or> 99 < get_full_year tz t"
    and h: "half_year_start tz t = Some h"
  shows "get_full_year tz h = get_full_year tz t \<and>
         get_month tz h = (if get_month tz t < 6 then 0 else 6) \<and>
         date_from_time (local_time tz h) = 1"
proof -
  define m :: nat where "m = (if get_month tz t < 6 then 0 else 6)"
  have hs: "new_date_ymd tz (get_full_year tz t) (int m) 1 = Some h"
    using h by (simp add: half_year_start_def m_def split: if_splits)
  have loc: "local_time tz h = make_date (make_day (get_full_year tz t) (int m) 1) 0"
    by (rule new_date_ymd_local [OF hs y])
  have "m < 12" "1 \<le> days_in_month (is_leap (get_full_year tz t)) m" "(0::int) < ms_per_day"
    by (simp_all add: m_def days_in_month_half_starts ms_per_day_def)
  from calendar_roundtrip [OF this(1) _ this(2) _ this(3)] loc show ?thesis
    by (simp add: get_full_year_def get_month_def m_def)
qed

lemma sales_trend_snoc: "sales_trend tz (recs @ [r]) = trend_step tz (sales_trend tz recs) r"
  by (simp add: sales_trend_def)

lemma time_eq_Some [simp]: "time_eq (Some a) b \<longleftrightarrow> b = Some a"
  by (cases b) (auto simp: time_eq_def)

lemma update_first_tabulated:
  "distinct hs \<Longrightarrow> h \<in> set hs \<Longrightarrow>
   update_first (\<lambda>d. tp_x d = h) f (map (\<lambda>h'. \<lparr>tp_x = h', tp_y = g h'\<rparr>) hs) =
   map (\<lambda>h'. if h' = h then f \<lparr>tp_x = h', tp_y = g h'\<rparr> else \<lparr>tp_x = h', tp_y = g h'\<rparr>) hs"
  by (induction hs) auto

lemma time_eq_Some_right [simp]: "time_eq x (Some b) \<longleftrightarrow> x = Some b"
  by (cases x) (auto simp: time_eq_def)

lemma bucket_total_snoc:
  "bucket_total tz (recs @ [r]) h =
     bucket_total tz recs h + (if bucket_of tz r = h then or_zero (Sales r) else 0)"
  by (simp add: bucket_total_def)

lemma bucket_total_notin:
  "h \<notin> set (map (bucket_of tz) recs) \<Longrightarrow> bucket_total tz recs h = 0"
proof -
  assume "h \<notin> set (map (bucket_of tz) recs)"
  then have "filter (\<lambda>r. bucket_of tz r = h) recs = []"
    by (auto simp: filter_empty_conv)
  then show ?thesis by (simp add: bucket_total_def)
qed

text \<open>
  C13. When every record has a number in \<^verbatim>\<open>Sales\<close> and a valid half-year bucket,
  \<^verbatim>\<open>salesTrend\<close> is one point per distinct bucket, in the order the buckets are first
  seen, whose value is the sum of the sales of the records in that bucket.
\<close>

lemma sales_trend_refines_spec:
  assumes "\<forall>r \<in> set recs. bucket_of tz r \<noteq> None \<and> has_sales r"
  shows "sales_trend tz recs = trend_spec tz recs"
  using assms
proof (induction recs rule: rev_induct)
  case Nil
  show ?case by (simp add: sales_trend_def trend_spec_def)
next
  case (snoc r recs)
  then have IH: "sales_trend tz recs = trend_spec tz recs" by simp
  from snoc.prems obtain b v where b: "bucket_of tz r = Some b" and v: "Sales r = Val v"
    by (auto simp: has_sales_def)
  let ?hs = "map (bucket_of tz) recs"
  have hs: "half_year_start tz (order_date_or_epoch tz r) = Some b"
    using b by (simp add: bucket_of_def)
  have ex: "list_ex (\<lambda>d. tp_x d = Some b) (trend_spec tz recs) \<longleftrightarrow> Some b \<in> set ?hs"
    by (auto simp: trend_spec_def list_ex_iff)
  show ?case
  proof (cases "Some b \<in> set ?hs")
    case True
    have "update_first (\<lambda>d. tp_x d = Some b) (\<lambda>d. d\<lparr>tp_y := js_plus (tp_y d) (num_field (Sales r))\<rparr>)
            (trend_spec tz recs) = trend_spec tz (recs @ [r])"
      using True b v
      by (simp add: trend_spec_def update_first_tabulated bucket_total_snoc js_plus_Fin)
    then show ?thesis
      using True by (simp add: sales_trend_snoc IH trend_step_def hs ex Let_def)
  next
    case False
    have step: "trend_step tz (trend_spec tz recs) r =
                  trend_spec tz recs @ [\<lparr>tp_x = Some b, tp_y = num_field (Sales r)\<rparr>]"
      using False ex by (simp add: trend_step_def hs Let_def)
    have "trend_spec tz recs @ [\<lparr>tp_x = Some b, tp_y = num_field (Sales r)\<rparr>] = trend_spec tz (recs @ [r])"
      using False b v bucket_total_notin [OF False]
      by (auto simp: trend_spec_def bucket_total_snoc num_field_def intro!: map_cong)
    then show ?thesis
      using step by (simp add: sales_trend_snoc IH)
  qed
qed

lemma bucket_js_sum_snoc:
  "bucket_js_sum tz (recs @ [r]) h =
     (if bucket_of tz r = h
      then (if h \<in> set (map (bucket_of tz) recs)
            then js_plus (bucket_js_sum tz recs h) (num_field (Sales r)) else num_field (Sales r))
      else bucket_js_sum tz recs h)"
proof (cases "bucket_of tz r = h")
  case True
  show ?thesis
  proof (cases "filter (\<lambda>r. bucket_of tz r = h) recs")
    case Nil
    then have "h \<notin> set (map (bucket_of tz) recs)" by (auto simp: filter_empty_conv)
    then show ?thesis using True Nil by (simp add: bucket_js_sum_def)
  next
    case (Cons r0 rs)
    then have "h \<in> set (map (bucket_of tz) recs)"
      by (metis (mono_tags, lifting) filter_eq_Cons_iff image_eqI list.set_map in_set_conv_decomp)
    then show ?thesis using True Cons by (simp add: bucket_js_sum_def)
  qed
next
  case False
  then show ?thesis by (simp add: bucket_js_sum_def)
qed

text \<open>The refinement of \<open>sales_trend_refines_spec\<close> without its conditions on \<^verbatim>\<open>Sales\<close>.\<close>

lemma sales_trend_js_spec:
  assumes "\<forall>r \<in> set recs. bucket_of tz r \<noteq> None"
  shows "sales_trend tz recs = trend_js_spec tz recs"
  using assms
proof (induction recs rule: rev_induct)
  case Nil
  show ?case by (simp add: sales_trend_def trend_js_spec_def)
next
  case (snoc r recs)
  then have IH: "sales_trend tz recs = trend_js_spec tz recs" by simp
  from snoc.prems obtain b where b: "bucket_of tz r = Some b" by auto
  let ?hs = "map (bucket_of tz) recs"
  have hs: "half_year_start tz (order_date_or_epoch tz r) = Some b"
    using b by (simp add: bucket_of_def)
  have ex: "list_ex (\<lambda>d. tp_x d = Some b) (trend_js_spec tz recs) \<longleftrightarrow> Some b \<in> set ?hs"
    by (auto simp: trend_js_spec_def list_ex_iff)
  show ?case
  proof (cases "Some b \<in> set ?hs")
    case True
    have "update_first (\<lambda>d. tp_x d = Some b) (\<lambda>d. d\<lparr>tp_y := js_plus (tp_y d) (num_field (Sales r))\<rparr>)
            (trend_js_spec tz recs) = trend_js_spec tz (recs @ [r])"
      using True b by (auto simp: trend_js_spec_def update_first_tabulated bucket_js_sum_snoc intro!: map_cong)
    then show ?thesis
      using True by (simp add: sales_trend_snoc IH trend_step_def hs ex Let_def)
  next
    case False
    have step: "trend_step tz (trend_js_spec tz recs) r =
                  trend_js_spec tz recs @ [\<lparr>tp_x = Some b, tp_y = num_field (Sales r)\<rparr>]"
      using False ex by (simp add: trend_step_def hs Let_def)
    have "trend_js_spec tz recs @ [\<lparr>tp_x = Some b, tp_y = num_field (Sales r)\<rparr>] = trend_js_spec tz (recs @ [r])"
      using False b by (auto simp: trend_js_spec_def bucket_js_sum_snoc intro!: map_cong)
    then show ?thesis
      using step by (simp add: sales_trend_snoc IH)
  qed
qed

lemma js_plus_NaN [simp]: "js_plus (Val NaN) v = Val NaN" "js_plus Undefined v = Val NaN"
  by (simp_all add: js_plus_def)

lemma js_plus_absent [simp]: "js_plus y (num_field Undefined) = Val NaN"
  by (cases "to_number y") (simp_all add: js_plus_def num_field_def)

lemma foldl_js_plus_NaN:
  "foldl (\<lambda>y r'. js_plus y (num_field (Sales r'))) (Val NaN) rs = Val NaN"
  by (induction rs) simp_all

lemma foldl_js_plus_absent:
  "r \<in> set rs \<Longrightarrow> Sales r = Undefined \<Longrightarrow>
   foldl (\<lambda>y r'. js_plus y (num_field (Sales r'))) y rs = Val NaN"
proof (induction rs arbitrary: y)
  case Nil
  then show ?case by simp
next
  case (Cons x xs)
  show ?case
  proof (cases "x = r")
    case True
    then show ?thesis using Cons.prems foldl_js_plus_NaN by simp
  next
    case False
    then show ?thesis using Cons by simp
  qed
qed

lemma bucket_js_sum_absent:
  assumes "r \<in> set recs" "Sales r = Undefined"
    and "2 \<le> length (filter (\<lambda>r'. bucket_of tz r' = bucket_of tz r) recs)"
  shows "bucket_js_sum tz recs (bucket_of tz r) = Val NaN"
proof -
  have "\<exists>r0 x xs. filter (\<lambda>r'. bucket_of tz r' = bucket_of tz r) recs = r0 # x # xs"
    using assms(3) by (auto simp: Suc_le_length_iff numeral_2_eq_2)
  then obtain r0 x xs where f: "filter (\<lambda>r'. bucket_of tz r' = bucket_of tz r) recs = r0 # x # xs"
    by blast
  define rs where "rs = x # xs"
  note f = f [folded rs_def]
  have "r \<in> set (r0 # rs)" using assms(1) f [symmetric] by auto
  then consider "r \<in> set rs" | "r = r0" by auto
  then show ?thesis
  proof cases
    case 1
    then show ?thesis using assms(2) f by (simp add: bucket_js_sum_def foldl_js_plus_absent)
  next
    case 2
    moreover have "num_field Undefined = Undefined" by (simp add: num_field_def)
    ultimately show ?thesis using assms(2) f by (simp add: rs_def bucket_js_sum_def foldl_js_plus_NaN)
  qed
qed

text \<open>
  C14. For any records with valid half-year buckets, whatever their \<^verbatim>\<open>Sales\<close>,
  \<^verbatim>\<open>salesTrend\<close> is one point per distinct bucket in first-seen order whose value is the
  JavaScript \<^verbatim>\<open>+=\<close> of the bucket's sales, starting from the first record's value. In
  particular a record without \<^verbatim>\<open>Sales\<close> in a bucket of two or more records makes that
  bucket's point NaN, although \<^verbatim>\<open>totalSales\<close> counts it as 0.
\<close>

theorem sales_trend_js_refines:
  assumes "\<forall>r \<in> set recs. bucket_of tz r \<noteq> None"
  shows "sales_trend tz recs = trend_js_spec tz recs \<and>
         (\<forall>r \<in> set recs. Sales r = Undefined \<longrightarrow>
            2 \<le> length (filter (\<lambda>r'. bucket_of tz r' = bucket_of tz r) recs) \<longrightarrow>
            (\<exists>p \<in> set (sales_trend tz recs). tp_x p = bucket_of tz r \<and> tp_y p = Val NaN))"
proof -
  have eq: "sales_trend tz recs = trend_js_spec tz recs" using assms by (rule sales_trend_js_spec)
  have "\<exists>p \<in> set (trend_js_spec tz recs). tp_x p = bucket_of tz r \<and> tp_y p = Val NaN"
    if "r \<in> set recs" "Sales r = Undefined"
       "2 \<le> length (filter (\<lambda>r'. bucket_of tz r' = bucket_of tz r) recs)" for r
  proof -
    have "bucket_of tz r \<in> set (first_seen (map (bucket_of tz) recs))" using that(1) by simp
    then show ?thesis using bucket_js_sum_absent [OF that] by (auto simp: trend_js_spec_def)
  qed
  then show ?thesis using eq by simp
qed

end
