(* ===== verification/Monthly.thy ===== *)
theory Monthly
  imports Aggregates JS_Date
begin

text \<open>
  \<^verbatim>\<open>monthlyRevenue\<close> (dashboard.component.ts, lines 124--133): each record is
  labelled with \<^verbatim>\<open>new Date(record.Order_Date).toLocaleDateString('en-US',
  { year: 'numeric', month: 'long' })\<close>, an empty inner object is created for a new
  label, and the record's sales are added to the inner object under its category, as in
  the other grouped sums. No epoch substitution happens here: an invalid date formats as
  \<^verbatim>\<open>"Invalid Date"\<close>. The label follows the en-US pattern \<^verbatim>\<open>MMMM y\<close> in local
  time, where \<^verbatim>\<open>y\<close> is the year of the era (a year \<open>y \<le> 0\<close> shows as \<open>1 - y\<close>).
\<close>

definition month_names :: "string list" where
  "month_names = [''January'', ''February'', ''March'', ''April'', ''May'', ''June'', ''July'',
                  ''August'', ''September'', ''October'', ''November'', ''December'']"

fun show_nat :: "nat \<Rightarrow> string" where
  "show_nat n = (if n < 10 then [char_of (48 + n)] else show_nat (n div 10) @ [char_of (48 + n mod 10)])"

declare show_nat.simps [simp del]

definition year_label :: "int \<Rightarrow> string" where
  "year_label y = (if 0 < y then show_nat (nat y) else show_nat (nat (1 - y)))"

definition month_label :: "tz_offset \<Rightarrow> time_value \<Rightarrow> string" where
  "month_label tz tv =
     (case tv of
        None \<Rightarrow> ''Invalid Date''
      | Some t \<Rightarrow> month_names ! get_month tz t @ '' '' @ year_label (get_full_year tz t))"

definition record_month :: "tz_offset \<Rightarrow> sale \<Rightarrow> string" where
  "record_month tz r = month_label tz (new_date tz (Order_Date r))"

definition monthly_step :: "tz_offset \<Rightarrow> real jsobj jsobj \<Rightarrow> sale \<Rightarrow> real jsobj jsobj" where
  "monthly_step tz acc r =
     (let month = record_month tz r;
          acc1 = (case obj_get acc month of None \<Rightarrow> obj_set acc month [] | Some _ \<Rightarrow> acc)
      in case truthy_key (Category r) of
           None \<Rightarrow> acc1
         | Some c \<Rightarrow>
             (let inner = (case obj_get acc1 month of Some m \<Rightarrow> m | None \<Rightarrow> [])
              in obj_set acc1 month (obj_set inner c (get_or_zero inner c + or_zero (Sales r)))))"

definition monthly_revenue :: "tz_offset \<Rightarrow> sale list \<Rightarrow> real jsobj jsobj" where
  "monthly_revenue tz recs = foldl (monthly_step tz) [] recs"

section \<open>Abstract specification\<close>

text \<open>
  One entry per distinct month label, in first-seen order, holding the category grouped
  sum of the records of that month.
\<close>

definition monthly_spec :: "tz_offset \<Rightarrow> sale list \<Rightarrow> real jsobj jsobj" where
  "monthly_spec tz recs =
     map (\<lambda>m. (m, group_sum Category Sales (filter (\<lambda>r. record_month tz r = m) recs)))
       (first_seen (map (record_month tz) recs))"

section \<open>Lemmas\<close>

lemma decimal_value_snoc: "decimal_value (s @ [c]) = 10 * decimal_value s + digit_val c"
  by (simp add: decimal_value_def)

lemma digit_val_char_of: "d < 10 \<Longrightarrow> digit_val (char_of (48 + d)) = d"
  by (simp add: digit_val_def)

text \<open>Printing a natural number in decimal and reading it back gives the number.\<close>

lemma decimal_value_show_nat: "decimal_value (show_nat n) = n"
proof (induction n rule: show_nat.induct)
  case (1 n)
  show ?case
  proof (cases "n < 10")
    case True
    then show ?thesis
      by (simp add: show_nat.simps [of n] decimal_value_def digit_val_char_of)
  next
    case False
    then have "decimal_value (show_nat (n div 10)) = n div 10" by (rule "1.IH")
    with False show ?thesis
      by (simp add: show_nat.simps [of n] decimal_value_snoc digit_val_char_of)
  qed
qed

lemma monthly_revenue_snoc:
  "monthly_revenue tz (recs @ [r]) = monthly_step tz (monthly_revenue tz recs) r"
  by (simp add: monthly_revenue_def)


lemma monthly_step_eq:
  "monthly_step tz acc r =
     obj_set acc (record_month tz r)
       (add_to_group Category Sales (case obj_get acc (record_month tz r) of Some i \<Rightarrow> i | None \<Rightarrow> []) r)"
  by (auto simp: monthly_step_def add_to_group_def obj_set_same obj_set_twice Let_def
      split: option.split)

lemma monthly_spec_inner:
  "(case obj_get (monthly_spec tz recs) m of Some i \<Rightarrow> i | None \<Rightarrow> []) =
   group_sum Category Sales (filter (\<lambda>r. record_month tz r = m) recs)"
proof -
  have "filter (\<lambda>r. record_month tz r = m) recs = []" if "m \<notin> set (map (record_month tz) recs)"
    using that by (auto simp: filter_empty_conv)
  then show ?thesis
    by (auto simp: monthly_spec_def obj_get_def map_of_map_restrict restrict_map_def)
qed

text \<open>
  C15. \<^verbatim>\<open>monthlyRevenue\<close> is one entry per distinct month label, in the order the labels
  are first seen, holding the per-category sums of the sales of the records of that month,
  exactly as the grouped sum by category computes them.
\<close>

lemma monthly_revenue_refines_spec: "monthly_revenue tz recs = monthly_spec tz recs"
proof (induction recs rule: rev_induct)
  case Nil
  show ?case by (simp add: monthly_revenue_def monthly_spec_def)
next
  case (snoc r recs)
  let ?m = "record_month tz r"
  let ?f = "\<lambda>m. group_sum Category Sales (filter (\<lambda>r. record_month tz r = m) recs)"
  let ?f' = "\<lambda>m. group_sum Category Sales (filter (\<lambda>r'. record_month tz r' = m) (recs @ [r]))"
  have new: "add_to_group Category Sales (?f ?m) r = ?f' ?m"
    by (simp add: group_sum_snoc)
  have old: "?f' m = ?f m" if "m \<noteq> ?m" for m
    using that by simp
  have "monthly_step tz (monthly_spec tz recs) r = obj_set (monthly_spec tz recs) ?m (?f' ?m)"
    by (simp add: monthly_step_eq monthly_spec_inner new)
  also have "\<dots> = monthly_spec tz (recs @ [r])"
    using old by (auto simp: monthly_spec_def obj_set_tabulated intro!: map_cong)
  finally show ?case by (simp add: monthly_revenue_snoc snoc.IH)
qed

lemma obj_wf_monthly_revenue:
  "obj_wf (monthly_revenue tz recs) \<and> (\<forall>m \<in> set (monthly_revenue tz recs). obj_wf (snd m))"
proof (induction recs rule: rev_induct)
  case Nil
  show ?case by (simp add: monthly_revenue_def)
next
  case (snoc r recs)
  let ?acc = "monthly_revenue tz recs" and ?m = "record_month tz r"
  let ?inner = "case obj_get ?acc ?m of Some i \<Rightarrow> i | None \<Rightarrow> []"
  have "obj_wf ?inner"
  proof (cases "obj_get ?acc ?m")
    case (Some i)
    then have "(?m, i) \<in> set ?acc" by (simp add: obj_get_def map_of_SomeD)
    then show ?thesis using Some snoc.IH by fastforce
  qed simp
  then have "obj_wf (add_to_group Category Sales ?inner r)" by (rule obj_wf_add_to_group)
  then show ?case
    using snoc.IH set_obj_set [of ?acc ?m "add_to_group Category Sales ?inner r"]
    by (auto simp: monthly_revenue_snoc monthly_step_eq)
qed

end
