(* ===== verification/Dashboard.thy ===== *)
theory Dashboard
  imports Fulfillment Trend Monthly
begin

text \<open>
  The state of \<^verbatim>\<open>DashboardComponent\<close> (dashboard.component.ts, lines 14--31) and the
  methods that change it: \<^verbatim>\<open>calculateKPIs\<close> (lines 68--134), which assigns the fields
  one after the other and reads fields it assigned before (the ratio helpers of lines
  136--142 and 186--188 read \<^verbatim>\<open>this.totalSales\<close> and \<^verbatim>\<open>this.totalProfit\<close>), and the
  data loading of \<^verbatim>\<open>ngOnInit\<close>, \<^verbatim>\<open>loadSalesData\<close> and \<^verbatim>\<open>startPolling\<close> (lines
  35--66). A fetch is asynchronous: \<^verbatim>\<open>subscribe\<close> registers a callback that runs when
  the response arrives, and responses may arrive in any order. The events of the
  component are therefore: initialisation, a timer tick, and the arrival of the response
  to one of the requests in flight. \<^verbatim>\<open>renderCharts\<close> changes no field of the
  component; the charts are the theory \<open>Charts\<close>. The ratio fields are JavaScript numbers
  (\<open>jsnum\<close>): the divisions of lines 117, 137, 141 and 187 are Number::divide, so a zero
  divisor gives NaN or an infinity as it does in the browser.
\<close>

record dashboard =
  salesData :: "sale list"
  totalSales :: real
  totalProfit :: real
  salesByRegion :: "real jsobj"
  topCategories :: "real jsobj"
  salesTrend :: "trend_point list"
  profitMargin :: jsnum
  profitDistribution :: "real jsobj"
  monthlyRevenue :: "real jsobj jsobj"
  customerAcquisitionCost :: jsnum
  customerLifetimeValue :: jsnum
  averageFulfillmentTime :: real
  returnOnInvestment :: jsnum
  pollingInterval :: nat

definition dashboard_init :: dashboard where
  "dashboard_init =
     \<lparr>salesData = [], totalSales = 0, totalProfit = 0, salesByRegion = [], topCategories = [],
      salesTrend = [], profitMargin = Fin 0, profitDistribution = [], monthlyRevenue = [],
      customerAcquisitionCost = Fin 0, customerLifetimeValue = Fin 0, averageFulfillmentTime = 0,
      returnOnInvestment = Fin 0, pollingInterval = 60000\<rparr>"

section \<open>The KPI helpers\<close>

text \<open>\<^verbatim>\<open>this.salesData.length || 1\<close>: zero is falsy.\<close>

definition record_count_or_one :: "dashboard \<Rightarrow> real" where
  "record_count_or_one c = real (if length (salesData c) = 0 then 1 else length (salesData c))"

definition calculate_customer_acquisition_cost :: "dashboard \<Rightarrow> jsnum" where
  "calculate_customer_acquisition_cost c = js_div (Fin (totalSales c)) (Fin (record_count_or_one c))"

definition calculate_customer_lifetime_value :: "dashboard \<Rightarrow> jsnum" where
  "calculate_customer_lifetime_value c = js_div (Fin (totalProfit c)) (Fin (record_count_or_one c))"

definition calculate_return_on_investment :: "dashboard \<Rightarrow> jsnum" where
  "calculate_return_on_investment c = js_mul (js_div (Fin (totalProfit c)) (Fin (totalSales c))) (Fin 100)"

text \<open>\<^verbatim>\<open>this.calculateAverageFulfillmentTime() || 0\<close>: \<^verbatim>\<open>null\<close> becomes 0.\<close>

definition fulfillment_or_zero :: "real option \<Rightarrow> real" where
  "fulfillment_or_zero v = (case v of Some x \<Rightarrow> x | None \<Rightarrow> 0)"

section \<open>calculateKPIs\<close>

definition calculate_kpis :: "tz_offset \<Rightarrow> dashboard \<Rightarrow> dashboard" where
  "calculate_kpis tz c0 =
     (let c1 = c0\<lparr>totalSales := total_sales (salesData c0)\<rparr>;
          c2 = c1\<lparr>totalProfit := total_profit (salesData c1)\<rparr>;
          c3 = c2\<lparr>salesByRegion := sales_by_region (salesData c2)\<rparr>;
          c4 = c3\<lparr>topCategories := category_totals (salesData c3)\<rparr>;
          c5 = c4\<lparr>topCategories :=
                  obj_from_entries (js_sort by_value_desc (obj_entries (topCategories c4)))\<rparr>;
          c6 = c5\<lparr>profitDistribution := profit_distribution (salesData c5)\<rparr>;
          c7 = c6\<lparr>salesTrend := sales_trend tz (salesData c6)\<rparr>;
          c8 = c7\<lparr>profitMargin :=
                  (if totalSales c7 > 0 then js_mul (js_div (Fin (totalProfit c7)) (Fin (totalSales c7))) (Fin 100)
                   else Fin 0)\<rparr>;
          c9 = c8\<lparr>customerAcquisitionCost := calculate_customer_acquisition_cost c8\<rparr>;
          c10 = c9\<lparr>customerLifetimeValue := calculate_customer_lifetime_value c9\<rparr>;
          c11 = c10\<lparr>averageFulfillmentTime :=
                   fulfillment_or_zero (calculate_average_fulfillment_time tz (salesData c10))\<rparr>;
          c12 = c11\<lparr>returnOnInvestment := calculate_return_on_investment c11\<rparr>;
          c13 = c12\<lparr>monthlyRevenue := monthly_revenue tz (salesData c12)\<rparr>
      in c13)"

section \<open>Loading and polling\<close>

datatype fetch_result = Fetched "sale list" | FetchFailed

datatype event = Init | Tick | Response nat fetch_result

text \<open>
  The component together with its subscriptions: whether \<^verbatim>\<open>ngOnInit\<close> ran, whether
  the interval timer is set, the number of the next request and the requests whose
  response has not arrived yet.
\<close>

record system =
  comp :: dashboard
  initialized :: bool
  polling :: bool
  next_req :: nat
  pending :: "nat list"

definition system_init :: system where
  "system_init = \<lparr>comp = dashboard_init, initialized = False, polling = False, next_req = 0, pending = []\<rparr>"

text \<open>\<^verbatim>\<open>this.couchdbService.getSalesData().subscribe(...)\<close>: a new request in flight.\<close>

definition issue_request :: "system \<Rightarrow> system" where
  "issue_request s = s\<lparr>next_req := Suc (next_req s), pending := pending s @ [next_req s]\<rparr>"

text \<open>
  The success callback: \<^verbatim>\<open>this.salesData = sales; this.calculateKPIs(); this.renderCharts()\<close>;
  the error callback only logs.
\<close>

fun on_response :: "tz_offset \<Rightarrow> fetch_result \<Rightarrow> dashboard \<Rightarrow> dashboard" where
  "on_response tz (Fetched sales) c = calculate_kpis tz (c\<lparr>salesData := sales\<rparr>)"
| "on_response tz FetchFailed c = c"

fun dash_step :: "tz_offset \<Rightarrow> system \<Rightarrow> event \<Rightarrow> system" where
  "dash_step tz s Init = (issue_request s)\<lparr>initialized := True, polling := True\<rparr>"
| "dash_step tz s Tick = (if polling s then issue_request s else s)"
| "dash_step tz s (Response i res) =
     (if i \<in> set (pending s)
      then s\<lparr>pending := remove1 i (pending s), comp := on_response tz res (comp s)\<rparr>
      else s)"

text \<open>
  Which events can happen: Angular runs \<^verbatim>\<open>ngOnInit\<close> once, before anything else; a tick
  or a response can happen at any time after.
\<close>

fun enabled :: "system \<Rightarrow> event \<Rightarrow> bool" where
  "enabled s Init = (\<not> initialized s)"
| "enabled s Tick = initialized s"
| "enabled s (Response i res) = (i \<in> set (pending s))"

inductive reachable :: "tz_offset \<Rightarrow> system \<Rightarrow> bool" for tz where
  start: "reachable tz system_init"
| step: "reachable tz s \<Longrightarrow> enabled s e \<Longrightarrow> reachable tz (dash_step tz s e)"

fun run :: "tz_offset \<Rightarrow> system \<Rightarrow> event list \<Rightarrow> system" where
  "run tz s [] = s"
| "run tz s (e # es) = run tz (dash_step tz s e) es"

fun valid_run :: "system \<Rightarrow> event list \<Rightarrow> tz_offset \<Rightarrow> bool" where
  "valid_run s [] tz = True"
| "valid_run s (e # es) tz = (enabled s e \<and> valid_run (dash_step tz s e) es tz)"

definition kpis_consistent :: "tz_offset \<Rightarrow> dashboard \<Rightarrow> bool" where
  "kpis_consistent tz c \<longleftrightarrow> calculate_kpis tz c = c"

section \<open>Lemmas\<close>

text \<open>Each field \<^verbatim>\<open>calculateKPIs\<close> assigns, as a function of \<^verbatim>\<open>salesData\<close>.\<close>

lemma calculate_kpis_fields:
  "salesData (calculate_kpis tz c) = salesData c"
  "totalSales (calculate_kpis tz c) = total_sales (salesData c)"
  "totalProfit (calculate_kpis tz c) = total_profit (salesData c)"
  "salesByRegion (calculate_kpis tz c) = sales_by_region (salesData c)"
  "topCategories (calculate_kpis tz c) = top_categories (salesData c)"
  "profitDistribution (calculate_kpis tz c) = profit_distribution (salesData c)"
  "salesTrend (calculate_kpis tz c) = sales_trend tz (salesData c)"
  "profitMargin (calculate_kpis tz c) =
     (if 0 < total_sales (salesData c)
      then js_mul (js_div (Fin (total_profit (salesData c))) (Fin (total_sales (salesData c)))) (Fin 100)
      else Fin 0)"
  "customerAcquisitionCost (calculate_kpis tz c) = js_div (Fin (total_sales (salesData c))) (Fin (record_count_or_one c))"
  "customerLifetimeValue (calculate_kpis tz c) = js_div (Fin (total_profit (salesData c))) (Fin (record_count_or_one c))"
  "averageFulfillmentTime (calculate_kpis tz c) =
     fulfillment_or_zero (calculate_average_fulfillment_time tz (salesData c))"
  "returnOnInvestment (calculate_kpis tz c) =
     js_mul (js_div (Fin (total_profit (salesData c))) (Fin (total_sales (salesData c)))) (Fin 100)"
  "monthlyRevenue (calculate_kpis tz c) = monthly_revenue tz (salesData c)"
  "pollingInterval (calculate_kpis tz c) = pollingInterval c"
  by (simp_all add: calculate_kpis_def Let_def top_categories_def calculate_customer_acquisition_cost_def
      calculate_customer_lifetime_value_def calculate_return_on_investment_def record_count_or_one_def)

lemma record_count_or_one_kpis: "record_count_or_one (calculate_kpis tz c) = record_count_or_one c"
  by (simp add: record_count_or_one_def calculate_kpis_fields)

lemma calculate_kpis_idem: "calculate_kpis tz (calculate_kpis tz c) = calculate_kpis tz c"
  by (rule dashboard.equality) (simp_all add: calculate_kpis_fields record_count_or_one_kpis)

lemma consistent_calculate_kpis: "kpis_consistent tz (calculate_kpis tz c)"
  by (simp add: kpis_consistent_def calculate_kpis_idem)

lemma on_response_consistent:
  "c = dashboard_init \<or> kpis_consistent tz c \<Longrightarrow>
   on_response tz res c = dashboard_init \<or> kpis_consistent tz (on_response tz res c)"
  by (cases res) (auto simp: consistent_calculate_kpis)

lemma pollingInterval_on_response: "pollingInterval (on_response tz res c) = pollingInterval c"
  by (cases res) (simp_all add: calculate_kpis_fields)

text \<open>The bookkeeping of the requests in flight.\<close>

definition requests_wf :: "system \<Rightarrow> bool" where
  "requests_wf s \<longleftrightarrow> distinct (pending s) \<and> (\<forall>i \<in> set (pending s). i < next_req s) \<and>
     polling s = initialized s \<and> (\<not> initialized s \<longrightarrow> next_req s = 0)"

lemma requests_wf_step: "requests_wf s \<Longrightarrow> requests_wf (dash_step tz s e)"
  by (cases e) (auto simp: requests_wf_def issue_request_def dest: in_set_remove1 [THEN iffD1, rotated])

lemma reachable_requests_wf: "reachable tz s \<Longrightarrow> requests_wf s"
  by (induction rule: reachable.induct)
     (simp_all add: requests_wf_step, simp add: requests_wf_def system_init_def)

lemma reachable_run: "reachable tz s \<Longrightarrow> valid_run s es tz \<Longrightarrow> reachable tz (run tz s es)"
  by (induction es arbitrary: s) (auto intro: reachable.step)

end
