(* ===== verification/Charts.thy ===== *)
theory Charts
  imports Dashboard
begin

text \<open>
  \<^verbatim>\<open>renderCharts\<close>, \<^verbatim>\<open>renderChart\<close> and \<^verbatim>\<open>getCategoryColor\<close>
  (dashboard.component.ts, lines 190--407): the data each chart is given, read from the
  KPI fields, and the creation of the charts on the page. The page is the list of canvas
  ids it holds and the charts alive on them. \<^verbatim>\<open>new Chart(canvas, config)\<close> refuses a
  canvas that already holds a chart (Chart.js 3 and later, which \<^verbatim>\<open>registerables\<close>
  implies): it throws, and the exception leaves \<^verbatim>\<open>renderCharts\<close> at that point. The
  scale and tooltip options are constant configuration and are not modelled;
  \<^verbatim>\<open>Math.random\<close> is a stream of draws \<open>rnd\<close>, each \<open>\<lfloor>256 \<cdot> Math.random()\<rfloor>\<close>, and
  a counter of the draws used.
\<close>

datatype chart_type = Line | Bar | Pie | Doughnut

datatype chart_values = Points "trend_point list" | Numbers "real list"

record dataset =
  ds_label :: string
  ds_data :: chart_values
  ds_background :: "string list"
  ds_border :: "string list"

record chart =
  chart_canvas :: string
  chart_kind :: chart_type
  chart_labels :: "string list"
  chart_datasets :: "dataset list"

record page =
  canvases :: "string list"
  live_charts :: "chart list"

section \<open>Creating a chart\<close>

text \<open>\<^verbatim>\<open>new Chart(ctx, config)\<close>: an error when the canvas is in use.\<close>

definition new_chart :: "page \<Rightarrow> chart \<Rightarrow> string + page" where
  "new_chart p c =
     (if list_ex (\<lambda>c'. chart_canvas c' = chart_canvas c) (live_charts p)
      then Inl ''Canvas is already in use''
      else Inr (p\<lparr>live_charts := live_charts p @ [c]\<rparr>))"

text \<open>\<^verbatim>\<open>renderChart\<close>: nothing happens when the page has no such canvas.\<close>

definition render_chart :: "page \<Rightarrow> chart \<Rightarrow> string + page" where
  "render_chart p c = (if chart_canvas c \<in> set (canvases p) then new_chart p c else Inr p)"

fun render_seq :: "page \<Rightarrow> chart list \<Rightarrow> string + page" where
  "render_seq p [] = Inr p"
| "render_seq p (c # cs) = (case render_chart p c of Inl e \<Rightarrow> Inl e | Inr p' \<Rightarrow> render_seq p' cs)"

section \<open>The four charts of the KPI fields\<close>

definition palette_fill :: "string list" where
  "palette_fill = [''rgba(255, 99, 132, 0.2)'', ''rgba(54, 162, 235, 0.2)'', ''rgba(255, 206, 86, 0.2)'',
                   ''rgba(75, 192, 192, 0.2)'', ''rgba(153, 102, 255, 0.2)'', ''rgba(255, 159, 64, 0.2)'']"

definition palette_border :: "string list" where
  "palette_border = [''rgba(255, 99, 132, 1)'', ''rgba(54, 162, 235, 1)'', ''rgba(255, 206, 86, 1)'',
                     ''rgba(75, 192, 192, 1)'', ''rgba(153, 102, 255, 1)'', ''rgba(255, 159, 64, 1)'']"

definition trend_chart :: "dashboard \<Rightarrow> chart" where
  "trend_chart c =
     \<lparr>chart_canvas = ''salesTrendChart'', chart_kind = Line, chart_labels = [],
      chart_datasets = [\<lparr>ds_label = ''Sales Trend'', ds_data = Points (salesTrend c), ds_background = [],
                          ds_border = [''rgba(75, 192, 192, 1)'']\<rparr>]\<rparr>"

definition region_chart :: "dashboard \<Rightarrow> chart" where
  "region_chart c =
     \<lparr>chart_canvas = ''salesByRegionChart'', chart_kind = Bar, chart_labels = own_keys (salesByRegion c),
      chart_datasets = [\<lparr>ds_label = ''Sales by Region'', ds_data = Numbers (obj_values (salesByRegion c)),
                          ds_background = [''rgba(153, 102, 255, 0.2)''],
                          ds_border = [''rgba(153, 102, 255, 1)'']\<rparr>]\<rparr>"

definition category_chart :: "dashboard \<Rightarrow> chart" where
  "category_chart c =
     \<lparr>chart_canvas = ''topCategoriesChart'', chart_kind = Pie, chart_labels = own_keys (topCategories c),
      chart_datasets = [\<lparr>ds_label = ''Top Categories by Sales'', ds_data = Numbers (obj_values (topCategories c)),
                          ds_background = palette_fill, ds_border = palette_border\<rparr>]\<rparr>"

definition profit_chart :: "dashboard \<Rightarrow> chart" where
  "profit_chart c =
     \<lparr>chart_canvas = ''profitDistributionChart'', chart_kind = Doughnut,
      chart_labels = own_keys (profitDistribution c),
      chart_datasets = [\<lparr>ds_label = ''Profit Distribution by Country'',
                          ds_data = Numbers (obj_values (profitDistribution c)),
                          ds_background = palette_fill, ds_border = palette_border\<rparr>]\<rparr>"

section \<open>getCategoryColor\<close>

text \<open>\<^verbatim>\<open>String.prototype.replace\<close> with a string pattern: the first occurrence only.\<close>

fun replace_first :: "string \<Rightarrow> string \<Rightarrow> string \<Rightarrow> string" where
  "replace_first pat rep s =
     (if take (length pat) s = pat then rep @ drop (length pat) s
      else case s of [] \<Rightarrow> [] | c # cs \<Rightarrow> c # replace_first pat rep cs)"

declare replace_first.simps [simp del]

definition category_colors :: "(string \<times> string) list" where
  "category_colors =
     [(''Category1'', ''rgba(255, 99, 132, 0.2)''), (''Category2'', ''rgba(54, 162, 235, 0.2)''),
      (''Category3'', ''rgba(255, 206, 86, 0.2)''), (''Category4'', ''rgba(75, 192, 192, 0.2)''),
      (''Category5'', ''rgba(153, 102, 255, 0.2)''), (''Category6'', ''rgba(255, 159, 64, 0.2)''),
      (''Category7'', ''rgba(199, 199, 199, 0.2)''), (''Category8'', ''rgba(83, 102, 255, 0.2)'')]"

definition category_border_colors :: "(string \<times> string) list" where
  "category_border_colors =
     [(''Category1'', ''rgba(255, 99, 132, 1)''), (''Category2'', ''rgba(54, 162, 235, 1)''),
      (''Category3'', ''rgba(255, 206, 86, 1)''), (''Category4'', ''rgba(75, 192, 192, 1)''),
      (''Category5'', ''rgba(153, 102, 255, 1)''), (''Category6'', ''rgba(255, 159, 64, 1)''),
      (''Category7'', ''rgba(199, 199, 199, 1)''), (''Category8'', ''rgba(83, 102, 255, 1)'')]"

text \<open>
  The colour of a category and the number of random draws used so far. An unknown
  category gets \<^verbatim>\<open>rgba(r, g, b, a)\<close> from three fresh draws, the alpha 1 for a border
  and 0.2 for a fill; for a border, \<^verbatim>\<open>replace('0.2', '1')\<close> is then applied.
\<close>

definition get_category_color :: "(nat \<Rightarrow> nat) \<Rightarrow> nat \<Rightarrow> string \<Rightarrow> bool \<Rightarrow> string \<times> nat" where
  "get_category_color rnd k category border =
     (case map_of category_colors category of
        None \<Rightarrow>
          (let random_color = ''rgba('' @ show_nat (rnd k) @ '', '' @ show_nat (rnd (k + 1)) @ '', '' @
                                show_nat (rnd (k + 2)) @ '', '' @ (if border then ''1'' else ''0.2'') @ '')''
           in (if border then replace_first ''0.2'' ''1'' random_color else random_color, k + 3))
      | Some fill \<Rightarrow>
          (if border then (case map_of category_border_colors category of Some b \<Rightarrow> b | None \<Rightarrow> ''rgba(0,0,0,1)'')
           else fill, k))"

section \<open>The monthly breakdown chart\<close>

text \<open>
  One dataset per category of the first month label, in that month's key order, holding
  the category's value in every month (\<^verbatim>\<open>|| 0\<close> when the month has none); the fill
  colour is drawn before the border colour.
\<close>

fun monthly_datasets ::
  "(nat \<Rightarrow> nat) \<Rightarrow> nat \<Rightarrow> real jsobj jsobj \<Rightarrow> string list \<Rightarrow> dataset list \<times> nat" where
  "monthly_datasets rnd k mr [] = ([], k)"
| "monthly_datasets rnd k mr (category # cs) =
     (let (bg, k1) = get_category_color rnd k category False;
          (bd, k2) = get_category_color rnd k1 category True;
          (rest, k3) = monthly_datasets rnd k2 mr cs
      in (\<lparr>ds_label = category,
            ds_data = Numbers (map (\<lambda>month. get_or_zero (case obj_get mr month of Some i \<Rightarrow> i | None \<Rightarrow> []) category)
                                   (own_keys mr)),
            ds_background = [bg], ds_border = [bd]\<rparr> # rest, k3))"

text \<open>
  The chart of the task. Its data are evaluated before \<^verbatim>\<open>new Chart\<close> is called:
  \<^verbatim>\<open>Object.keys(this.monthlyRevenue[Object.keys(this.monthlyRevenue)[0]])\<close> throws a
  \<^verbatim>\<open>TypeError\<close> when \<^verbatim>\<open>monthlyRevenue\<close> has no key by the time the task runs (the
  lookup of \<^verbatim>\<open>undefined\<close> gives \<^verbatim>\<open>undefined\<close>).
\<close>

definition monthly_chart :: "(nat \<Rightarrow> nat) \<Rightarrow> nat \<Rightarrow> dashboard \<Rightarrow> (string + chart) \<times> nat" where
  "monthly_chart rnd k c =
     (let mr = monthlyRevenue c
      in case own_keys mr of
           [] \<Rightarrow> (Inl ''TypeError'', k)
         | m0 # ms \<Rightarrow>
             (case obj_get mr m0 of
                None \<Rightarrow> (Inl ''TypeError'', k)
              | Some first \<Rightarrow>
                  (let (ds, k') = monthly_datasets rnd k mr (own_keys first)
                   in (Inr \<lparr>chart_canvas = ''monthlyRevenueBreakdownChart'', chart_kind = Bar,
                            chart_labels = own_keys mr, chart_datasets = ds\<rparr>, k'))))"

section \<open>renderCharts\<close>

text \<open>
  The four charts in source order, then, when \<^verbatim>\<open>monthlyRevenue\<close> has a key, the
  monthly chart as a task for \<^verbatim>\<open>setTimeout\<close>: it runs after the callback has returned.
\<close>

definition render_charts :: "dashboard \<Rightarrow> page \<Rightarrow> string + page \<times> bool" where
  "render_charts c p =
     (case render_seq p [trend_chart c, region_chart c, category_chart c, profit_chart c] of
        Inl e \<Rightarrow> Inl e
      | Inr p' \<Rightarrow> Inr (p', own_keys (monthlyRevenue c) \<noteq> []))"

text \<open>
  The deferred task: a missing canvas is only logged and draws no colour; an exception
  of the chart's data ends the task with nothing drawn.
\<close>

definition render_monthly :: "(nat \<Rightarrow> nat) \<Rightarrow> nat \<Rightarrow> dashboard \<Rightarrow> page \<Rightarrow> (string + page) \<times> nat" where
  "render_monthly rnd k c p =
     (if ''monthlyRevenueBreakdownChart'' \<in> set (canvases p)
      then (case monthly_chart rnd k c of
              (Inl e, k') \<Rightarrow> (Inl e, k')
            | (Inr ch, k') \<Rightarrow> (new_chart p ch, k'))
      else (Inr p, k))"

section \<open>Lemmas\<close>

lemma render_seq_ok:
  "render_seq p cs = Inr p' \<Longrightarrow>
   canvases p' = canvases p \<and> live_charts p' = live_charts p @ filter (\<lambda>c. chart_canvas c \<in> set (canvases p)) cs"
  by (induction p cs rule: render_seq.induct)
     (auto simp: render_chart_def new_chart_def split: sum.splits if_splits)

lemma render_chart_in_use:
  "chart_canvas c \<in> set (canvases p) \<Longrightarrow> chart_canvas c \<in> chart_canvas ` set (live_charts p) \<Longrightarrow>
   render_chart p c = Inl ''Canvas is already in use''"
  by (auto simp: render_chart_def new_chart_def list_ex_iff)

lemma chart_canvases:
  "chart_canvas (trend_chart c) = ''salesTrendChart''" "chart_canvas (region_chart c) = ''salesByRegionChart''"
  "chart_canvas (category_chart c) = ''topCategoriesChart''"
  "chart_canvas (profit_chart c) = ''profitDistributionChart''"
  by (simp_all add: trend_chart_def region_chart_def category_chart_def profit_chart_def)

text \<open>
  C17. The charts are created once: if the page has the trend canvas and a first
  \<^verbatim>\<open>renderCharts\<close> succeeds, every later \<^verbatim>\<open>renderCharts\<close> on that page throws "Canvas is
  already in use" at its first chart, so the page keeps the charts of the first data.
\<close>

theorem render_charts_once:
  assumes canv: "''salesTrendChart'' \<in> set (canvases p)"
    and ok: "render_charts c1 p = Inr (p1, b)"
  shows "render_charts c2 p1 = Inl ''Canvas is already in use''"
proof -
  from ok obtain p' where seq: "render_seq p [trend_chart c1, region_chart c1, category_chart c1, profit_chart c1] = Inr p'"
    and "p1 = p'"
    by (auto simp: render_charts_def split: sum.splits)
  then have "''salesTrendChart'' \<in> set (canvases p1)" "''salesTrendChart'' \<in> chart_canvas ` set (live_charts p1)"
    using render_seq_ok [OF seq] canv by (auto simp: chart_canvases)
  then have "render_chart p1 (trend_chart c2) = Inl ''Canvas is already in use''"
    by (simp add: render_chart_in_use chart_canvases)
  then show ?thesis by (simp add: render_charts_def)
qed

lemma monthly_datasets_labels: "map ds_label (fst (monthly_datasets rnd k mr cats)) = cats"
proof (induction cats arbitrary: k)
  case Nil
  show ?case by simp
next
  case (Cons a cats)
  obtain bg k1 where 1: "get_category_color rnd k a False = (bg, k1)" by fastforce
  obtain bd k2 where 2: "get_category_color rnd k1 a True = (bd, k2)" by fastforce
  obtain rest k3 where 3: "monthly_datasets rnd k2 mr cats = (rest, k3)" by fastforce
  have "map ds_label rest = cats" using Cons.IH [of k2] 3 by simp
  then show ?case by (simp add: 1 2 3)
qed

text \<open>
  C18. After \<^verbatim>\<open>calculateKPIs\<close>, the bar chart of sales by region shows, when no region
  name is an array index, one bar per distinct non-empty region in first-seen order, each
  the total sales of that region.
\<close>

lemma region_chart_data:
  assumes "\<forall>k \<in> set (group_keys Region (salesData c)). \<not> is_array_index k"
  shows "chart_labels (region_chart (calculate_kpis tz c)) = group_keys Region (salesData c) \<and>
         chart_datasets (region_chart (calculate_kpis tz c)) =
           [\<lparr>ds_label = ''Sales by Region'',
             ds_data = Numbers (map (group_total Region Sales (salesData c)) (group_keys Region (salesData c))),
             ds_background = [''rgba(153, 102, 255, 0.2)''], ds_border = [''rgba(153, 102, 255, 1)'']\<rparr>]"
proof -
  have "obj_entries (group_spec Region Sales (salesData c)) = group_spec Region Sales (salesData c)"
    using assms by (simp add: obj_entries_no_index keys_group_spec)
  then show ?thesis
    by (simp add: region_chart_def calculate_kpis_fields sales_by_region_def group_sum_refines_spec
        own_keys_def obj_values_def group_spec_def o_def)
qed

text \<open>The chart of the deferred task, or its exception.\<close>

lemma monthly_chart_cases:
  "case fst (monthly_chart rnd k c) of
     Inl e \<Rightarrow> e = ''TypeError'' \<and> own_keys (monthlyRevenue c) = []
   | Inr ch \<Rightarrow> chart_labels ch = own_keys (monthlyRevenue c) \<and> own_keys (monthlyRevenue c) \<noteq> [] \<and>
       chart_canvas ch = ''monthlyRevenueBreakdownChart''"
proof (cases "own_keys (monthlyRevenue c)")
  case Nil
  then show ?thesis by (simp add: monthly_chart_def)
next
  case (Cons m0 ms)
  then have "m0 \<in> fst ` set (obj_entries (monthlyRevenue c))" by (simp add: own_keys_def image_iff) (metis list.set_intros(1) list.simps(9) own_keys_def set_map image_iff Cons)
  then have "m0 \<in> fst ` set (monthlyRevenue c)" by (simp add: mset_eq_setD [OF mset_obj_entries])
  then obtain first where f: "obj_get (monthlyRevenue c) m0 = Some first"
    by (auto simp: obj_get_def dest: weak_map_of_SomeI)
  obtain ds k' where "monthly_datasets rnd k (monthlyRevenue c) (own_keys first) = (ds, k')" by fastforce
  then show ?thesis using Cons f by (simp add: monthly_chart_def Let_def)
qed

end
