(* ===== verification/Page.thy ===== *)
theory Page
  imports Charts
begin

text \<open>
  The component and its page together. The success callback of a request
  (dashboard.component.ts, lines 42--46 and 56--60) sets \<^verbatim>\<open>salesData\<close>, runs
  \<^verbatim>\<open>calculateKPIs\<close> and then \<^verbatim>\<open>renderCharts\<close>; an exception of
  \<^verbatim>\<open>renderCharts\<close> ends the callback after the KPI fields were assigned. A successful
  \<^verbatim>\<open>renderCharts\<close> may schedule the monthly chart with \<^verbatim>\<open>setTimeout\<close> (lines
  324--366); the task reads \<^verbatim>\<open>this.monthlyRevenue\<close> when it runs, which may be after
  later responses. The page holds the canvases of the component's template.
\<close>

datatype ui_event = Component event | Timeout

record ui =
  sys :: system
  pg :: page
  draws :: nat
  timeouts :: nat

definition dashboard_canvases :: "string list" where
  "dashboard_canvases = [''salesTrendChart'', ''salesByRegionChart'', ''topCategoriesChart'',
                         ''profitDistributionChart'', ''monthlyRevenueBreakdownChart'']"

definition ui_init :: ui where
  "ui_init = \<lparr>sys = system_init, pg = \<lparr>canvases = dashboard_canvases, live_charts = []\<rparr>, draws = 0, timeouts = 0\<rparr>"

text \<open>A response with data whose request is in flight: the success callback runs.\<close>

fun fetched :: "system \<Rightarrow> event \<Rightarrow> bool" where
  "fetched s (Response i (Fetched d)) = (i \<in> set (pending s))"
| "fetched s e = False"

fun ui_step :: "tz_offset \<Rightarrow> (nat \<Rightarrow> nat) \<Rightarrow> ui \<Rightarrow> ui_event \<Rightarrow> ui" where
  "ui_step tz rnd u (Component e) =
     (let s' = dash_step tz (sys u) e
      in if fetched (sys u) e
         then (case render_charts (comp s') (pg u) of
                 Inl err \<Rightarrow> u\<lparr>sys := s'\<rparr>
               | Inr (p', sched) \<Rightarrow> u\<lparr>sys := s', pg := p', timeouts := timeouts u + (if sched then 1 else 0)\<rparr>)
         else u\<lparr>sys := s'\<rparr>)"
| "ui_step tz rnd u Timeout =
     (if timeouts u = 0 then u
      else (case render_monthly rnd (draws u) (comp (sys u)) (pg u) of
              (Inl err, k) \<Rightarrow> u\<lparr>timeouts := timeouts u - 1, draws := k\<rparr>
            | (Inr p', k) \<Rightarrow> u\<lparr>timeouts := timeouts u - 1, draws := k, pg := p'\<rparr>))"

fun ui_run :: "tz_offset \<Rightarrow> (nat \<Rightarrow> nat) \<Rightarrow> ui \<Rightarrow> ui_event list \<Rightarrow> ui" where
  "ui_run tz rnd u [] = u"
| "ui_run tz rnd u (e # es) = ui_run tz rnd (ui_step tz rnd u e) es"



section \<open>Lemmas\<close>

lemma render_charts_fresh:
  assumes "set [''salesTrendChart'', ''salesByRegionChart'', ''topCategoriesChart'', ''profitDistributionChart'']
             \<subseteq> set (canvases p)" "live_charts p = []"
  shows "render_charts c p =
           Inr (p\<lparr>live_charts := [trend_chart c, region_chart c, category_chart c, profit_chart c]\<rparr>,
                own_keys (monthlyRevenue c) \<noteq> [])"
  using assms by (simp add: render_charts_def render_chart_def new_chart_def chart_canvases)

lemma ui_run_snoc: "ui_run tz rnd u (es @ [e]) = ui_step tz rnd (ui_run tz rnd u es) e"
  by (induction es arbitrary: u) (simp_all del: ui_step.simps)

text \<open>Two successful loads in a row: the state of the page after the second callback.\<close>

lemma two_loads:
  fixes d1 d2 :: "sale list" and tz :: tz_offset and rnd :: "nat \<Rightarrow> nat"
  defines "c1 \<equiv> calculate_kpis tz (dashboard_init\<lparr>salesData := d1\<rparr>)"
  defines "u \<equiv> ui_run tz rnd ui_init
      [Component Init, Component Tick, Component (Response 0 (Fetched d1)), Component (Response 1 (Fetched d2))]"
  shows "comp (sys u) = calculate_kpis tz (c1\<lparr>salesData := d2\<rparr>)"
    and "pg u = \<lparr>canvases = dashboard_canvases,
                 live_charts = [trend_chart c1, region_chart c1, category_chart c1, profit_chart c1]\<rparr>"
    and "timeouts u = (if own_keys (monthly_revenue tz d1) \<noteq> [] then 1 else 0)"
    and "draws u = 0"
proof -
  let ?p0 = "\<lparr>canvases = dashboard_canvases, live_charts = []\<rparr> :: page"
  let ?p1 = "\<lparr>canvases = dashboard_canvases,
              live_charts = [trend_chart c1, region_chart c1, category_chart c1, profit_chart c1]\<rparr> :: page"
  have r1: "render_charts c1 ?p0 = Inr (?p1, own_keys (monthly_revenue tz d1) \<noteq> [])"
    using render_charts_fresh [of ?p0 c1] by (simp add: dashboard_canvases_def c1_def calculate_kpis_fields)
  have "''salesTrendChart'' \<in> set (canvases ?p1)" "''salesTrendChart'' \<in> chart_canvas ` set (live_charts ?p1)"
    by (simp_all add: dashboard_canvases_def chart_canvases)
  then have r2: "render_charts c ?p1 = Inl ''Canvas is already in use''" for c
    by (simp add: render_charts_def render_chart_in_use chart_canvases)
  show "comp (sys u) = calculate_kpis tz (c1\<lparr>salesData := d2\<rparr>)" "pg u = ?p1"
    "timeouts u = (if own_keys (monthly_revenue tz d1) \<noteq> [] then 1 else 0)" "draws u = 0"
    unfolding u_def c1_def [symmetric]
    by (simp_all add: ui_init_def system_init_def issue_request_def Let_def r1 r2 c1_def [symmetric])
qed

text \<open>
  C19. After two successful loads on the component's page, the component holds the second
  data while the four charts on the page still show the KPIs of the first data: the second
  \<^verbatim>\<open>renderCharts\<close> threw "Canvas is already in use".
\<close>

theorem charts_keep_first_data:
  "salesData (comp (sys (ui_run tz rnd ui_init
      [Component Init, Component Tick, Component (Response 0 (Fetched d1)), Component (Response 1 (Fetched d2))]))) = d2 \<and>
   live_charts (pg (ui_run tz rnd ui_init
      [Component Init, Component Tick, Component (Response 0 (Fetched d1)), Component (Response 1 (Fetched d2))])) =
   [trend_chart (calculate_kpis tz (dashboard_init\<lparr>salesData := d1\<rparr>)),
    region_chart (calculate_kpis tz (dashboard_init\<lparr>salesData := d1\<rparr>)),
    category_chart (calculate_kpis tz (dashboard_init\<lparr>salesData := d1\<rparr>)),
    profit_chart (calculate_kpis tz (dashboard_init\<lparr>salesData := d1\<rparr>))]"
  using two_loads(1,2) by (simp add: calculate_kpis_fields)

text \<open>
  C20. The deferred monthly chart reads the component when it runs, not when it was
  scheduled: after two successful loads and then the timer task of the first, the page
  shows the four charts of the first data and, next to them, the monthly chart of the
  second data; when the second data has no month the task throws a \<^verbatim>\<open>TypeError\<close>
  and draws nothing.
\<close>

theorem deferred_chart_shows_later_data:
  assumes "own_keys (monthly_revenue tz d1) \<noteq> []"
  shows "live_charts (pg (ui_run tz rnd ui_init
      [Component Init, Component Tick, Component (Response 0 (Fetched d1)), Component (Response 1 (Fetched d2)),
       Timeout])) =
   [trend_chart (calculate_kpis tz (dashboard_init\<lparr>salesData := d1\<rparr>)),
    region_chart (calculate_kpis tz (dashboard_init\<lparr>salesData := d1\<rparr>)),
    category_chart (calculate_kpis tz (dashboard_init\<lparr>salesData := d1\<rparr>)),
    profit_chart (calculate_kpis tz (dashboard_init\<lparr>salesData := d1\<rparr>))] @
   (case fst (monthly_chart rnd 0 (calculate_kpis tz (dashboard_init\<lparr>salesData := d2\<rparr>))) of
      Inl e \<Rightarrow> [] | Inr ch \<Rightarrow> [ch]) \<and>
   (isl (fst (monthly_chart rnd 0 (calculate_kpis tz (dashboard_init\<lparr>salesData := d2\<rparr>)))) \<longleftrightarrow>
      own_keys (monthly_revenue tz d2) = []) \<and>
   (case fst (monthly_chart rnd 0 (calculate_kpis tz (dashboard_init\<lparr>salesData := d2\<rparr>))) of
      Inl e \<Rightarrow> e = ''TypeError''
    | Inr ch \<Rightarrow> chart_labels ch = own_keys (monthly_revenue tz d2))"
proof -
  define c2 where "c2 = calculate_kpis tz ((calculate_kpis tz (dashboard_init\<lparr>salesData := d1\<rparr>))\<lparr>salesData := d2\<rparr>)"
  define c2' where "c2' = calculate_kpis tz (dashboard_init\<lparr>salesData := d2\<rparr>)"
  define u where "u = ui_run tz rnd ui_init
      [Component Init, Component Tick, Component (Response 0 (Fetched d1)), Component (Response 1 (Fetched d2))]"
  have m: "monthly_chart rnd 0 c2 = monthly_chart rnd 0 c2'"
    by (simp add: c2_def c2'_def monthly_chart_def calculate_kpis_fields)
  have mr: "monthlyRevenue c2' = monthly_revenue tz d2" by (simp add: c2'_def calculate_kpis_fields)
  have t: "timeouts u = 1" and d: "draws u = 0" and c: "comp (sys u) = c2"
    using assms two_loads(1,3,4) by (simp_all add: u_def c2_def del: ui_run.simps)
  have p: "pg u = \<lparr>canvases = dashboard_canvases,
                 live_charts = [trend_chart (calculate_kpis tz (dashboard_init\<lparr>salesData := d1\<rparr>)),
                   region_chart (calculate_kpis tz (dashboard_init\<lparr>salesData := d1\<rparr>)),
                   category_chart (calculate_kpis tz (dashboard_init\<lparr>salesData := d1\<rparr>)),
                   profit_chart (calculate_kpis tz (dashboard_init\<lparr>salesData := d1\<rparr>))]\<rparr>"
    using two_loads(2) by (simp add: u_def del: ui_run.simps)
  have run: "ui_run tz rnd ui_init
      [Component Init, Component Tick, Component (Response 0 (Fetched d1)), Component (Response 1 (Fetched d2)),
       Timeout] = ui_step tz rnd u Timeout"
    unfolding u_def by (simp only: ui_run_snoc [symmetric] append.simps)
  have cases: "case fst (monthly_chart rnd 0 c2') of
      Inl e \<Rightarrow> e = ''TypeError'' \<and> own_keys (monthlyRevenue c2') = []
    | Inr ch \<Rightarrow> chart_labels ch = own_keys (monthlyRevenue c2') \<and> own_keys (monthlyRevenue c2') \<noteq> [] \<and>
        chart_canvas ch = ''monthlyRevenueBreakdownChart''"
    by (rule monthly_chart_cases)
  obtain r k' where mc: "monthly_chart rnd 0 c2' = (r, k')" by (cases "monthly_chart rnd 0 c2'")
  show ?thesis
  proof (cases r)
    case (Inl e)
    have "live_charts (pg (ui_step tz rnd u Timeout)) = live_charts (pg u)"
      using t d c m mc Inl by (simp add: render_monthly_def dashboard_canvases_def p)
    then show ?thesis using run p mc Inl cases mr
      by (simp del: ui_run.simps ui_step.simps add: c2'_def [symmetric])
  next
    case (Inr ch)
    have canvas: "chart_canvas ch = ''monthlyRevenueBreakdownChart''" using cases mc Inr by simp
    have "live_charts (pg (ui_step tz rnd u Timeout)) = live_charts (pg u) @ [ch]"
      using t d c m mc Inr canvas
      by (simp add: render_monthly_def new_chart_def dashboard_canvases_def chart_canvases p)
    then show ?thesis using run p mc Inr cases mr
      by (simp del: ui_run.simps ui_step.simps add: c2'_def [symmetric])
  qed
qed

end
