(* ===== verification/Chart_Options.thy ===== *)
theory Chart_Options
  imports Charts
begin

text \<open>
  The chart options of \<^verbatim>\<open>renderCharts\<close> that compute something (dashboard.component.ts,
  lines 205--209, 216--220, 242--246, 276--280, 311--315 and 347--351): the tick label of the
  time axis, \<^verbatim>\<open>new Date(value).toLocaleDateString('en-US', {month: 'short', year:
  'numeric'})\<close>, and the tooltip labels, \<^verbatim>\<open>x.toLocaleString('en-US', {style: 'currency',
  currency: 'USD'})\<close> after \<^verbatim>\<open>Sales: \<close> or \<^verbatim>\<open>Profit: \<close>. The currency format of en-US
  (ECMA-402 with the CLDR data) is a minus sign for a negative number, the dollar sign, the
  integer part in groups of three digits separated by commas, a point and two digits; the
  amount is rounded to cents half away from zero. Strings are UTF-8 byte sequences, so the
  infinity sign is its three bytes. A tooltip on a trend point reads \<^verbatim>\<open>raw.y\<close>, which is
  \<^verbatim>\<open>null\<close> or \<^verbatim>\<open>undefined\<close> when the first record of a bucket has no number in
  \<^verbatim>\<open>Sales\<close>: calling \<^verbatim>\<open>toLocaleString\<close> on it throws a \<^verbatim>\<open>TypeError\<close>.
\<close>

section \<open>The time axis\<close>

definition short_month_names :: "string list" where
  "short_month_names = [''Jan'', ''Feb'', ''Mar'', ''Apr'', ''May'', ''Jun'', ''Jul'', ''Aug'', ''Sep'', ''Oct'',
                        ''Nov'', ''Dec'']"

definition tick_label :: "tz_offset \<Rightarrow> int \<Rightarrow> string" where
  "tick_label tz value =
     (case time_clip value of
        None \<Rightarrow> ''Invalid Date''
      | Some t \<Rightarrow> short_month_names ! get_month tz t @ '' '' @ year_label (get_full_year tz t))"

section \<open>The currency format\<close>

text \<open>Rounding to cents, half away from zero.\<close>

definition round_cents :: "real \<Rightarrow> int" where
  "round_cents x = (if x < 0 then - \<lfloor>- x * 100 + 1 / 2\<rfloor> else \<lfloor>x * 100 + 1 / 2\<rfloor>)"

definition pad_digits :: "nat \<Rightarrow> nat \<Rightarrow> string" where
  "pad_digits w n = replicate (w - length (show_nat n)) CHR ''0'' @ show_nat n"

fun group_thousands :: "nat \<Rightarrow> string" where
  "group_thousands n =
     (if n < 1000 then show_nat n else group_thousands (n div 1000) @ '','' @ pad_digits 3 (n mod 1000))"

declare group_thousands.simps [simp del]

text \<open>The sign follows the number, not its rounded value: \<open>-0.001\<close> shows as \<^verbatim>\<open>-$0.00\<close>.\<close>

definition format_usd :: "real \<Rightarrow> string" where
  "format_usd x =
     (let a = nat \<bar>round_cents x\<bar>
      in (if x < 0 then ''-'' else []) @ ''$'' @ group_thousands (a div 100) @ ''.'' @ pad_digits 2 (a mod 100))"

definition infinity_sign :: string where
  "infinity_sign = [char_of (226 :: nat), char_of (136 :: nat), char_of (158 :: nat)]"

text \<open>\<^verbatim>\<open>toLocaleString\<close> on a value that may be \<^verbatim>\<open>null\<close> or \<^verbatim>\<open>undefined\<close>.\<close>

fun locale_usd :: "jsnum jsopt \<Rightarrow> string + string" where
  "locale_usd (Val (Fin x)) = Inr (format_usd x)"
| "locale_usd (Val NaN) = Inr ''$NaN''"
| "locale_usd (Val PosInf) = Inr (''$'' @ infinity_sign)"
| "locale_usd (Val NegInf) = Inr (''-$'' @ infinity_sign)"
| "locale_usd Null = Inl ''TypeError''"
| "locale_usd Undefined = Inl ''TypeError''"

section \<open>The tooltip labels\<close>

definition trend_tooltip :: "trend_point \<Rightarrow> string + string" where
  "trend_tooltip p = (case locale_usd (tp_y p) of Inl e \<Rightarrow> Inl e | Inr s \<Rightarrow> Inr (''Sales: '' @ s))"

definition sales_tooltip :: "real \<Rightarrow> string" where
  "sales_tooltip raw = ''Sales: '' @ format_usd raw"

definition profit_tooltip :: "real \<Rightarrow> string" where
  "profit_tooltip raw = ''Profit: '' @ format_usd raw"

section \<open>Reading an amount back\<close>

text \<open>
  The inverse of the format, to read back the amount a label shows: an optional minus sign, the dollar sign,
  digits and commas, a point and two digits; the value in cents.
\<close>

definition parse_amount :: "string \<Rightarrow> int option" where
  "parse_amount r =
     (if take 1 r = ''$'' \<and> 4 \<le> length r \<and> r ! (length r - 3) = CHR ''.''
         \<and> list_all (\<lambda>c. is_digit c \<or> c = CHR '','') (take (length r - 4) (drop 1 r))
         \<and> list_all is_digit (drop (length r - 2) r)
      then Some (int (decimal_value (filter is_digit (take (length r - 4) (drop 1 r))) * 100 +
                      decimal_value (drop (length r - 2) r)))
      else None)"

definition parse_usd :: "string \<Rightarrow> int option" where
  "parse_usd s = (if take 1 s = ''-'' then map_option uminus (parse_amount (drop 1 s)) else parse_amount s)"

section \<open>Lemmas\<close>

subsection \<open>Digit strings\<close>

lemma decimal_value_append:
  "decimal_value (a @ b) = decimal_value a * 10 ^ length b + decimal_value b"
proof (induction b rule: rev_induct)
  case Nil
  show ?case by (simp add: decimal_value_def)
next
  case (snoc c b)
  have "decimal_value (a @ b @ [c]) = 10 * decimal_value (a @ b) + digit_val c"
    using decimal_value_snoc [of "a @ b" c] by simp
  then show ?case using snoc.IH by (simp add: decimal_value_snoc algebra_simps)
qed

lemma decimal_value_zeros: "decimal_value (replicate k CHR ''0'') = 0"
  by (induction k) (simp_all add: decimal_value_def digit_val_def)

lemma is_digit_char_of: "(d :: nat) < 10 \<Longrightarrow> is_digit (char_of (48 + d))"
  by (simp add: is_digit_def)

lemma digits_show_nat: "list_all is_digit (show_nat n)"
proof (induction n rule: show_nat.induct)
  case (1 n)
  then show ?case
    using is_digit_char_of [of n] is_digit_char_of [of "n mod 10"] by (auto simp: show_nat.simps [of n])
qed

lemma length_show_nat: "n < 10 ^ k \<Longrightarrow> 0 < k \<Longrightarrow> length (show_nat n) \<le> k"
proof (induction n arbitrary: k rule: show_nat.induct)
  case (1 n)
  show ?case
  proof (cases "n < 10")
    case True
    then show ?thesis using "1.prems" by (simp add: show_nat.simps [of n])
  next
    case False
    obtain k' where k0: "k = Suc k'" using "1.prems" by (cases k) auto
    have "0 < k'"
    proof (rule ccontr)
      assume "\<not> 0 < k'"
      then have "n < 10" using "1.prems" k0 by simp
      then show False using False by simp
    qed
    note k = k0 this
    have "n < 10 ^ k' * 10" using "1.prems" k by (metis mult.commute power_Suc)
    then have "n div 10 < 10 ^ k'" by (rule less_mult_imp_div_less)
    then have "length (show_nat (n div 10)) \<le> k'" using "1.IH" False k by blast
    then show ?thesis using False k by (simp add: show_nat.simps [of n])
  qed
qed

lemma decimal_value_pad: "decimal_value (pad_digits w n) = n"
  by (simp add: pad_digits_def decimal_value_append decimal_value_zeros decimal_value_show_nat)

lemma digits_pad: "list_all is_digit (pad_digits w n)"
  using digits_show_nat [of n] by (auto simp: pad_digits_def list_all_iff is_digit_def)

lemma length_pad: "n < 10 ^ w \<Longrightarrow> 0 < w \<Longrightarrow> length (pad_digits w n) = w"
  using length_show_nat [of n w] by (simp add: pad_digits_def)

lemma group_thousands_chars: "list_all (\<lambda>c. is_digit c \<or> c = CHR '','') (group_thousands n)"
proof (induction n rule: group_thousands.induct)
  case (1 n)
  have "list_all is_digit (show_nat n)" "list_all is_digit (pad_digits 3 (n mod 1000))"
    by (simp_all add: digits_show_nat digits_pad)
  then show ?case using 1 by (auto simp: group_thousands.simps [of n] list_all_iff)
qed

lemma comma_not_digit: "\<not> is_digit CHR '',''"
  by (simp add: is_digit_def)

lemma decimal_value_group_thousands: "decimal_value (filter is_digit (group_thousands n)) = n"
proof (induction n rule: group_thousands.induct)
  case (1 n)
  show ?case
  proof (cases "n < 1000")
    case True
    then show ?thesis
      using digits_show_nat [of n] by (simp add: group_thousands.simps [of n] decimal_value_show_nat
        filter_True list_all_iff)
  next
    case False
    have p: "filter is_digit (pad_digits 3 (n mod 1000)) = pad_digits 3 (n mod 1000)"
      using digits_pad [of 3 "n mod 1000"] by (simp add: list_all_iff)
    have l: "length (pad_digits 3 (n mod 1000)) = 3" by (rule length_pad) simp_all
    have "decimal_value (filter is_digit (group_thousands (n div 1000))) = n div 1000"
      using "1.IH" False by blast
    then show ?thesis using False
      by (simp add: group_thousands.simps [of n] decimal_value_append p l decimal_value_pad comma_not_digit)
  qed
qed

subsection \<open>The parts of a formatted amount\<close>

lemma round_cents_sign: "(x < 0 \<longrightarrow> round_cents x \<le> 0) \<and> (0 \<le> x \<longrightarrow> 0 \<le> round_cents x)"
  by (simp add: round_cents_def)

lemma amount_take_sign: "take 1 (''$'' @ G @ ''.'' @ P) = ''$''"
  by simp

lemma amount_point: "length P = 2 \<Longrightarrow> (''$'' @ G @ ''.'' @ P) ! (length (''$'' @ G @ ''.'' @ P) - 3) = CHR ''.''"
  by (simp add: nth_append)

lemma amount_int_part: "length P = 2 \<Longrightarrow> take (length (''$'' @ G @ ''.'' @ P) - 4) (drop 1 (''$'' @ G @ ''.'' @ P)) = G"
  by simp

lemma amount_frac_part: "length P = 2 \<Longrightarrow> drop (length (''$'' @ G @ ''.'' @ P) - 2) (''$'' @ G @ ''.'' @ P) = P"
  by simp

lemma parse_amount_shape:
  assumes l: "length P = 2" and G: "list_all (\<lambda>c. is_digit c \<or> c = CHR '','') G" and P: "list_all is_digit P"
  shows "parse_amount (''$'' @ G @ ''.'' @ P) = Some (int (decimal_value (filter is_digit G) * 100 + decimal_value P))"
proof -
  have c: "take 1 (''$'' @ G @ ''.'' @ P) = ''$'' \<and> 4 \<le> length (''$'' @ G @ ''.'' @ P) \<and>
      (''$'' @ G @ ''.'' @ P) ! (length (''$'' @ G @ ''.'' @ P) - 3) = CHR ''.'' \<and>
      list_all (\<lambda>c. is_digit c \<or> c = CHR '','') (take (length (''$'' @ G @ ''.'' @ P) - 4) (drop 1 (''$'' @ G @ ''.'' @ P))) \<and>
      list_all is_digit (drop (length (''$'' @ G @ ''.'' @ P) - 2) (''$'' @ G @ ''.'' @ P))"
    using l G P by (simp only: amount_take_sign amount_point amount_int_part amount_frac_part) simp
  show ?thesis
    unfolding parse_amount_def by (subst if_P [OF c]) (simp only: amount_int_part [OF l] amount_frac_part [OF l])
qed

lemma parse_usd_shape:
  assumes "length P = 2" "list_all (\<lambda>c. is_digit c \<or> c = CHR '','') G" "list_all is_digit P"
  shows "parse_usd (''$'' @ G @ ''.'' @ P) = Some (int (decimal_value (filter is_digit G) * 100 + decimal_value P))"
    and "parse_usd (''-$'' @ G @ ''.'' @ P) = Some (- int (decimal_value (filter is_digit G) * 100 + decimal_value P))"
proof -
  have t: "take 1 (''$'' @ G @ ''.'' @ P) \<noteq> ''-''" "take 1 (''-$'' @ G @ ''.'' @ P) = ''-''"
    and d: "drop 1 (''-$'' @ G @ ''.'' @ P) = ''$'' @ G @ ''.'' @ P" by simp_all
  show "parse_usd (''$'' @ G @ ''.'' @ P) = Some (int (decimal_value (filter is_digit G) * 100 + decimal_value P))"
    unfolding parse_usd_def by (subst if_not_P [OF t(1)]) (rule parse_amount_shape [OF assms])
  show "parse_usd (''-$'' @ G @ ''.'' @ P) = Some (- int (decimal_value (filter is_digit G) * 100 + decimal_value P))"
    unfolding parse_usd_def by (subst if_P [OF t(2)]) (simp only: d parse_amount_shape [OF assms] option.map)
qed

subsection \<open>Reading the label back\<close>

text \<open>The currency label reads back as the amount rounded to cents.\<close>

lemma parse_format_usd: "parse_usd (format_usd x) = Some (round_cents x)"
proof -
  define a where "a = nat \<bar>round_cents x\<bar>"
  define G where "G = group_thousands (a div 100)"
  define P where "P = pad_digits 2 (a mod 100)"
  have lP: "length P = 2" unfolding P_def by (rule length_pad) simp_all
  have G: "list_all (\<lambda>c. is_digit c \<or> c = CHR '','') G" by (simp add: G_def group_thousands_chars)
  have P: "list_all is_digit P" by (simp add: P_def digits_pad)
  have v: "decimal_value (filter is_digit G) * 100 + decimal_value P = a"
    by (simp add: G_def P_def decimal_value_group_thousands decimal_value_pad)
  show ?thesis
  proof (cases "x < 0")
    case True
    then have "format_usd x = ''-$'' @ G @ ''.'' @ P"
      by (simp add: format_usd_def a_def G_def P_def Let_def)
    moreover have "- int a = round_cents x" using True round_cents_sign [of x] by (simp add: a_def)
    ultimately show ?thesis using parse_usd_shape(2) [OF lP G P] v by simp
  next
    case False
    then have "format_usd x = ''$'' @ G @ ''.'' @ P"
      by (simp add: format_usd_def a_def G_def P_def Let_def)
    moreover have "int a = round_cents x" using False round_cents_sign [of x] by (simp add: a_def)
    ultimately show ?thesis using parse_usd_shape(1) [OF lP G P] v by simp
  qed
qed

lemma round_cents_error: "\<bar>x * 100 - of_int (round_cents x)\<bar> \<le> 1 / 2"
proof (cases "x < 0")
  case True
  have c: "round_cents x = - \<lfloor>- x * 100 + 1 / 2\<rfloor>" using True by (simp add: round_cents_def)
  have "of_int \<lfloor>- x * 100 + 1 / 2\<rfloor> \<le> - x * 100 + 1 / 2"
    "- x * 100 + 1 / 2 < of_int \<lfloor>- x * 100 + 1 / 2\<rfloor> + 1" by linarith+
  then show ?thesis unfolding c abs_le_iff of_int_minus by linarith
next
  case False
  have c: "round_cents x = \<lfloor>x * 100 + 1 / 2\<rfloor>" using False by (simp add: round_cents_def)
  have "of_int \<lfloor>x * 100 + 1 / 2\<rfloor> \<le> x * 100 + 1 / 2"
    "x * 100 + 1 / 2 < of_int \<lfloor>x * 100 + 1 / 2\<rfloor> + 1" by linarith+
  then show ?thesis unfolding c abs_le_iff by linarith
qed
text \<open>
  C21. The amount a profit tooltip shows is the profit to within half a cent.
\<close>

theorem profit_tooltip_within_half_cent:
  "\<exists>c. parse_usd (drop 8 (profit_tooltip x)) = Some c \<and> \<bar>x * 100 - of_int c\<bar> \<le> 1 / 2"
  using parse_format_usd [of x] round_cents_error [of x] by (simp add: profit_tooltip_def)

subsection \<open>The tooltips of the trend chart\<close>

lemma locale_usd_Val: "\<exists>s. locale_usd (Val v) = Inr s"
  by (cases v) simp_all

lemma set_update_first: "set (update_first p f xs) \<subseteq> set xs \<union> f ` set xs"
  by (induction xs) auto

lemma trend_points_numeric:
  assumes "list_all has_sales recs"
  shows "\<forall>p \<in> set (sales_trend tz recs). \<exists>v. tp_y p = Val v"
  using assms
proof (induction recs rule: rev_induct)
  case Nil
  show ?case by (simp add: sales_trend_def)
next
  case (snoc r recs)
  then have IH: "\<forall>p \<in> set (sales_trend tz recs). \<exists>v. tp_y p = Val v" and r: "has_sales r" by simp_all
  obtain x where x: "Sales r = Val x" using r by (auto simp: has_sales_def)
  have "\<exists>v. tp_y p = Val v" if p: "p \<in> set (trend_step tz (sales_trend tz recs) r)" for p
  proof (cases "list_ex (\<lambda>d. time_eq (tp_x d) (half_year_start tz (order_date_or_epoch tz r))) (sales_trend tz recs)")
    case True
    then have "p \<in> set (update_first (\<lambda>d. time_eq (tp_x d) (half_year_start tz (order_date_or_epoch tz r)))
                 (\<lambda>d. d\<lparr>tp_y := js_plus (tp_y d) (num_field (Sales r))\<rparr>) (sales_trend tz recs))"
      using p by (simp add: trend_step_def Let_def)
    then show ?thesis using IH set_update_first by (fastforce simp: js_plus_def)
  next
    case False
    then have "p \<in> set (sales_trend tz recs) \<or> tp_y p = num_field (Sales r)"
      using p by (auto simp: trend_step_def Let_def)
    then show ?thesis using IH x by (auto simp: num_field_def)
  qed
  then have "\<forall>p \<in> set (trend_step tz (sales_trend tz recs) r). \<exists>v. tp_y p = Val v" by blast
  then show ?case by (simp add: sales_trend_def)
qed

text \<open>
  C22. When every record has a number in \<^verbatim>\<open>Sales\<close>, every point of the trend chart
  has a number as \<^verbatim>\<open>y\<close>, and its tooltip callback returns a label
  \<^verbatim>\<open>Sales: \<close> followed by the amount.
\<close>

theorem trend_tooltips_total:
  assumes "list_all has_sales recs" and "p \<in> set (sales_trend tz recs)"
  shows "\<exists>s. trend_tooltip p = Inr (''Sales: '' @ s)"
proof -
  obtain v where "tp_y p = Val v" using trend_points_numeric [OF assms(1)] assms(2) by blast
  then show ?thesis using locale_usd_Val [of v] by (auto simp: trend_tooltip_def)
qed

theorem trend_tooltips_total_witness:
  "list_all has_sales [empty_sale\<lparr>Sales := Val 125\<rparr>] \<and>
   \<lparr>tp_x = bucket_of 0 empty_sale, tp_y = Val (Fin 125)\<rparr> \<in> set (sales_trend 0 [empty_sale\<lparr>Sales := Val 125\<rparr>]) \<and>
   (\<exists>s. trend_tooltip \<lparr>tp_x = bucket_of 0 empty_sale, tp_y = Val (Fin 125)\<rparr> = Inr (''Sales: '' @ s))"
proof -
  have h: "list_all has_sales [empty_sale\<lparr>Sales := Val 125\<rparr>]" by (simp add: has_sales_def)
  have m: "\<lparr>tp_x = bucket_of 0 empty_sale, tp_y = Val (Fin 125)\<rparr> \<in> set (sales_trend 0 [empty_sale\<lparr>Sales := Val 125\<rparr>])"
    by (simp add: sales_trend_def trend_step_def bucket_of_def order_date_or_epoch_def num_field_def Let_def)
  show ?thesis using h m trend_tooltips_total [OF h m] by blast
qed

text \<open>
  C23. A record without a number in \<^verbatim>\<open>Sales\<close> (\<^verbatim>\<open>null\<close> or absent) that opens a
  new half-year bucket becomes a point whose \<^verbatim>\<open>y\<close> is that value: the tooltip
  callback of the point calls \<^verbatim>\<open>toLocaleString\<close> on it and throws a
  \<^verbatim>\<open>TypeError\<close>.
\<close>

theorem trend_tooltip_type_error:
  assumes "\<not> has_sales r" and "\<not> list_ex (\<lambda>d. time_eq (tp_x d) (bucket_of tz r)) (sales_trend tz recs)"
  shows "trend_tooltip (last (sales_trend tz (recs @ [r]))) = Inl ''TypeError''"
proof -
  have "last (sales_trend tz (recs @ [r])) = \<lparr>tp_x = bucket_of tz r, tp_y = num_field (Sales r)\<rparr>"
    using assms(2) by (simp add: sales_trend_def trend_step_def bucket_of_def Let_def)
  moreover have "Sales r = Null \<or> Sales r = Undefined"
    using assms(1) by (cases "Sales r") (simp_all add: has_sales_def)
  ultimately show ?thesis by (auto simp: trend_tooltip_def num_field_def)
qed

theorem trend_tooltip_type_error_witness:
  "\<not> has_sales (empty_sale\<lparr>Sales := Null\<rparr>) \<and>
   \<not> list_ex (\<lambda>d. time_eq (tp_x d) (bucket_of 0 (empty_sale\<lparr>Sales := Null\<rparr>))) (sales_trend 0 []) \<and>
   trend_tooltip (last (sales_trend 0 ([] @ [empty_sale\<lparr>Sales := Null\<rparr>]))) = Inl ''TypeError''"
proof -
  have h: "\<not> has_sales (empty_sale\<lparr>Sales := Null\<rparr>)" by (simp add: has_sales_def)
  have e: "\<not> list_ex (\<lambda>d. time_eq (tp_x d) (bucket_of 0 (empty_sale\<lparr>Sales := Null\<rparr>))) (sales_trend 0 [])"
    by (simp add: sales_trend_def)
  show ?thesis using h e trend_tooltip_type_error [OF h e] by blast
qed

subsection \<open>Labels on concrete values\<close>

text \<open>
  The tick labels of the time axis are local dates: the tick at midnight UTC on
  1 January 2023 reads \<^verbatim>\<open>Jan 2023\<close> at UTC and \<^verbatim>\<open>Dec 2022\<close> five hours west of it,
  and a tick beyond the range of time values reads \<^verbatim>\<open>Invalid Date\<close>.
\<close>

lemma tick_labels_local:
  "tick_label 0 1672531200000 = ''Jan 2023'' \<and> tick_label (-18000000) 1672531200000 = ''Dec 2022'' \<and>
   tick_label 0 8640000000000001 = ''Invalid Date''"
  by (simp add: tick_label_def short_month_names_def year_label_def show_nat.simps date_eval cal_eval Let_def
    char_of_def bit_0)

text \<open>
  The tooltip amounts are grouped by thousands and rounded to cents, and the sign
  follows the number before rounding: a loss of a tenth of a cent reads
  \<^verbatim>\<open>Profit: -$0.00\<close>.
\<close>

lemma tooltip_labels:
  "sales_tooltip 1234567.891 = ''Sales: $1,234,567.89'' \<and> profit_tooltip (-0.001) = ''Profit: -$0.00''"
  by (simp add: sales_tooltip_def profit_tooltip_def format_usd_def round_cents_def group_thousands.simps
    pad_digits_def show_nat.simps char_of_def bit_0)

end
