(* ===== verification/App_Module.thy ===== *)
theory App_Module
  imports KPI_Prelude
begin

text \<open>
  The module wiring of src/src/app/app.module.ts: the ES imports that bind the module
  names (lines 1--20) and the \<^verbatim>\<open>@NgModule\<close> metadata of \<^verbatim>\<open>AppModule\<close> (lines 25--51),
  with Angular's construction of the root injector from it. Angular walks the
  \<^verbatim>\<open>imports\<close> of a module depth first, each module once at its first import, and
  registers a module's own providers after those of its imports; a later provider of a
  token replaces an earlier one. The walk carries fuel, the depth of module nesting it may
  enter. A module whose source is a relative path must come from the repository; only
  the dashboard component is there, so such a module is reported missing. The Angular
  library modules are modelled from their published definitions, restricted to the
  providers of the tokens the lemmas read (animations, HTTP, date adapter).
\<close>

record ng_module =
  mod_declarations :: "string list"
  mod_imports :: "string list"
  mod_providers :: "(string \<times> string) list"
  mod_bootstrap :: "string list"

section \<open>The source\<close>

definition es_imports :: "(string \<times> string) list" where
  "es_imports =
     [(''NgModule'', ''@angular/core''), (''BrowserModule'', ''@angular/platform-browser''),
      (''FormsModule'', ''@angular/forms''), (''ReactiveFormsModule'', ''@angular/forms''),
      (''AppRoutingModule'', ''./app-routing.module''), (''AppComponent'', ''./app.component''),
      (''DashboardComponent'', ''./dashboard/dashboard.component''),
      (''ForecastComponent'', ''./forecast/forecast.component''), (''NgChartsModule'', ''ng2-charts''),
      (''HttpClientModule'', ''@angular/common/http''),
      (''MatDatepickerModule'', ''@angular/material/datepicker''),
      (''MatNativeDateModule'', ''@angular/material/core''),
      (''MatFormFieldModule'', ''@angular/material/form-field''),
      (''MatInputModule'', ''@angular/material/input''), (''MatButtonModule'', ''@angular/material/button''),
      (''MatSelectModule'', ''@angular/material/select''), (''MatOptionModule'', ''@angular/material/core''),
      (''BrowserAnimationsModule'', ''@angular/platform-browser/animations''),
      (''NoopAnimationsModule'', ''@angular/platform-browser/animations'')]"

definition app_module :: ng_module where
  "app_module =
     \<lparr>mod_declarations = [''AppComponent'', ''DashboardComponent'', ''ForecastComponent''],
      mod_imports = [''BrowserModule'', ''FormsModule'', ''HttpClientModule'', ''NgChartsModule'',
        ''AppRoutingModule'', ''MatDatepickerModule'', ''MatNativeDateModule'', ''MatFormFieldModule'',
        ''MatInputModule'', ''MatButtonModule'', ''MatSelectModule'', ''MatOptionModule'',
        ''ReactiveFormsModule'', ''BrowserAnimationsModule'', ''NoopAnimationsModule''],
      mod_providers = [],
      mod_bootstrap = [''AppComponent'']\<rparr>"

text \<open>\<^verbatim>\<open>constructor(private couchdbService: CouchdbService)\<close> (dashboard.component.ts, line 33).\<close>

definition component_deps :: "(string \<times> string list) list" where
  "component_deps = [(''DashboardComponent'', [''CouchdbService''])]"

section \<open>The Angular library\<close>

definition lib_module :: "string list \<Rightarrow> (string \<times> string) list \<Rightarrow> ng_module" where
  "lib_module imps provs = \<lparr>mod_declarations = [], mod_imports = imps, mod_providers = provs, mod_bootstrap = []\<rparr>"

definition library_module :: "string \<Rightarrow> ng_module option" where
  "library_module m = map_of
     [(''BrowserModule'', lib_module [] [(''RendererFactory2'', ''DomRendererFactory2'')]),
      (''FormsModule'', lib_module [] []), (''ReactiveFormsModule'', lib_module [] []),
      (''NgChartsModule'', lib_module [] []),
      (''HttpClientModule'', lib_module []
         [(''HttpClient'', ''HttpClient''), (''HttpHandler'', ''HttpInterceptorHandler''),
          (''HttpBackend'', ''HttpXhrBackend'')]),
      (''MatDatepickerModule'', lib_module [] [(''MatDatepickerIntl'', ''MatDatepickerIntl'')]),
      (''MatNativeDateModule'', lib_module [] [(''DateAdapter'', ''NativeDateAdapter'')]),
      (''MatFormFieldModule'', lib_module [] []), (''MatInputModule'', lib_module [] []),
      (''MatButtonModule'', lib_module [] []), (''MatSelectModule'', lib_module [] []),
      (''MatOptionModule'', lib_module [] []),
      (''BrowserAnimationsModule'', lib_module [''BrowserModule'']
         [(''AnimationDriver'', ''WebAnimationsDriver''), (''RendererFactory2'', ''AnimationRendererFactory''),
          (''ANIMATION_MODULE_TYPE'', ''BrowserAnimations'')]),
      (''NoopAnimationsModule'', lib_module [''BrowserModule'']
         [(''AnimationDriver'', ''NoopAnimationDriver''), (''RendererFactory2'', ''AnimationRendererFactory''),
          (''ANIMATION_MODULE_TYPE'', ''NoopAnimations'')])] m"

definition is_relative :: "string \<Rightarrow> bool" where
  "is_relative path \<longleftrightarrow> take 2 path = ''./'' \<or> take 3 path = ''../''"

text \<open>The definition of a module name: \<^verbatim>\<open>AppModule\<close> itself, a library module, or none.\<close>

definition resolve_module :: "string \<Rightarrow> ng_module option" where
  "resolve_module m =
     (if m = ''AppModule'' then Some app_module
      else case map_of es_imports m of
             Some path \<Rightarrow> if is_relative path then None else library_module m
           | None \<Rightarrow> library_module m)"

section \<open>The root injector\<close>

record inj_state =
  visited :: "string list"
  missing :: "string list"
  provs :: "(string \<times> string) list"

definition inj_init :: inj_state where
  "inj_init = \<lparr>visited = [], missing = [], provs = []\<rparr>"

fun walk :: "nat \<Rightarrow> string list \<Rightarrow> inj_state \<Rightarrow> inj_state option" where
  "walk n [] st = Some st"
| "walk 0 (m # ms) st = None"
| "walk (Suc n) (m # ms) st =
     (if m \<in> set (visited st) then walk (Suc n) ms st
      else case resolve_module m of
             None \<Rightarrow> walk (Suc n) ms (st\<lparr>visited := visited st @ [m], missing := missing st @ [m]\<rparr>)
           | Some d \<Rightarrow>
               (case walk n (mod_imports d) (st\<lparr>visited := visited st @ [m]\<rparr>) of
                  None \<Rightarrow> None
                | Some st' \<Rightarrow> walk (Suc n) ms (st'\<lparr>provs := provs st' @ mod_providers d\<rparr>)))"

text \<open>The provider of a token: the last one registered.\<close>

definition resolve_token :: "(string \<times> string) list \<Rightarrow> string \<Rightarrow> string option" where
  "resolve_token ps t = map_of (rev ps) t"

definition root_injector :: "nat \<Rightarrow> inj_state option" where
  "root_injector n = walk n [''AppModule''] inj_init"

text \<open>
  A constructor dependency is satisfied by the root injector or by a service declared
  \<^verbatim>\<open>providedIn: 'root'\<close>; \<^verbatim>\<open>CouchdbService\<close> is not in the repository, so whether it is
  one is a parameter.
\<close>

definition deps_resolved :: "string set \<Rightarrow> (string \<times> string) list \<Rightarrow> string \<Rightarrow> bool" where
  "deps_resolved root_provided ps c =
     list_all (\<lambda>t. t \<in> root_provided \<or> t \<in> set (map fst ps))
       (case map_of component_deps c of Some ds \<Rightarrow> ds | None \<Rightarrow> [])"

definition ng_module_wf :: "ng_module \<Rightarrow> bool" where
  "ng_module_wf d \<longleftrightarrow>
     set (mod_bootstrap d) \<subseteq> set (mod_declarations d) \<and> distinct (mod_declarations d) \<and>
     distinct (mod_imports d) \<and> set (mod_imports d) \<inter> set (mod_declarations d) = {}"

section \<open>Lemmas\<close>

lemma root_injector_value:
  "root_injector 3 = Some
     \<lparr>visited = [''AppModule'', ''BrowserModule'', ''FormsModule'', ''HttpClientModule'', ''NgChartsModule'',
        ''AppRoutingModule'', ''MatDatepickerModule'', ''MatNativeDateModule'', ''MatFormFieldModule'',
        ''MatInputModule'', ''MatButtonModule'', ''MatSelectModule'', ''MatOptionModule'', ''ReactiveFormsModule'',
        ''BrowserAnimationsModule'', ''NoopAnimationsModule''],
      missing = [''AppRoutingModule''],
      provs = [(''RendererFactory2'', ''DomRendererFactory2''), (''HttpClient'', ''HttpClient''),
        (''HttpHandler'', ''HttpInterceptorHandler''), (''HttpBackend'', ''HttpXhrBackend''),
        (''MatDatepickerIntl'', ''MatDatepickerIntl''), (''DateAdapter'', ''NativeDateAdapter''),
        (''AnimationDriver'', ''WebAnimationsDriver''), (''RendererFactory2'', ''AnimationRendererFactory''),
        (''ANIMATION_MODULE_TYPE'', ''BrowserAnimations''), (''AnimationDriver'', ''NoopAnimationDriver''),
        (''RendererFactory2'', ''AnimationRendererFactory''), (''ANIMATION_MODULE_TYPE'', ''NoopAnimations'')]\<rparr>"
  by code_simp

lemma root_injector_2: "root_injector 2 = None"
  by code_simp

text \<open>
  The root injector of \<^verbatim>\<open>AppModule\<close>: the walk needs three levels of fuel
  (\<^verbatim>\<open>AppModule\<close>, the modules it imports, \<^verbatim>\<open>BrowserModule\<close> imported by the animation
  modules); \<^verbatim>\<open>AppRoutingModule\<close> has no source in the repository; the last import,
  \<^verbatim>\<open>NoopAnimationsModule\<close>, overrides \<^verbatim>\<open>BrowserAnimationsModule\<close>, so animations are
  off; the HTTP client is provided; \<^verbatim>\<open>CouchdbService\<close> is not, so the dashboard can be
  constructed exactly when that service is provided in root; and the module metadata is
  well formed (the bootstrapped component is declared, nothing is declared or imported
  twice).
\<close>

lemma app_injector:
  "root_injector 2 = None \<and>
   (\<exists>st. root_injector 3 = Some st \<and> missing st = [''AppRoutingModule''] \<and>
     resolve_token (provs st) ''ANIMATION_MODULE_TYPE'' = Some ''NoopAnimations'' \<and>
     resolve_token (provs st) ''AnimationDriver'' = Some ''NoopAnimationDriver'' \<and>
     resolve_token (provs st) ''RendererFactory2'' = Some ''AnimationRendererFactory'' \<and>
     resolve_token (provs st) ''HttpClient'' = Some ''HttpClient'' \<and>
     resolve_token (provs st) ''CouchdbService'' = None \<and>
     (\<forall>R. deps_resolved R (provs st) ''DashboardComponent'' \<longleftrightarrow> ''CouchdbService'' \<in> R)) \<and>
   ng_module_wf app_module"
  by (simp add: root_injector_value root_injector_2 resolve_token_def deps_resolved_def component_deps_def
      ng_module_wf_def app_module_def)

end
