(* ===== verification/Spec2Isabelle.thy ===== *)
theory Spec2Isabelle
  imports Page Chart_Options App_Module
begin

text \<open>
  \<^bold>\<open>KPI dashboard: a verification development.\<close>

  The repository is an Angular component (src/src/app/dashboard/dashboard.component.ts,
  class \<^verbatim>\<open>DashboardComponent\<close>) that fetches sale documents from CouchDB, computes
  key performance indicators in \<^verbatim>\<open>calculateKPIs\<close> and draws them with Chart.js. The
  document shape is the \<^verbatim>\<open>Sale\<close> interface (src/src/app/models/sales-data.ts);
  src/src/app/app.module.ts declares the Angular module that bootstraps the application
  and builds the injector the component is created from. The parts interact in one
  direction: a response of the data service sets \<^verbatim>\<open>salesData\<close>,
  \<^verbatim>\<open>calculateKPIs\<close> recomputes every KPI field from it, and \<^verbatim>\<open>renderCharts\<close> hands
  the fields to Chart.js.

  \<^bold>\<open>Theories.\<close>
  \<^item> \<open>KPI_Prelude\<close>: named theorem collections, type names (\<open>tz_offset\<close>,
    \<open>time_value\<close>), generic lemmas on left folds, first-seen order, floor division,
    decimal digits and counting.
  \<^item> \<open>JS_Values\<close>: the JavaScript values of the computation. \<open>'a jsopt\<close> is a field
    that holds a value, \<^verbatim>\<open>null\<close> or is absent; \<open>jsnum\<close> is an IEEE double without
    rounding (a real, NaN, the infinities) with ECMAScript's addition \<open>js_add\<close> (a
    commutative monoid, by \<^theory_text>\<open>instantiation\<close>), multiplication and division;
    \<^verbatim>\<open>|| 0\<close> (\<open>or_zero\<close>) and ToNumber (\<open>to_number\<close>, \<open>js_plus\<close>). The sums
    of the records are exact, so no property here depends on their order being
    irrelevant, which IEEE rounding would break; the ratio fields are divided with
    Number::divide, so a zero divisor shows as NaN or an infinity.
  \<^item> \<open>Sales_Data\<close>: the \<^verbatim>\<open>Sale\<close> interface as the record \<open>sale\<close>.
  \<^item> \<open>JS_Object\<close>: a plain object as an association list in creation order, with
    ECMAScript's enumeration order (array-index keys first, ascending) for
    \<^verbatim>\<open>Object.keys/values/entries\<close> and \<^verbatim>\<open>Object.fromEntries\<close>.
  \<^item> \<open>JS_Date\<close>: the ECMAScript calendar (Day, DayFromYear, YearFromTime,
    MonthFromTime, DateFromTime, MakeDay, MakeDate, TimeClip), local time at a fixed
    offset, \<^verbatim>\<open>new Date(y, m, d)\<close>, \<^verbatim>\<open>getFullYear\<close>, \<^verbatim>\<open>getMonth\<close> and
    \<^verbatim>\<open>Date.parse\<close> on the ISO date-time format. Modelled from ECMA-262, not from src/.
  \<^item> \<open>Aggregates\<close>: \<^verbatim>\<open>totalSales\<close>, \<^verbatim>\<open>totalProfit\<close> (lines 69--70) and the grouped
    sums \<^verbatim>\<open>salesByRegion\<close>, \<^verbatim>\<open>topCategories\<close>, \<^verbatim>\<open>profitDistribution\<close> (lines 72--95)
    as instances of \<open>group_sum\<close>; the ranking by \<^verbatim>\<open>Array.prototype.sort\<close> as the
    stable insertion sort \<open>js_sort\<close>; the abstract specification \<open>group_spec\<close>.
  \<^item> \<open>Fulfillment\<close>: \<^verbatim>\<open>calculateAverageFulfillmentTime\<close> (lines 144--184).
  \<^item> \<open>Trend\<close>: \<^verbatim>\<open>salesTrend\<close> (lines 97--115), its specification \<open>trend_spec\<close> for
    numeric sales and \<open>trend_js_spec\<close> for any sales (the JavaScript \<^verbatim>\<open>+=\<close> of a
    bucket, \<open>bucket_js_sum\<close>).
  \<^item> \<open>Monthly\<close>: \<^verbatim>\<open>monthlyRevenue\<close> (lines 124--133), the en-US month label and its
    specification \<open>monthly_spec\<close>.
  \<^item> \<open>Dashboard\<close>: the component's fields as the record \<open>dashboard\<close> (lines 14--31),
    \<^verbatim>\<open>calculateKPIs\<close> as thirteen record updates in source order (\<open>calculate_kpis\<close>)
    with the ratio helpers of lines 136--142 and 186--188, and the loading of lines
    35--66 as a machine: events \<open>Init\<close> (\<^verbatim>\<open>ngOnInit\<close>), \<open>Tick\<close> (the interval) and
    \<open>Response i r\<close> (the callback of request \<open>i\<close>), the step function \<open>dash_step\<close>,
    the inductive set of reachable states \<open>reachable\<close>.
  \<^item> \<open>Charts\<close>: \<^verbatim>\<open>renderCharts\<close>, \<^verbatim>\<open>renderChart\<close> and \<^verbatim>\<open>getCategoryColor\<close>
    (lines 190--407): the data of each chart, a page of canvases on which a canvas holds
    at most one Chart.js instance, \<^verbatim>\<open>Math.random\<close> as a stream of draws.
  \<^item> \<open>Page\<close>: the component and its page composed (\<open>ui_step\<close>): a success callback
    updates the KPI fields and then renders; the \<^verbatim>\<open>setTimeout\<close> task of the monthly
    chart is an event of its own, which reads the component when it runs and throws a
    \<^verbatim>\<open>TypeError\<close> (drawing nothing) when \<^verbatim>\<open>monthlyRevenue\<close> has no month by then.
  \<^item> \<open>Chart_Options\<close>: the callbacks of the chart options (lines 205--209, 216--220,
    242--246, 276--280, 311--315, 347--351): the tick label of the time axis
    (\<open>tick_label\<close>) and the tooltip labels (\<open>trend_tooltip\<close>, \<open>sales_tooltip\<close>,
    \<open>profit_tooltip\<close>) with the en-US currency format of \<^verbatim>\<open>toLocaleString\<close>
    (\<open>format_usd\<close>, modelled from ECMA-402: rounding half away from zero to cents,
    thousands grouped by commas) and its \<^verbatim>\<open>TypeError\<close> on \<^verbatim>\<open>null\<close> or
    \<^verbatim>\<open>undefined\<close>; an inverse parser \<open>parse_usd\<close> that reads an amount back.
  \<^item> \<open>App_Module\<close>: the ES imports and the \<^verbatim>\<open>@NgModule\<close> metadata of
    \<^verbatim>\<open>AppModule\<close> (app.module.ts, lines 1--51) as data, the dashboard's constructor
    dependency (line 33), and Angular's root injector: a depth-first walk of the imports
    (\<open>walk\<close>), each module once, a module's providers after those of its imports, the
    last provider of a token winning (\<open>resolve_token\<close>). The library modules are
    modelled from their published definitions, restricted to the providers of the
    animation, HTTP and date tokens.

  \<^bold>\<open>What the lemmas show.\<close> The grouped sums, the trend and the monthly revenue refine
  abstract specifications: one entry per distinct key in first-seen order holding the sum
  of its records (\<open>group_sum_refines_spec\<close>, \<open>sales_trend_refines_spec\<close>,
  \<open>monthly_revenue_refines_spec\<close>); for any sales the trend is the JavaScript
  \<^verbatim>\<open>+=\<close> per bucket, so an absent \<^verbatim>\<open>Sales\<close> makes a shared bucket NaN
  (\<open>sales_trend_js_refines\<close>). \<^verbatim>\<open>topCategories\<close> is ranked when no category is an
  array index, and in general its keys list the array-index names first, in numeric order
  (\<open>top_categories_index_first\<close>). The calendar round-trips through MakeDay and the
  half-year bucket round-trips through it. The median splits the values in halves and
  decides the fulfillment time first. Of \<^verbatim>\<open>calculateKPIs\<close>: the profit margin, the
  acquisition cost and the lifetime value are always finite, their guards keeping the
  divisions away from zero, while the unguarded return on investment is NaN or an infinity
  at zero sales; it overwrites every KPI field. Of the machine: in every reachable state
  the KPIs are the initial ones or those of the current data; a tick always leads to a
  load; a late response of an older request overwrites newer data. Of the charts: the
  region chart shows the grouped totals; the first successful \<^verbatim>\<open>renderCharts\<close> makes
  every later one fail, so after a second load the charts still show the first data
  while the KPI fields hold the second (\<open>charts_keep_first_data\<close>); the deferred
  monthly chart drawn after a second load shows the second data beside four charts of
  the first, or throws when the second data has no month
  (\<open>deferred_chart_shows_later_data\<close>). Of the chart options: the amount in a profit
  tooltip is within half a cent of the profit (\<open>profit_tooltip_within_half_cent\<close>);
  every trend tooltip produces a label when every record has sales
  (\<open>trend_tooltips_total\<close>), and a bucket opened by a record without sales makes it
  throw a \<^verbatim>\<open>TypeError\<close> (\<open>trend_tooltip_type_error\<close>).

  \<^bold>\<open>Behaviours the specification does not describe\<close>, shown by lemmas at concrete
  inputs: an invalid order date is labelled "Invalid Date" in the monthly revenue but put
  at the epoch in the trend; buckets depend on the time zone; years 0 to 99 land in 1900
  to 1999; a \<^verbatim>\<open>null\<close> ship date is a valid date; the monthly chart draws only the
  categories of the first month; the root injector of \<^verbatim>\<open>AppModule\<close> reports
  \<^verbatim>\<open>AppRoutingModule\<close> missing, disables animations because
  \<^verbatim>\<open>NoopAnimationsModule\<close> is imported last and provides no \<^verbatim>\<open>CouchdbService\<close>
  (\<open>app_injector\<close>); a loss under half a cent shows as "-$0.00"
  (\<open>tooltip_labels\<close>).

  \<^bold>\<open>Bounds and parameters.\<close> The component needs no fuel: every loop of the source is a
  fold over the record list or a recursion on a list or a number, all structural or with
  a measure. The injector walk carries fuel, the depth of module nesting it may enter:
  three levels (the root module, its imports, \<^verbatim>\<open>BrowserModule\<close> under the animation
  modules) are enough for \<^verbatim>\<open>AppModule\<close> and two are not (\<open>root_injector_value\<close>,
  \<open>root_injector_2\<close>).
  The time zone is a parameter \<open>tz\<close> (milliseconds east of UTC), the random draws a
  function \<open>rnd\<close>; the scenarios use \<open>tz = 0\<close> and, for the time-zone finding, UTC-5.

  \<^bold>\<open>Not modelled.\<close> The constant options of the charts (scales, colours, titles: no
  behaviour), the HTTP transport of \<^verbatim>\<open>CouchdbService\<close> (not in src/; its responses
  are the events), the providers of the Angular library modules other than those of the
  animation, HTTP and date tokens, the template compilation of the declared components
  (their sources are not in the repository),
  \<^verbatim>\<open>console.error\<close>, floating-point rounding, daylight saving time, non-ISO date
  strings (the engines' fallback heuristics), and properties inherited from
  \<^verbatim>\<open>Object.prototype\<close> used as keys.
\<close>


section \<open>Concrete documents\<close>

definition rec_a :: sale where
  "rec_a = empty_sale\<lparr>Region := Val ''West'', Category := Val ''A'', Country := Val ''US'',
     Sales := Val 100, Profit := Val 20, Order_Date := Val ''2023-01-15'',
     Ship_Date := Val ''2023-01-20''\<rparr>"

definition rec_b :: sale where
  "rec_b = empty_sale\<lparr>Region := Val ''West'', Category := Val ''B'', Country := Val ''US'',
     Sales := Val 50, Profit := Val (-10), Order_Date := Val ''2023-08-01'',
     Ship_Date := Val ''not a date''\<rparr>"

lemmas sale_eval = rec_a_def rec_b_def empty_sale_def

section \<open>Grouped sums\<close>

text \<open>
  C1. \<^verbatim>\<open>salesByRegion\<close> is exactly the grouped-sum specification: one entry per
  distinct non-empty region, in the order the regions are first seen, holding the sum
  of the sales (absent or null sales counting as zero) of the records of that region.
\<close>

theorem sales_by_region_spec: "sales_by_region recs = group_spec Region Sales recs"
  by (simp add: sales_by_region_def group_sum_refines_spec)

text \<open>
  C2. When no category name is an array index, \<^verbatim>\<open>Object.entries(topCategories)\<close>
  lists the per-category totals in non-increasing order of value, equal values in the
  order their categories were first seen, and it is a permutation of the totals.
\<close>

theorem top_categories_ranked:
  assumes "\<forall>k \<in> set (group_keys Category recs). \<not> is_array_index k"
  shows "sorted_wrt (\<lambda>p q. snd q \<le> snd p) (obj_entries (top_categories recs)) \<and>
         (\<forall>v. filter (\<lambda>p. snd p = v) (obj_entries (top_categories recs)) =
              filter (\<lambda>p. snd p = v) (group_spec Category Sales recs)) \<and>
         mset (obj_entries (top_categories recs)) = mset (group_spec Category Sales recs)"
proof -
  let ?g = "group_spec Category Sales recs"
  have top: "top_categories recs = sort_key (\<lambda>p. - snd p) ?g"
    using assms by (rule top_categories_sorted_spec)
  have "\<forall>k \<in> fst ` set (top_categories recs). \<not> is_array_index k"
    using assms by (simp add: top keys_group_spec)
  then have ent: "obj_entries (top_categories recs) = sort_key (\<lambda>p. - snd p) ?g"
    by (simp add: obj_entries_no_index top)
  have "sorted (map (\<lambda>p. - snd p) (sort_key (\<lambda>p. - snd p) ?g))"
    by (rule sorted_sort_key)
  then have s: "sorted_wrt (\<lambda>p q. snd q \<le> snd p) (sort_key (\<lambda>p. - snd p) ?g)"
    by (simp add: sorted_map)
  have "filter (\<lambda>p. snd p = v) (sort_key (\<lambda>p. - snd p) ?g) = filter (\<lambda>p. snd p = v) ?g" for v
    using sort_key_stable [of "\<lambda>p. - snd p" "- v" ?g] by simp
  then show ?thesis
    using s by (simp add: ent)
qed

theorem top_categories_ranked_witness:
  "group_keys Category [rec_a, rec_b] = [''A'', ''B''] \<and>
   \<not> is_array_index ''A'' \<and> \<not> is_array_index ''B'' \<and>
   mset (obj_entries (top_categories [rec_a, rec_b])) = mset (group_spec Category Sales [rec_a, rec_b])"
proof -
  have k: "group_keys Category [rec_a, rec_b] = [''A'', ''B'']"
    by (simp add: group_keys_def sale_eval first_seen_def)
  have i: "\<not> is_array_index ''A''" "\<not> is_array_index ''B''"
    by (simp_all add: is_array_index_def is_digit_def)
  have h: "\<forall>k \<in> set (group_keys Category [rec_a, rec_b]). \<not> is_array_index k"
    using k i by simp
  show ?thesis using k i top_categories_ranked [OF h] by blast
qed

text \<open>
  C3. For any records, \<^verbatim>\<open>Object.keys(topCategories)\<close> (the labels of the pie chart)
  lists first the categories whose names are array indices, in ascending numeric order
  whatever their totals, and then the other categories by decreasing total, equal totals
  in the order the categories were first seen: the ranking holds only among the
  categories that are not array indices.
\<close>

theorem top_categories_index_first:
  "\<exists>ks. own_keys (top_categories recs) =
         ks @ map fst (sort_key (\<lambda>p. - snd p) (filter (\<lambda>p. \<not> is_array_index (fst p)) (group_spec Category Sales recs))) \<and>
         set ks = {k \<in> set (group_keys Category recs). is_array_index k} \<and>
         sorted (map decimal_value ks)"
proof -
  let ?g = "group_spec Category Sales recs"
  let ?L = "sort_key (\<lambda>p. - snd p) (obj_entries ?g)"
  have mL: "mset ?L = mset ?g" by simp
  have "distinct (map fst ?L)"
    by (metis distinct_keys_group_spec mL mset_map mset_eq_imp_distinct_iff)
  then have top: "top_categories recs = ?L"
    by (simp add: top_categories_def category_totals_def group_sum_refines_spec js_sort_by_value_desc
        obj_from_entries_distinct)
  define ks where "ks = map fst (sort_key (\<lambda>p. decimal_value (fst p)) (filter (\<lambda>p. is_array_index (fst p)) ?L))"
  have keys: "own_keys (top_categories recs) = ks @ map fst (filter (\<lambda>p. \<not> is_array_index (fst p)) ?L)"
    by (simp add: top own_keys_def obj_entries_def ks_def)
  have "filter (\<lambda>p. \<not> is_array_index (fst p)) (obj_entries ?g) = filter (\<lambda>p. \<not> is_array_index (fst p)) ?g"
    by (simp add: obj_entries_def filter_sort)
  then have nonidx: "filter (\<lambda>p. \<not> is_array_index (fst p)) ?L =
      sort_key (\<lambda>p. - snd p) (filter (\<lambda>p. \<not> is_array_index (fst p)) ?g)"
    by (simp add: filter_sort)
  have "set ks = fst ` {p \<in> set ?g. is_array_index (fst p)}"
    by (simp add: ks_def mset_eq_setD [OF mL, symmetric])
  also have "\<dots> = {k \<in> set (group_keys Category recs). is_array_index k}"
    using keys_group_spec [of Category Sales recs] by auto
  finally have s: "set ks = {k \<in> set (group_keys Category recs). is_array_index k}" .
  have "sorted (map decimal_value ks)"
    using sorted_sort_key [of "\<lambda>p. decimal_value (fst p)"] by (simp add: ks_def o_def)
  moreover have "own_keys (top_categories recs) =
      ks @ map fst (sort_key (\<lambda>p. - snd p) (filter (\<lambda>p. \<not> is_array_index (fst p)) ?g))"
    using keys nonidx by simp
  ultimately show ?thesis using s by blast
qed

section \<open>The worked example\<close>

lemma example_sums: "total_sales [rec_a, rec_b] = 150" "total_profit [rec_a, rec_b] = 10"
  by (simp_all add: total_sales_def total_profit_def sale_eval)

lemma example_monthly:
  "monthly_revenue 0 [rec_a, rec_b] = [(''January 2023'', [(''A'', 100)]), (''August 2023'', [(''B'', 50)])]"
  by (simp add: monthly_revenue_def monthly_step_def record_month_def month_label_def month_names_def
      year_label_def show_nat.simps sale_eval date_eval cal_eval Let_def get_or_zero_def obj_get_def
      char_of_def bit_0)

section \<open>calculateKPIs\<close>

text \<open>
  C4. The profit margin is always a finite number (its division is guarded by
  \<^verbatim>\<open>totalSales > 0\<close>, so it is never NaN or an infinity), and it is 0 exactly when the
  total sales are not positive or the total profit is 0: negative total sales give 0 too.
\<close>

theorem profit_margin_finite:
  "is_finite (profitMargin (calculate_kpis tz c)) \<and>
   (profitMargin (calculate_kpis tz c) = Fin 0 \<longleftrightarrow>
    total_sales (salesData c) \<le> 0 \<or> total_profit (salesData c) = 0)"
  by (auto simp: calculate_kpis_fields)

text \<open>
  C5. The return on investment divides without a guard: it is \<open>100 \<cdot> profit / sales\<close>
  when the total sales are not 0, and otherwise NaN (zero profit) or an infinity of the
  sign of the profit. When the total sales are positive it equals the profit margin.
\<close>

theorem return_on_investment_cases:
  "returnOnInvestment (calculate_kpis tz c) =
     (if total_sales (salesData c) \<noteq> 0
      then Fin (total_profit (salesData c) / total_sales (salesData c) * 100)
      else if total_profit (salesData c) = 0 then NaN
      else if 0 < total_profit (salesData c) then PosInf else NegInf) \<and>
   (0 < total_sales (salesData c) \<longrightarrow>
      returnOnInvestment (calculate_kpis tz c) = profitMargin (calculate_kpis tz c))"
  by (simp add: calculate_kpis_fields)

theorem return_on_investment_cases_witness:
  "0 < total_sales [rec_a, rec_b] \<and>
   returnOnInvestment (calculate_kpis 0 (dashboard_init\<lparr>salesData := [rec_a, rec_b]\<rparr>)) =
     profitMargin (calculate_kpis 0 (dashboard_init\<lparr>salesData := [rec_a, rec_b]\<rparr>))"
proof -
  have h: "0 < total_sales [rec_a, rec_b]" by (simp add: example_sums)
  have "salesData (dashboard_init\<lparr>salesData := [rec_a, rec_b]\<rparr>) = [rec_a, rec_b]" by simp
  then show ?thesis
    using h return_on_investment_cases [of 0 "dashboard_init\<lparr>salesData := [rec_a, rec_b]\<rparr>"] by metis
qed


text \<open>
  C6. The acquisition cost and the lifetime value are always finite numbers: the totals
  divided by the number of records, or by 1 when there is none (\<^verbatim>\<open>length || 1\<close>
  keeps an empty list from giving 0 / 0, which is NaN).
\<close>

theorem acquisition_cost_finite:
  "customerAcquisitionCost (calculate_kpis tz c) =
     Fin (total_sales (salesData c) / real (max 1 (length (salesData c)))) \<and>
   customerLifetimeValue (calculate_kpis tz c) =
     Fin (total_profit (salesData c) / real (max 1 (length (salesData c))))"
  by (cases "salesData c = []") (simp_all add: calculate_kpis_fields record_count_or_one_def max_def Suc_le_eq)

text \<open>
  C7. \<^verbatim>\<open>calculateKPIs\<close> overwrites every KPI field: its result depends only on
  \<^verbatim>\<open>salesData\<close> (and the polling interval it leaves alone), never on the KPI values of a
  previous calculation.
\<close>

theorem calculate_kpis_overwrites:
  assumes "salesData c = salesData c'" "pollingInterval c = pollingInterval c'"
  shows "calculate_kpis tz (c :: dashboard) = calculate_kpis tz c'"
  using assms by (intro dashboard.equality) (simp_all add: calculate_kpis_fields record_count_or_one_def)

theorem calculate_kpis_overwrites_witness:
  "calculate_kpis 0 (dashboard_init\<lparr>salesData := [rec_a]\<rparr>) =
   calculate_kpis 0 (dashboard_init\<lparr>salesData := [rec_a], totalSales := 999, topCategories := [(''Z'', 1)],
     returnOnInvestment := PosInf\<rparr>)"
  by (rule calculate_kpis_overwrites) simp_all

section \<open>Loading and polling\<close>

text \<open>
  C8. In every reachable state of the component the polling interval is 60000 ms and the
  KPI fields are either the initial ones (no response has arrived yet) or exactly the
  ones \<^verbatim>\<open>calculateKPIs\<close> computes from the current \<^verbatim>\<open>salesData\<close>.
\<close>

theorem kpis_invariant:
  "reachable tz s \<Longrightarrow>
   pollingInterval (comp s) = 60000 \<and> (comp s = dashboard_init \<or> kpis_consistent tz (comp s))"
proof (induction rule: reachable.induct)
  case start
  show ?case by (simp add: system_init_def dashboard_init_def)
next
  case (step s e)
  then show ?case
    by (cases e) (simp_all add: issue_request_def on_response_consistent pollingInterval_on_response)
qed

theorem kpis_invariant_witness:
  "reachable 0 (run 0 system_init [Init, Response 0 (Fetched [rec_a, rec_b])]) \<and>
   kpis_consistent 0 (comp (run 0 system_init [Init, Response 0 (Fetched [rec_a, rec_b])]))"
proof -
  have r: "reachable 0 (run 0 system_init [Init, Response 0 (Fetched [rec_a, rec_b])])"
    by (rule reachable_run [OF reachable.start]) (simp add: system_init_def issue_request_def)
  have "salesData (comp (run 0 system_init [Init, Response 0 (Fetched [rec_a, rec_b])])) = [rec_a, rec_b]"
    by (simp add: system_init_def issue_request_def calculate_kpis_fields)
  then have "comp (run 0 system_init [Init, Response 0 (Fetched [rec_a, rec_b])]) \<noteq> dashboard_init"
    by (auto simp: dashboard_init_def)
  with kpis_invariant [OF r] r show ?thesis by blast
qed

text \<open>
  C9. Responses are applied in the order they arrive, not the order the requests were
  issued: when two requests are in flight and the newer one is answered first, the older
  response arrives last and its data replaces the newer data.
\<close>

theorem stale_response_wins:
  assumes "reachable tz s" "i \<in> set (pending s)" "j \<in> set (pending s)" "i < j"
  shows "valid_run s [Response j (Fetched new), Response i (Fetched old)] tz \<and>
         salesData (comp (run tz s [Response j (Fetched new), Response i (Fetched old)])) = old"
proof -
  have "distinct (pending s)" using reachable_requests_wf [OF assms(1)] by (simp add: requests_wf_def)
  then have "i \<in> set (remove1 j (pending s))" using assms(2-4) by simp
  then show ?thesis using assms(3) by (simp add: calculate_kpis_fields)
qed

theorem stale_response_wins_witness:
  "reachable 0 (run 0 system_init [Init, Tick]) \<and> pending (run 0 system_init [Init, Tick]) = [0, 1] \<and>
   salesData (comp (run 0 (run 0 system_init [Init, Tick])
     [Response 1 (Fetched [rec_a, rec_b]), Response 0 (Fetched [rec_a])])) = [rec_a]"
proof -
  have r: "reachable 0 (run 0 system_init [Init, Tick])"
    by (rule reachable_run [OF reachable.start]) (simp add: system_init_def issue_request_def)
  have p: "pending (run 0 system_init [Init, Tick]) = [0, 1]"
    by (simp add: system_init_def issue_request_def)
  show ?thesis
    using r p stale_response_wins [OF r, of 0 1 "[rec_a, rec_b]" "[rec_a]"] by simp
qed

text \<open>
  C10. After \<^verbatim>\<open>ngOnInit\<close> the component keeps loading: in every reachable initialised
  state a timer tick issues a new request, and when its response arrives with data
  \<open>d\<close> the component holds \<open>d\<close> and the KPIs \<^verbatim>\<open>calculateKPIs\<close> computes from it.
\<close>

theorem tick_loads_data:
  assumes "reachable tz s" "initialized s"
  shows "valid_run s [Tick, Response (next_req s) (Fetched d)] tz \<and>
         comp (run tz s [Tick, Response (next_req s) (Fetched d)]) = calculate_kpis tz ((comp s)\<lparr>salesData := d\<rparr>)"
proof -
  have "polling s" "next_req s \<notin> set (pending s)"
    using reachable_requests_wf [OF assms(1)] assms(2) by (auto simp: requests_wf_def)
  then show ?thesis using assms(2) by (simp add: issue_request_def)
qed

theorem tick_loads_data_witness:
  "reachable 0 (run 0 system_init [Init]) \<and> initialized (run 0 system_init [Init]) \<and>
   salesData (comp (run 0 (run 0 system_init [Init]) [Tick, Response 1 (Fetched [rec_b])])) = [rec_b]"
proof -
  have r: "reachable 0 (run 0 system_init [Init])"
    by (rule reachable_run [OF reachable.start]) (simp add: system_init_def issue_request_def)
  have i: "initialized (run 0 system_init [Init])" "next_req (run 0 system_init [Init]) = 1"
    by (simp_all add: system_init_def issue_request_def)
  show ?thesis
    using r i tick_loads_data [OF r i(1), of "[rec_b]"] by (simp add: calculate_kpis_fields)
qed

section \<open>Witnesses of the component theorems\<close>

theorem median_splits_values_witness:
  "calculate_median [5, 1, 3] = 3 \<and> 3 \<le> 2 * length (filter (\<lambda>x. x \<le> 3) [5, 1, 3 :: real])"
proof -
  have m: "calculate_median [5, 1, 3] = (3 :: real)"
    by (simp add: calculate_median_def js_sort_def)
  have "([5, 1, 3] :: real list) \<noteq> []" by simp
  from Fulfillment.median_splits_values [OF this] m show ?thesis by simp
qed

theorem average_fulfillment_median_witness:
  "valid_dates 0 rec_a \<and> \<not> valid_dates 0 rec_b \<and> 0 < fulfillment_days 0 rec_a \<and>
   calculate_average_fulfillment_time 0 [rec_a, rec_b] = Some (calculate_median (fulfillment_times 0 [rec_a, rec_b]))"
proof -
  have a: "valid_dates 0 rec_a" "0 < fulfillment_days 0 rec_a" and b: "\<not> valid_dates 0 rec_b"
    by (simp_all add: valid_dates_def fulfillment_days_def sale_eval date_eval)
  then have "\<forall>r \<in> set [rec_a, rec_b]. valid_dates 0 r \<longrightarrow> 0 < fulfillment_days 0 r"
    "\<exists>r \<in> set [rec_a, rec_b]. valid_dates 0 r" by auto
  from Fulfillment.average_fulfillment_median [OF this] a b show ?thesis by simp
qed

theorem sales_trend_refines_spec_witness:
  "bucket_of 0 rec_a = Some 1672531200000 \<and> bucket_of 0 rec_b = Some 1688169600000 \<and>
   has_sales rec_a \<and> has_sales rec_b \<and> sales_trend 0 [rec_a, rec_b] = trend_spec 0 [rec_a, rec_b]"
proof -
  have b: "bucket_of 0 rec_a = Some 1672531200000" "bucket_of 0 rec_b = Some 1688169600000"
    by (simp_all add: bucket_of_def half_year_start_def order_date_or_epoch_def sale_eval date_eval cal_eval Let_def)
  have h: "has_sales rec_a" "has_sales rec_b" by (simp_all add: has_sales_def sale_eval)
  have "\<forall>r \<in> set [rec_a, rec_b]. bucket_of 0 r \<noteq> None \<and> has_sales r" using b h by simp
  from Trend.sales_trend_refines_spec [OF this] b h show ?thesis by simp
qed

theorem sales_trend_js_refines_witness:
  "bucket_of 0 rec_a \<noteq> None \<and> bucket_of 0 (empty_sale\<lparr>Order_Date := Val ''2023-02-01''\<rparr>) \<noteq> None \<and>
   sales_trend 0 [rec_a, empty_sale\<lparr>Order_Date := Val ''2023-02-01''\<rparr>] =
     trend_js_spec 0 [rec_a, empty_sale\<lparr>Order_Date := Val ''2023-02-01''\<rparr>] \<and>
   (\<exists>p \<in> set (sales_trend 0 [rec_a, empty_sale\<lparr>Order_Date := Val ''2023-02-01''\<rparr>]).
      tp_x p = Some 1672531200000 \<and> tp_y p = Val NaN)"
proof -
  have b: "bucket_of 0 rec_a = Some 1672531200000"
    "bucket_of 0 (empty_sale\<lparr>Order_Date := Val ''2023-02-01''\<rparr>) = Some 1672531200000"
    by (simp_all add: bucket_of_def half_year_start_def order_date_or_epoch_def sale_eval date_eval cal_eval Let_def)
  have s: "Sales (empty_sale\<lparr>Order_Date := Val ''2023-02-01''\<rparr>) = Undefined" by (simp add: empty_sale_def)
  have "\<forall>r \<in> set [rec_a, empty_sale\<lparr>Order_Date := Val ''2023-02-01''\<rparr>]. bucket_of 0 r \<noteq> None"
    using b by simp
  from Trend.sales_trend_js_refines [OF this] b s show ?thesis by auto
qed

theorem half_year_start_roundtrip_witness:
  "get_full_year 0 1673740800000 = 2023 \<and> half_year_start 0 1673740800000 = Some 1672531200000 \<and>
   get_month 0 1672531200000 = 0"
proof -
  have y: "get_full_year 0 1673740800000 = 2023"
    by (simp add: date_eval cal_eval)
  have h: "half_year_start 0 1673740800000 = Some 1672531200000"
    by (simp add: half_year_start_def date_eval cal_eval Let_def)
  have m: "get_month 0 1673740800000 = 0"
    by (simp add: date_eval cal_eval)
  from Trend.half_year_start_roundtrip [OF _ h] y h m show ?thesis by simp
qed


section \<open>Behaviours the specification does not describe\<close>

text \<open>
  Concrete evidence for the findings of the manifest: each lemma evaluates the model at
  one input.
\<close>

text \<open>
  A record whose order date does not parse is put in the epoch's bucket by
  \<^verbatim>\<open>salesTrend\<close> (1 January 1970 in UTC), but \<^verbatim>\<open>monthlyRevenue\<close> files it under the label
  "Invalid Date": no epoch substitution happens there.
\<close>

lemma invalid_order_date_labels:
  "sales_trend 0 [empty_sale\<lparr>Category := Val ''A'', Sales := Val 10, Order_Date := Val ''not a date''\<rparr>] =
     [\<lparr>tp_x = Some 0, tp_y = Val (Fin 10)\<rparr>] \<and>
   monthly_revenue 0 [empty_sale\<lparr>Category := Val ''A'', Sales := Val 10, Order_Date := Val ''not a date''\<rparr>] =
     [(''Invalid Date'', [(''A'', 10)])]"
  by (simp add: sales_trend_def trend_step_def half_year_start_def order_date_or_epoch_def monthly_revenue_def
      monthly_step_def record_month_def month_label_def empty_sale_def date_eval cal_eval Let_def
      num_field_def get_or_zero_def obj_get_def)

text \<open>
  The buckets depend on the time zone of the browser: the date-only string "2023-01-01" is
  read as UTC midnight, and five hours west of UTC that instant is still in 2022, so the
  record falls in the bucket starting 1 July 2022 (local midnight).
\<close>

lemma timezone_shifts_bucket:
  "bucket_of 0 (empty_sale\<lparr>Order_Date := Val ''2023-01-01''\<rparr>) = Some 1672531200000 \<and>
   bucket_of (-18000000) (empty_sale\<lparr>Order_Date := Val ''2023-01-01''\<rparr>) = Some 1656651600000 \<and>
   get_full_year (-18000000) 1656651600000 = 2022 \<and> get_month (-18000000) 1656651600000 = 6"
  by (simp add: bucket_of_def half_year_start_def order_date_or_epoch_def empty_sale_def date_eval cal_eval Let_def)

text \<open>
  An order in a year from 0 to 99 lands in a bucket 1900 years later: for "0099-03-01",
  \<^verbatim>\<open>getFullYear()\<close> is 99 but \<^verbatim>\<open>new Date(99, 0, 1)\<close> is 1 January 1999.
\<close>

lemma two_digit_year_bucket:
  "map_option (get_full_year 0) (new_date 0 (Val ''0099-03-01'')) = Some 99 \<and>
   bucket_of 0 (empty_sale\<lparr>Order_Date := Val ''0099-03-01''\<rparr>) = Some 915148800000"
  by (simp add: bucket_of_def half_year_start_def order_date_or_epoch_def empty_sale_def date_eval cal_eval Let_def)

text \<open>
  A \<^verbatim>\<open>null\<close> ship date counts as a valid date (\<^verbatim>\<open>new Date(null)\<close> is the epoch):
  the record enters the fulfillment statistics with a negative time of -19372 days, and as
  the only record it makes the result \<^verbatim>\<open>null\<close>.
\<close>

lemma null_ship_date_valid:
  "valid_dates 0 (empty_sale\<lparr>Order_Date := Val ''2023-01-15'', Ship_Date := Null\<rparr>) \<and>
   fulfillment_days 0 (empty_sale\<lparr>Order_Date := Val ''2023-01-15'', Ship_Date := Null\<rparr>) = -19372 \<and>
   calculate_average_fulfillment_time 0 [empty_sale\<lparr>Order_Date := Val ''2023-01-15'', Ship_Date := Null\<rparr>] = None"
  by (simp add: valid_dates_def fulfillment_days_def calculate_average_fulfillment_time_def fulfillment_times_def
      calculate_median_def calculate_mean_def js_sort_def empty_sale_def date_eval Let_def)

text \<open>
  The monthly breakdown chart draws only the categories of the first month label: on the
  scenario records, category B, sold only in August, is missing from the chart, although
  \<^verbatim>\<open>monthlyRevenue\<close> holds its 50.
\<close>

lemma monthly_chart_first_month_only:
  "case fst (monthly_chart rnd k (calculate_kpis 0 (dashboard_init\<lparr>salesData := [rec_a, rec_b]\<rparr>))) of
     Inl e \<Rightarrow> False
   | Inr ch \<Rightarrow> chart_labels ch = [''January 2023'', ''August 2023''] \<and> map ds_label (chart_datasets ch) = [''A''] \<and>
       map ds_data (chart_datasets ch) = [Numbers [100, 0]]"
  by (simp add: monthly_chart_def calculate_kpis_fields example_monthly own_keys_def obj_entries_def
      is_array_index_def is_digit_def obj_get_def get_or_zero_def Let_def case_prod_beta)


section \<open>Charts\<close>

theorem render_charts_once_witness:
  "render_charts dashboard_init \<lparr>canvases = [''salesTrendChart''], live_charts = []\<rparr> =
     Inr (\<lparr>canvases = [''salesTrendChart''], live_charts = [trend_chart dashboard_init]\<rparr>, False) \<and>
   render_charts (calculate_kpis 0 (dashboard_init\<lparr>salesData := [rec_a]\<rparr>))
     \<lparr>canvases = [''salesTrendChart''], live_charts = [trend_chart dashboard_init]\<rparr> =
   Inl ''Canvas is already in use''"
proof -
  have ok: "render_charts dashboard_init \<lparr>canvases = [''salesTrendChart''], live_charts = []\<rparr> =
     Inr (\<lparr>canvases = [''salesTrendChart''], live_charts = [trend_chart dashboard_init]\<rparr>, False)"
    by (simp add: render_charts_def render_chart_def new_chart_def chart_canvases dashboard_init_def own_keys_def
        obj_entries_def)
  show ?thesis
    using ok Charts.render_charts_once [OF _ ok] by simp
qed

theorem region_chart_data_witness:
  "group_keys Region [rec_a, rec_b] = [''West''] \<and> \<not> is_array_index ''West'' \<and>
   chart_labels (region_chart (calculate_kpis 0 (dashboard_init\<lparr>salesData := [rec_a, rec_b]\<rparr>))) = [''West'']"
proof -
  have k: "group_keys Region [rec_a, rec_b] = [''West'']"
    by (simp add: group_keys_def sale_eval first_seen_def)
  have i: "\<not> is_array_index ''West''" by (simp add: is_array_index_def is_digit_def)
  have "\<forall>k \<in> set (group_keys Region (salesData (dashboard_init\<lparr>salesData := [rec_a, rec_b]\<rparr>))). \<not> is_array_index k"
    using k i by simp
  from Charts.region_chart_data [OF this, of 0] k i show ?thesis by simp
qed

theorem deferred_chart_shows_later_data_witness:
  "own_keys (monthly_revenue 0 [rec_a, rec_b]) \<noteq> [] \<and>
   (live_charts (pg (ui_run 0 (\<lambda>k. k) ui_init
      [Component Init, Component Tick, Component (Response 0 (Fetched [rec_a, rec_b])), Component (Response 1 (Fetched [rec_b])),
       Timeout])) =
   [trend_chart (calculate_kpis 0 (dashboard_init\<lparr>salesData := [rec_a, rec_b]\<rparr>)),
    region_chart (calculate_kpis 0 (dashboard_init\<lparr>salesData := [rec_a, rec_b]\<rparr>)),
    category_chart (calculate_kpis 0 (dashboard_init\<lparr>salesData := [rec_a, rec_b]\<rparr>)),
    profit_chart (calculate_kpis 0 (dashboard_init\<lparr>salesData := [rec_a, rec_b]\<rparr>))] @
   (case fst (monthly_chart (\<lambda>k. k) 0 (calculate_kpis 0 (dashboard_init\<lparr>salesData := [rec_b]\<rparr>))) of
      Inl e \<Rightarrow> [] | Inr ch \<Rightarrow> [ch]) \<and>
   (isl (fst (monthly_chart (\<lambda>k. k) 0 (calculate_kpis 0 (dashboard_init\<lparr>salesData := [rec_b]\<rparr>)))) \<longleftrightarrow>
      own_keys (monthly_revenue 0 [rec_b]) = []) \<and>
   (case fst (monthly_chart (\<lambda>k. k) 0 (calculate_kpis 0 (dashboard_init\<lparr>salesData := [rec_b]\<rparr>))) of
      Inl e \<Rightarrow> e = ''TypeError''
    | Inr ch \<Rightarrow> chart_labels ch = own_keys (monthly_revenue 0 [rec_b])))"
proof -
  have h: "own_keys (monthly_revenue 0 [rec_a, rec_b]) \<noteq> []"
    by (simp add: example_monthly own_keys_def obj_entries_def is_array_index_def is_digit_def)
  show ?thesis by (rule conjI [OF h Page.deferred_chart_shows_later_data [OF h]])
qed

end
